theory Spec2Isabelle
  imports Complex_Main
begin

section \<open>JavaScript strings\<close>

text \<open>
  A JavaScript string is a sequence of UTF-16 code units. A code unit is modelled as a
  natural number, so that the white space of the language beyond Latin-1 (which
  \<^verbatim>\<open>trim\<close> and the regular expression class \<^verbatim>\<open>\s\<close> both recognise) is part of
  the model. The literals of \<^verbatim>\<open>static/app.js\<close> are ASCII apart from the toast icons and
  are written through \<open>str\<close>.
\<close>

type_synonym jsstring = "nat list"

definition str :: "string \<Rightarrow> jsstring" where
  "str s = map of_char s"

text \<open>
  White space and line terminators of ECMAScript: what \<^verbatim>\<open>String.prototype.trim\<close>
  strips and what \<^verbatim>\<open>\s\<close> matches (TAB, LF, VT, FF, CR, SP, NBSP, U+1680,
  U+2000 to U+200A, U+2028, U+2029, U+202F, U+205F, U+3000, U+FEFF).
\<close>

definition is_space :: "nat \<Rightarrow> bool" where
  "is_space c \<longleftrightarrow>
     c = 9 \<or> c = 10 \<or> c = 11 \<or> c = 12 \<or> c = 13 \<or> c = 32 \<or> c = 160 \<or> c = 5760 \<or>
     (8192 \<le> c \<and> c \<le> 8202) \<or> c = 8232 \<or> c = 8233 \<or> c = 8239 \<or> c = 8287 \<or>
     c = 12288 \<or> c = 65279"

definition trim :: "jsstring \<Rightarrow> jsstring" where
  "trim s = rev (dropWhile is_space (rev (dropWhile is_space s)))"

text \<open>
  \<^verbatim>\<open>text.replace(/[class]/g, f)\<close> for a regular expression that matches one code unit
  of a class: every code unit of the class is replaced by what the callback returns for
  it, every other one is kept.
\<close>

definition replace_class :: "(nat \<Rightarrow> bool) \<Rightarrow> (nat \<Rightarrow> jsstring) \<Rightarrow> jsstring \<Rightarrow> jsstring" where
  "replace_class cls f s = concat (map (\<lambda>c. if cls c then f c else [c]) s)"


section \<open>Escaping and formatting\<close>

text \<open>
  The object literal \<^verbatim>\<open>map\<close> of \<^verbatim>\<open>escapeHtml\<close>, keyed by the code units of
  \<^verbatim>\<open>&\<close>, \<^verbatim>\<open><\<close>, \<^verbatim>\<open>>\<close>, the double quote and the single quote.
\<close>

definition entity_map :: "(nat \<times> jsstring) list" where
  "entity_map =
     [(38, str ''&amp;''), (60, str ''&lt;''), (62, str ''&gt;''),
      (34, str ''&quot;''), (39, str ''&#039;'')]"

text \<open>The character class \<^verbatim>\<open>[&<>"']\<close>.\<close>

definition html_special :: "nat \<Rightarrow> bool" where
  "html_special c \<longleftrightarrow> c = 38 \<or> c = 60 \<or> c = 62 \<or> c = 34 \<or> c = 39"

text \<open>
  \<^verbatim>\<open>text.replace(/[&<>"']/g, (m) => map[m])\<close>. A callback result \<^verbatim>\<open>undefined\<close> would
  be inserted as the text \<^verbatim>\<open>undefined\<close>; the lookup is written with that branch.
\<close>

definition escapeHtml :: "jsstring \<Rightarrow> jsstring" where
  "escapeHtml text =
     replace_class html_special
       (\<lambda>m. case map_of entity_map m of Some e \<Rightarrow> e | None \<Rightarrow> str ''undefined'') text"

text \<open>
  The regular expression \<^verbatim>\<open>/(https?:\/\/[^\s]+)/g\<close> tried at the start of a string:
  the scheme \<^verbatim>\<open>http://\<close> or \<^verbatim>\<open>https://\<close>, then the longest run of code units that
  are not white space, which must not be empty. The result is the matched text and the
  rest of the string after it.
\<close>

definition scheme_length :: "jsstring \<Rightarrow> nat option" where
  "scheme_length s =
     (if take 7 s = str ''http://'' then Some 7
      else if take 8 s = str ''https://'' then Some 8
      else None)"

definition url_match :: "jsstring \<Rightarrow> (jsstring \<times> jsstring) option" where
  "url_match s =
     (case scheme_length s of
        None \<Rightarrow> None
      | Some n \<Rightarrow>
          (let body = takeWhile (\<lambda>c. \<not> is_space c) (drop n s)
           in if body = [] then None
              else Some (take n s @ body, dropWhile (\<lambda>c. \<not> is_space c) (drop n s))))"

text \<open>The replacement \<^verbatim>\<open><a href="$1" target="_blank" rel="noopener">$1</a>\<close>.\<close>

definition anchor :: "jsstring \<Rightarrow> jsstring" where
  \<open>anchor u = str ''<a href="'' @ u @ str ''" target="_blank" rel="noopener">'' @ u @ str ''</a>''\<close>

lemma url_match_shorter:
  assumes "url_match s = Some (u, r)"
  shows "length r < length s"
proof -
  obtain n where n: "scheme_length s = Some n"
    using assms by (auto simp: url_match_def split: option.splits)
  have pos: "0 < n"
    using n by (auto simp: scheme_length_def split: if_splits)
  have ne: "s \<noteq> []"
    using n by (auto simp: scheme_length_def str_def split: if_splits)
  have r: "r = dropWhile (\<lambda>c. \<not> is_space c) (drop n s)"
    using assms n by (auto simp: url_match_def Let_def split: if_splits)
  have "length r \<le> length (drop n s)"
    unfolding r by (rule length_dropWhile_le)
  then have "length r \<le> length s - n" by simp
  moreover have "0 < length s" using ne by simp
  ultimately show ?thesis using pos by linarith
qed

text \<open>
  The global replace of the URL expression: the string is scanned from the left; where
  the expression matches, the anchor is written and the scan goes on after the match,
  otherwise the code unit is copied.
\<close>

function linkify :: "jsstring \<Rightarrow> jsstring" where
  "linkify [] = []"
| "linkify (c # cs) =
     (case url_match (c # cs) of
        Some (u, r) \<Rightarrow> anchor u @ linkify r
      | None \<Rightarrow> c # linkify cs)"
  by pat_completeness auto
termination
  by (relation "measure length") (auto dest: url_match_shorter)

text \<open>\<^verbatim>\<open>formatted.replace(/\n/g, "<br>")\<close>.\<close>

definition line_breaks :: "jsstring \<Rightarrow> jsstring" where
  "line_breaks s = replace_class (\<lambda>c. c = 10) (\<lambda>_. str ''<br>'') s"

definition formatText :: "jsstring \<Rightarrow> jsstring" where
  "formatText text = line_breaks (linkify (escapeHtml text))"


section \<open>Values of the language\<close>

text \<open>
  What \<^verbatim>\<open>response.json()\<close> resolves to, and what a property of it evaluates to. A number
  is only ever tested for truthiness, so a real number stands for it (zero is falsy,
  every other number is truthy; parsing JSON gives no NaN). An object is the list of its
  own properties.
\<close>

datatype jsvalue =
    JUndefined
  | JNull
  | JBool bool
  | JNum real
  | JStr jsstring
  | JArr "jsvalue list"
  | JObj "(jsstring \<times> jsvalue) list"

datatype exn = TypeError | FetchFailed | JsonFailed

text \<open>
  \<^verbatim>\<open>data.answer\<close> and \<^verbatim>\<open>data.error\<close>: reading a property of \<^verbatim>\<open>null\<close> or
  \<^verbatim>\<open>undefined\<close> throws a TypeError; an object gives its own property or
  \<^verbatim>\<open>undefined\<close>; the prototypes of strings, numbers, booleans, arrays and objects define
  neither of the two names, so every other value gives \<^verbatim>\<open>undefined\<close>.
\<close>

definition get_prop :: "jsvalue \<Rightarrow> jsstring \<Rightarrow> exn + jsvalue" where
  "get_prop v k =
     (case v of
        JUndefined \<Rightarrow> Inl TypeError
      | JNull \<Rightarrow> Inl TypeError
      | JObj kvs \<Rightarrow> (case map_of kvs k of Some x \<Rightarrow> Inr x | None \<Rightarrow> Inr JUndefined)
      | _ \<Rightarrow> Inr JUndefined)"

text \<open>The conversion to a boolean that \<^verbatim>\<open>||\<close> applies to its left operand.\<close>

definition truthy :: "jsvalue \<Rightarrow> bool" where
  "truthy v =
     (case v of
        JUndefined \<Rightarrow> False
      | JNull \<Rightarrow> False
      | JBool b \<Rightarrow> b
      | JNum x \<Rightarrow> x \<noteq> 0
      | JStr s \<Rightarrow> s \<noteq> []
      | JArr _ \<Rightarrow> True
      | JObj _ \<Rightarrow> True)"

definition or_else :: "jsvalue \<Rightarrow> jsvalue \<Rightarrow> jsvalue" where
  "or_else v d = (if truthy v then v else d)"

text \<open>
  \<^verbatim>\<open>escapeHtml\<close> and \<^verbatim>\<open>formatText\<close> as they are called, with an argument of any type:
  \<^verbatim>\<open>text.replace\<close> throws a TypeError unless \<^verbatim>\<open>text\<close> is a string (\<^verbatim>\<open>undefined\<close>
  and \<^verbatim>\<open>null\<close> have no properties, and no other value parsed from JSON has a function
  \<^verbatim>\<open>replace\<close>).
\<close>

definition escapeHtml_call :: "jsvalue \<Rightarrow> exn + jsstring" where
  "escapeHtml_call v = (case v of JStr s \<Rightarrow> Inr (escapeHtml s) | _ \<Rightarrow> Inl TypeError)"

definition formatText_call :: "jsvalue \<Rightarrow> exn + jsstring" where
  "formatText_call v =
     (case escapeHtml_call v of
        Inl e \<Rightarrow> Inl e
      | Inr formatted \<Rightarrow> Inr (line_breaks (linkify formatted)))"


section \<open>The page\<close>

text \<open>
  The part of the document and the two module variables that the handlers read and
  write. An element is its class, its id (empty when it has none) and its inner HTML.
  \<open>welcomeScreen\<close> and \<open>chat_container\<close> are \<open>None\<close> when the document has no such
  element, and otherwise hold the element's \<^verbatim>\<open>style.display\<close>. The children of the toast
  container are kept as the sequence of toasts shown; their removal by timers is not
  part of the model, and neither is the scroll position.
\<close>

record element =
  className :: string
  elem_id :: string
  innerHTML :: jsstring

record turn =
  question :: jsstring
  answer :: jsvalue
  timestamp :: int

record page =
  input_value :: jsstring
  input_height :: jsstring
  welcomeScreen :: "string option"
  chatMessages :: "element list"
  toastContainer :: "element list"
  conversationHistory :: "turn list"
  isLoading :: bool
  submit_disabled :: bool
  spinner_hidden :: bool
  icon_hidden :: bool
  btn_text :: string
  nav_active :: "nat list"
  chat_container :: "string option"

text \<open>
  A statement runs on a page and leaves a page, together with the exception it threw,
  if any. The page at the point of the throw is kept: what was written before stays
  written.
\<close>

type_synonym command = "page \<Rightarrow> page \<times> exn option"

definition skip :: command where
  "skip s = (s, None)"

definition throw :: "exn \<Rightarrow> command" where
  "throw e s = (s, Some e)"

definition update :: "(page \<Rightarrow> page) \<Rightarrow> command" where
  "update f s = (f s, None)"

fun block :: "command list \<Rightarrow> command" where
  "block [] s = (s, None)"
| "block (c # cs) s =
     (case c s of
        (s', None) \<Rightarrow> block cs s'
      | (s', Some e) \<Rightarrow> (s', Some e))"

definition try_catch_finally :: "command \<Rightarrow> (exn \<Rightarrow> command) \<Rightarrow> command \<Rightarrow> command" where
  "try_catch_finally body handler final s =
     (let (s1, r1) = body s;
          (s2, r2) = (case r1 of None \<Rightarrow> (s1, None) | Some e \<Rightarrow> handler e s1);
          (s3, r3) = final s2
      in (s3, case r3 of Some e \<Rightarrow> Some e | None \<Rightarrow> r2))"

text \<open>A statement that first evaluates \<^verbatim>\<open>data.name\<close>.\<close>

definition with_prop :: "jsvalue \<Rightarrow> jsstring \<Rightarrow> (jsvalue \<Rightarrow> command) \<Rightarrow> command" where
  "with_prop d k f s = (case get_prop d k of Inl e \<Rightarrow> (s, Some e) | Inr v \<Rightarrow> f v s)"


section \<open>Rendering\<close>

text \<open>
  The template literals of the four kinds of element, with the interpolated text
  between the fixed parts.
\<close>

definition message_html :: "string \<Rightarrow> jsstring \<Rightarrow> jsstring" where
  \<open>message_html label content =
     str ''\<newline>    <div>\<newline>      <div class="message-label">'' @ str label @
     str ''</div>\<newline>      <div class="message-content">'' @ content @
     str ''</div>\<newline>    </div>\<newline>  ''\<close>

definition typing_html :: jsstring where
  \<open>typing_html =
     str ''\<newline>    <div>\<newline>      <div class="message-label">AI Assistant</div>\<newline>'' @
     str ''      <div class="message-content">\<newline>        <div class="typing-indicator">\<newline>'' @
     str ''          <div class="typing-dot"></div>\<newline>          <div class="typing-dot"></div>\<newline>'' @
     str ''          <div class="typing-dot"></div>\<newline>        </div>\<newline>      </div>\<newline>'' @
     str ''    </div>\<newline>  ''\<close>

definition toast_html :: "jsstring \<Rightarrow> jsstring \<Rightarrow> jsstring" where
  \<open>toast_html icon content =
     str ''\<newline>    <span style="font-weight: bold; font-size: 1.2em;">'' @ icon @
     str ''</span>\<newline>    <span>'' @ content @ str ''</span>\<newline>  ''\<close>

definition append_message :: "element \<Rightarrow> page \<Rightarrow> page" where
  "append_message e s = s\<lparr>chatMessages := chatMessages s @ [e]\<rparr>"

definition user_message :: "jsstring \<Rightarrow> element" where
  "user_message text =
     \<lparr>className = ''message message-user'', elem_id = [],
      innerHTML = message_html ''You'' (escapeHtml text)\<rparr>"

definition ai_message :: "jsstring \<Rightarrow> element" where
  "ai_message html =
     \<lparr>className = ''message message-ai'', elem_id = [],
      innerHTML = message_html ''AI Assistant'' html\<rparr>"

definition error_message :: "jsstring \<Rightarrow> element" where
  "error_message html =
     \<lparr>className = ''message message-error'', elem_id = [],
      innerHTML = message_html ''Error'' html\<rparr>"

definition typing_element :: element where
  "typing_element =
     \<lparr>className = ''message message-ai'', elem_id = ''typingIndicator'',
      innerHTML = typing_html\<rparr>"

text \<open>\<^verbatim>\<open>addUserMessage\<close> is only called with the trimmed input, a string.\<close>

definition addUserMessage :: "jsstring \<Rightarrow> command" where
  "addUserMessage text = update (append_message (user_message text))"

text \<open>
  In \<^verbatim>\<open>addAIMessage\<close> and \<^verbatim>\<open>addErrorMessage\<close> the element is appended after its inner
  HTML has been computed: when the formatting throws, nothing has been appended.
\<close>

definition addAIMessage :: "jsvalue \<Rightarrow> command" where
  "addAIMessage text s =
     (case formatText_call text of
        Inl e \<Rightarrow> (s, Some e)
      | Inr html \<Rightarrow> (append_message (ai_message html) s, None))"

definition addErrorMessage :: "jsvalue \<Rightarrow> command" where
  "addErrorMessage text s =
     (case escapeHtml_call text of
        Inl e \<Rightarrow> (s, Some e)
      | Inr html \<Rightarrow> (append_message (error_message html) s, None))"

definition addTypingIndicator :: command where
  "addTypingIndicator = update (append_message typing_element)"

text \<open>
  \<^verbatim>\<open>document.getElementById("typingIndicator")\<close> finds the first element with the id;
  the only elements the program gives that id are children of the message list.
\<close>

fun remove_first :: "('a \<Rightarrow> bool) \<Rightarrow> 'a list \<Rightarrow> 'a list" where
  "remove_first P [] = []"
| "remove_first P (x # xs) = (if P x then xs else x # remove_first P xs)"

definition is_typing :: "element \<Rightarrow> bool" where
  "is_typing e \<longleftrightarrow> elem_id e = ''typingIndicator''"

definition removeTypingIndicator :: command where
  "removeTypingIndicator =
     update (\<lambda>s. s\<lparr>chatMessages := remove_first is_typing (chatMessages s)\<rparr>)"

definition setLoadingState :: "bool \<Rightarrow> command" where
  "setLoadingState loading =
     update (\<lambda>s. s\<lparr>isLoading := loading, submit_disabled := loading,
                     spinner_hidden := \<not> loading, icon_hidden := loading,
                     btn_text := (if loading then ''Sending...'' else ''Send'')\<rparr>)"

text \<open>
  The second argument of \<^verbatim>\<open>showToast\<close>. Each of its nine calls passes one of the
  literals \<^verbatim>\<open>"success"\<close>, \<^verbatim>\<open>"error"\<close> and \<^verbatim>\<open>"info"\<close>, so the parameter ranges
  over these three names; no call leaves it out. (For a name that an object literal
  inherits, such as \<^verbatim>\<open>constructor\<close>, the icon table would give the inherited
  property; no such name is in the type.)
\<close>

datatype toast_type = ToastSuccess | ToastError | ToastInfo

fun type_name :: "toast_type \<Rightarrow> string" where
  "type_name ToastSuccess = ''success''"
| "type_name ToastError = ''error''"
| "type_name ToastInfo = ''info''"

text \<open>
  The icon table of \<^verbatim>\<open>showToast\<close> (check mark, cross, information sign) and its
  fallback, the black circle.
\<close>

definition toast_icon :: "toast_type \<Rightarrow> jsstring" where
  "toast_icon type =
     (case map_of [(''success'', [10003]), (''error'', [10005]), (''info'', [8505::nat])]
             (type_name type) of
        Some i \<Rightarrow> i
      | None \<Rightarrow> [9679])"

definition toast_element :: "jsstring \<Rightarrow> toast_type \<Rightarrow> element" where
  "toast_element html type =
     \<lparr>className = ''toast '' @ type_name type, elem_id = [],
      innerHTML = toast_html (toast_icon type) html\<rparr>"

definition showToast :: "jsvalue \<Rightarrow> toast_type \<Rightarrow> command" where
  "showToast message type s =
     (case escapeHtml_call message of
        Inl e \<Rightarrow> (s, Some e)
      | Inr html \<Rightarrow> (s\<lparr>toastContainer := toastContainer s @ [toast_element html type]\<rparr>, None))"


section \<open>Submitting a question\<close>

text \<open>
  \<^verbatim>\<open>handleSubmit\<close> suspends once, at \<^verbatim>\<open>await fetch\<close>. \<open>handleSubmit_begin\<close> is the
  part that runs when the form is submitted: it returns the page it leaves and the
  request it issued, if any. \<open>handleSubmit_settle\<close> is the part that runs when the
  exchange is over, with the question the first part captured, the time of
  \<^verbatim>\<open>new Date()\<close> and the outcome of the exchange. The call \<^verbatim>\<open>e.preventDefault()\<close>
  acts on the event and the trace of \<^verbatim>\<open>console.error\<close> goes to the console: neither is
  part of the page.
\<close>

record request =
  url :: string
  http_method :: string
  content_type :: string
  body_question :: jsstring

definition API_URL :: string where
  "API_URL = ''/api/ask''"

definition hide_welcome :: command where
  "hide_welcome s =
     (case welcomeScreen s of
        None \<Rightarrow> (s, None)
      | Some _ \<Rightarrow> (s\<lparr>welcomeScreen := Some ''none''\<rparr>, None))"

definition clear_input :: command where
  "clear_input = update (\<lambda>s. s\<lparr>input_value := [], input_height := str ''auto''\<rparr>)"

definition handleSubmit_begin :: "page \<Rightarrow> page \<times> request option" where
  "handleSubmit_begin s =
     (let q = trim (input_value s)
      in if q = [] \<or> isLoading s then (s, None)
         else (fst (block [hide_welcome, addUserMessage q, clear_input,
                           setLoadingState True, addTypingIndicator] s),
               Some \<lparr>url = API_URL, http_method = ''POST'',
                     content_type = ''application/json'', body_question = q\<rparr>))"

text \<open>
  The exchange ends in one of three ways: \<^verbatim>\<open>fetch\<close> rejects, \<^verbatim>\<open>response.json()\<close>
  rejects, or there is a response with its \<^verbatim>\<open>ok\<close> flag (a status from 200 to 299) and
  its parsed body.
\<close>

datatype outcome = FetchRejected | JsonRejected | Response bool jsvalue

definition push_history :: "jsstring \<Rightarrow> int \<Rightarrow> jsvalue \<Rightarrow> command" where
  "push_history q now a =
     update (\<lambda>s. s\<lparr>conversationHistory :=
                       conversationHistory s @ [\<lparr>question = q, answer = a, timestamp = now\<rparr>]\<rparr>)"

definition connect_error_text :: jsstring where
  "connect_error_text =
     str ''Failed to connect to the server. Please make sure the backend is running.''"

definition fallback_error_text :: jsstring where
  "fallback_error_text = str ''An error occurred while getting the answer.''"

definition handleSubmit_try :: "jsstring \<Rightarrow> int \<Rightarrow> outcome \<Rightarrow> command" where
  "handleSubmit_try q now out =
     (case out of
        FetchRejected \<Rightarrow> throw FetchFailed
      | JsonRejected \<Rightarrow> throw JsonFailed
      | Response ok data \<Rightarrow>
          block [removeTypingIndicator,
                 if ok then
                   block [with_prop data (str ''answer'') addAIMessage,
                          with_prop data (str ''answer'') (push_history q now),
                          showToast (JStr (str ''Message sent successfully'')) ToastSuccess]
                 else
                   block [with_prop data (str ''error'')
                            (\<lambda>e. addErrorMessage (or_else e (JStr fallback_error_text))),
                          with_prop data (str ''error'')
                            (\<lambda>e. showToast (or_else e (JStr (str ''Error''))) ToastError)]])"

definition handleSubmit_catch :: "exn \<Rightarrow> command" where
  "handleSubmit_catch error =
     block [removeTypingIndicator,
            addErrorMessage (JStr connect_error_text),
            showToast (JStr (str ''Connection error'')) ToastError]"

definition handleSubmit_settle :: "jsstring \<Rightarrow> int \<Rightarrow> outcome \<Rightarrow> command" where
  "handleSubmit_settle q now out =
     try_catch_finally (handleSubmit_try q now out) handleSubmit_catch (setLoadingState False)"


section \<open>The other handlers\<close>

text \<open>
  \<^verbatim>\<open>clearChat\<close>, with the answer the user gives to \<^verbatim>\<open>confirm\<close>. The welcome screen is
  written without a test for its presence: where the document has none, the assignment
  throws and the statements after it do not run.
\<close>

definition show_welcome :: command where
  "show_welcome s =
     (case welcomeScreen s of
        None \<Rightarrow> (s, Some TypeError)
      | Some _ \<Rightarrow> (s\<lparr>welcomeScreen := Some ''flex''\<rparr>, None))"

definition clearChat :: "bool \<Rightarrow> command" where
  "clearChat confirmed =
     (if confirmed then
        block [update (\<lambda>s. s\<lparr>chatMessages := []\<rparr>),
               show_welcome,
               update (\<lambda>s. s\<lparr>conversationHistory := []\<rparr>),
               showToast (JStr (str ''Chat cleared'')) ToastInfo]
      else skip)"

text \<open>The decimal digits of a number, as a template literal prints it.\<close>

fun show_nat :: "nat \<Rightarrow> jsstring" where
  "show_nat n = (if n < 10 then [48 + n] else show_nat (n div 10) @ [48 + n mod 10])"

declare show_nat.simps [simp del]

text \<open>
  \<^verbatim>\<open>autoResizeTextarea\<close> runs on every input event, with the scroll height the layout
  gives the text area.
\<close>

definition autoResizeTextarea :: "nat \<Rightarrow> command" where
  "autoResizeTextarea scrollHeight =
     update (\<lambda>s. s\<lparr>input_height := show_nat (min scrollHeight 150) @ str ''px''\<rparr>)"

definition showChat :: command where
  "showChat =
     block [\<lambda>s. (case chat_container s of
                   None \<Rightarrow> (s, Some TypeError)
                 | Some _ \<Rightarrow> (s\<lparr>chat_container := Some ''flex''\<rparr>, None)),
            showToast (JStr (str ''Chat view opened'')) ToastInfo]"

text \<open>The listing that \<^verbatim>\<open>showHistory\<close> writes to the console is not part of the page.\<close>

definition showHistory :: command where
  "showHistory s =
     (if length (conversationHistory s) = 0
      then showToast (JStr (str ''No chat history'')) ToastInfo s
      else showToast
             (JStr (show_nat (length (conversationHistory s)) @ str '' messages in history''))
             ToastInfo s)"

definition showSettings :: command where
  "showSettings = showToast (JStr (str ''Settings (not implemented yet)'')) ToastInfo"

text \<open>
  \<^verbatim>\<open>handleNavigation\<close> for a click on the navigation item of a given index, whose
  \<^verbatim>\<open>data-view\<close> attribute is given (\<open>None\<close> when it has none).
\<close>

definition handleNavigation :: "nat \<Rightarrow> jsstring option \<Rightarrow> command" where
  "handleNavigation item view =
     block [update (\<lambda>s. s\<lparr>nav_active := [item]\<rparr>),
            if view = Some (str ''chat'') then showChat
            else if view = Some (str ''history'') then showHistory
            else if view = Some (str ''settings'') then showSettings
            else skip]"

definition initializeApp :: command where
  "initializeApp = showToast (JStr (str ''Welcome to AI Q&A Assistant'')) ToastSuccess"


section \<open>The page over time\<close>

text \<open>
  Execution is single threaded: between the two parts of a submission any other handler
  may run. The system is the page together with the questions of the submissions that
  wait for their response. An event is one run of a handler. An exception that leaves a
  handler is reported by the browser and changes nothing further.
\<close>

record sys =
  ui :: page
  inflight :: "jsstring list"

datatype event =
    Input jsstring nat
  | Submit
  | Settle int outcome
  | ClearChat bool
  | Navigate nat "jsstring option"

fun step :: "event \<Rightarrow> sys \<Rightarrow> sys" where
  "step (Input text scrollHeight) y =
     y\<lparr>ui := fst (autoResizeTextarea scrollHeight ((ui y)\<lparr>input_value := text\<rparr>))\<rparr>"
| "step Submit y =
     (case handleSubmit_begin (ui y) of
        (s, None) \<Rightarrow> y\<lparr>ui := s\<rparr>
      | (s, Some r) \<Rightarrow> y\<lparr>ui := s, inflight := inflight y @ [body_question r]\<rparr>)"
| "step (Settle now out) y =
     (case inflight y of
        [] \<Rightarrow> y
      | q # qs \<Rightarrow> y\<lparr>ui := fst (handleSubmit_settle q now out (ui y)), inflight := qs\<rparr>)"
| "step (ClearChat confirmed) y = y\<lparr>ui := fst (clearChat confirmed (ui y))\<rparr>"
| "step (Navigate item view) y = y\<lparr>ui := fst (handleNavigation item view (ui y))\<rparr>"

fun run :: "event list \<Rightarrow> sys \<Rightarrow> sys" where
  "run [] y = y"
| "run (e # es) y = run es (step e y)"

text \<open>
  The page when the script has been loaded: the module variables have their initial
  values, and the document holds no typing indicator.
\<close>

definition loaded :: "page \<Rightarrow> bool" where
  "loaded s \<longleftrightarrow>
     \<not> isLoading s \<and> conversationHistory s = [] \<and> filter is_typing (chatMessages s) = []"

definition start :: "page \<Rightarrow> sys" where
  "start s = \<lparr>ui = s, inflight = []\<rparr>"


section \<open>Notions used in the statements\<close>

text \<open>
  The messages of the list other than the typing indicator, and the number of typing
  indicators in it.
\<close>

definition rendered :: "element list \<Rightarrow> element list" where
  "rendered ms = filter (\<lambda>e. \<not> is_typing e) ms"

definition typing_count :: "page \<Rightarrow> nat" where
  "typing_count s = length (filter is_typing (chatMessages s))"

text \<open>
  A bare URL: one of the two schemes, followed by at least one code unit, none of them
  white space.
\<close>

definition is_url :: "jsstring \<Rightarrow> bool" where
  "is_url u =
     (case scheme_length u of
        None \<Rightarrow> False
      | Some n \<Rightarrow> drop n u \<noteq> [] \<and> list_all (\<lambda>c. \<not> is_space c) (drop n u))"

text \<open>A page with no message, no toast and an empty input, for concrete runs.\<close>

definition fresh_page :: page where
  "fresh_page =
     \<lparr>input_value = [], input_height = [], welcomeScreen = Some [], chatMessages = [],
      toastContainer = [], conversationHistory = [], isLoading = False,
      submit_disabled = False, spinner_hidden = True, icon_hidden = False,
      btn_text = ''Send'', nav_active = [], chat_container = Some []\<rparr>"

text \<open>
  What holds of the system at every moment: at most one submission waits for its
  response, the loading flag is set exactly while one does, and the message list holds a
  typing indicator only while one does.
\<close>

definition consistent :: "sys \<Rightarrow> bool" where
  "consistent y \<longleftrightarrow>
     length (inflight y) \<le> 1 \<and> (isLoading (ui y) \<longleftrightarrow> inflight y \<noteq> []) \<and>
     typing_count (ui y) \<le> length (inflight y)"


section \<open>Escaping\<close>

lemma escapeHtml_Nil: "escapeHtml [] = []"
  by (simp add: escapeHtml_def replace_class_def)

lemma escapeHtml_Cons:
  "escapeHtml (c # cs) =
     (if c = 38 then str ''&amp;'' else if c = 60 then str ''&lt;''
      else if c = 62 then str ''&gt;'' else if c = 34 then str ''&quot;''
      else if c = 39 then str ''&#039;'' else [c]) @ escapeHtml cs"
  by (simp add: escapeHtml_def replace_class_def html_special_def entity_map_def)

lemma escapeHtml_append: "escapeHtml (a @ b) = escapeHtml a @ escapeHtml b"
  by (simp add: escapeHtml_def replace_class_def)

lemma escapeHtml_plain: "\<not> html_special c \<Longrightarrow> escapeHtml [c] = [c]"
  by (simp add: escapeHtml_def replace_class_def)

lemma escapeHtml_empty: "escapeHtml s = [] \<longleftrightarrow> s = []"
  by (cases s) (auto simp: escapeHtml_Nil escapeHtml_Cons str_def)

lemma space_not_special: "is_space w \<Longrightarrow> \<not> html_special w"
  by (auto simp: is_space_def html_special_def)


lemma escapeHtml_unit_markup:
  "c \<in> set (escapeHtml [x]) \<Longrightarrow> c \<noteq> 60 \<and> c \<noteq> 62 \<and> c \<noteq> 34 \<and> c \<noteq> 39"
  by (auto simp: escapeHtml_Cons escapeHtml_Nil str_def split: if_splits)

lemma escapeHtml_set_Cons:
  "set (escapeHtml (x # s)) = set (escapeHtml [x]) \<union> set (escapeHtml s)"
  using escapeHtml_append [of "[x]" s] by simp

lemma escapeHtml_no_markup:
  "c \<in> set (escapeHtml s) \<Longrightarrow> c \<noteq> 60 \<and> c \<noteq> 62 \<and> c \<noteq> 34 \<and> c \<noteq> 39"
proof (induction s)
  case Nil
  then show ?case by (simp add: escapeHtml_Nil)
next
  case (Cons x s)
  then show ?case
    using escapeHtml_set_Cons [of x s] escapeHtml_unit_markup [of c x] by blast
qed

lemma escapeHtml_unit_space:
  "c \<in> set (escapeHtml [x]) \<Longrightarrow> is_space c \<Longrightarrow> x = c"
  by (auto simp: escapeHtml_Cons escapeHtml_Nil str_def split: if_splits)
     (simp_all add: is_space_def)

lemma escapeHtml_space:
  "c \<in> set (escapeHtml s) \<Longrightarrow> is_space c \<Longrightarrow> c \<in> set s"
proof (induction s)
  case Nil
  then show ?case by (simp add: escapeHtml_Nil)
next
  case (Cons x s)
  then show ?case
    using escapeHtml_set_Cons [of x s] escapeHtml_unit_space [of c x] by auto
qed


section \<open>Links and line breaks\<close>

lemma take_eq_before_space:
  assumes "w \<notin> set H" and "length H = n"
  shows "take n (xs @ w # rest) = H \<longleftrightarrow> take n xs = H"
proof (cases "n \<le> length xs")
  case True
  then show ?thesis by simp
next
  case False
  then have lt: "length xs < n" by simp
  have "length (take n xs) \<noteq> length H" using lt assms(2) by simp
  then have a: "take n xs \<noteq> H" by metis
  have "take n (xs @ w # rest) = xs @ w # take (n - Suc (length xs)) rest"
    using lt by (simp add: take_Cons')
  then have "w \<in> set (take n (xs @ w # rest))" by simp
  then have "take n (xs @ w # rest) \<noteq> H" using assms(1) by metis
  with a show ?thesis by simp
qed

lemma scheme_length_before_space:
  assumes "is_space w"
  shows "scheme_length (xs @ w # rest) = scheme_length xs"
proof -
  have w7: "w \<notin> set (str ''http://'')" and w8: "w \<notin> set (str ''https://'')"
    using assms by (auto simp: str_def is_space_def)
  have l7: "length (str ''http://'') = 7" and l8: "length (str ''https://'') = 8"
    by (simp_all add: str_def)
  have "take 7 (xs @ w # rest) = str ''http://'' \<longleftrightarrow> take 7 xs = str ''http://''"
    by (rule take_eq_before_space [OF w7 l7])
  moreover have "take 8 (xs @ w # rest) = str ''https://'' \<longleftrightarrow> take 8 xs = str ''https://''"
    by (rule take_eq_before_space [OF w8 l8])
  ultimately show ?thesis unfolding scheme_length_def by simp
qed

lemma scheme_length_le:
  assumes "scheme_length xs = Some n"
  shows "n \<le> length xs" and "0 < n"
proof -
  have "(n = 7 \<and> take 7 xs = str ''http://'') \<or> (n = 8 \<and> take 8 xs = str ''https://'')"
    using assms by (auto simp: scheme_length_def split: if_splits)
  then have "length (take n xs) = n" by (auto simp: str_def simp del: length_take)
  then show "n \<le> length xs" by simp
  show "0 < n" using assms by (auto simp: scheme_length_def split: if_splits)
qed

lemma url_match_before_space:
  assumes "is_space w"
  shows "url_match (xs @ w # rest) =
         map_option (\<lambda>(u, r). (u, r @ w # rest)) (url_match xs)"
proof (cases "scheme_length xs")
  case None
  then show ?thesis
    by (simp add: url_match_def scheme_length_before_space [OF assms])
next
  case (Some n)
  then have "n \<le> length xs" by (rule scheme_length_le)
  then show ?thesis
    using Some assms
    by (simp add: url_match_def scheme_length_before_space [OF assms] Let_def
        takeWhile_tail dropWhile_append3)
qed

lemma linkify_space:
  assumes "is_space w"
  shows "linkify (xs @ w # rest) = linkify xs @ w # linkify rest"
proof (induction xs rule: linkify.induct)
  case 1
  have "url_match (w # rest) = None"
    using url_match_before_space [OF assms, of "[]" rest]
    by (simp add: url_match_def scheme_length_def str_def)
  then show ?case by simp
next
  case (2 c cs)
  show ?case
  proof (cases "url_match (c # cs)")
    case None
    then have "url_match ((c # cs) @ w # rest) = None"
      using url_match_before_space [OF assms, of "c # cs" rest] by simp
    then show ?thesis using None 2 by simp
  next
    case (Some m)
    obtain u r where m: "m = (u, r)" by (cases m)
    have "url_match ((c # cs) @ w # rest) = Some (u, r @ w # rest)"
      using Some m url_match_before_space [OF assms, of "c # cs" rest] by simp
    then show ?thesis using Some m 2 by simp
  qed
qed

lemma linkify_url:
  assumes "scheme_length u = Some n" and "drop n u \<noteq> []"
    and "\<forall>c \<in> set (drop n u). \<not> is_space c"
  shows "linkify u = anchor u"
proof -
  have tw: "takeWhile (\<lambda>c. \<not> is_space c) (drop n u) = drop n u"
    using assms(3) by (simp add: takeWhile_eq_all_conv)
  have dw: "dropWhile (\<lambda>c. \<not> is_space c) (drop n u) = []"
    using assms(3) by simp
  have "url_match u = Some (u, [])"
    using assms(1,2) by (simp add: url_match_def Let_def tw dw)
  moreover obtain c cs where "u = c # cs"
    using assms(2) by (cases u) auto
  ultimately show ?thesis by simp
qed

lemma line_breaks_append: "line_breaks (a @ b) = line_breaks a @ line_breaks b"
  by (simp add: line_breaks_def replace_class_def)

lemma line_breaks_Nil: "line_breaks [] = []"
  by (simp add: line_breaks_def replace_class_def)

lemma https_not_http:
  assumes "take 8 x = str ''https://''"
  shows "take 7 x \<noteq> str ''http://''"
proof -
  have "take 7 x = take 7 (take 8 x)" by simp
  then have "take 7 x = take 7 (str ''https://'')" by (simp only: assms)
  then show ?thesis by (simp add: str_def)
qed

lemma line_breaks_unit: "line_breaks [w] = (if w = 10 then str ''<br>'' else [w])"
  by (simp add: line_breaks_def replace_class_def)

lemma line_breaks_Cons: "line_breaks (w # s) = (if w = 10 then str ''<br>'' else [w]) @ line_breaks s"
  by (simp add: line_breaks_def replace_class_def)

lemma line_breaks_id: "10 \<notin> set s \<Longrightarrow> line_breaks s = s"
  by (induction s) (auto simp: line_breaks_Cons line_breaks_def replace_class_def)

lemma formatText_Nil: "formatText [] = []"
  by (simp add: formatText_def escapeHtml_Nil line_breaks_def replace_class_def)

lemma formatText_space:
  assumes "is_space w"
  shows "formatText (a @ w # b) = formatText a @ line_breaks [w] @ formatText b"
proof -
  have "escapeHtml (a @ w # b) = escapeHtml a @ w # escapeHtml b"
    using escapeHtml_append [of a "w # b"] escapeHtml_append [of "[w]" b]
      escapeHtml_plain [OF space_not_special [OF assms]]
    by simp
  then show ?thesis
    by (simp add: formatText_def linkify_space [OF assms] line_breaks_append line_breaks_Cons
        line_breaks_Nil)
qed

lemma scheme_plain:
  assumes "scheme_length u = Some n"
  shows "escapeHtml (take n u) = take n u"
proof -
  have "take n u = str ''http://'' \<or> take n u = str ''https://''"
    using assms by (auto simp: scheme_length_def split: if_splits)
  then show ?thesis
    by (auto simp: str_def escapeHtml_Cons escapeHtml_Nil)
qed

lemma escaped_url:
  assumes "is_url u"
  shows "linkify (escapeHtml u) = anchor (escapeHtml u)" and "10 \<notin> set (escapeHtml u)"
proof -
  obtain n where n: "scheme_length u = Some n"
    and ne: "drop n u \<noteq> []" and ns: "\<forall>c \<in> set (drop n u). \<not> is_space c"
    using assms by (auto simp: is_url_def list_all_iff split: option.splits)
  have nle: "n \<le> length u" using n by (rule scheme_length_le)
  have n78: "(n = 7 \<and> take 7 u = str ''http://'') \<or> (n = 8 \<and> take 8 u = str ''https://'')"
    using n by (auto simp: scheme_length_def split: if_splits)
  have split: "escapeHtml u = take n u @ escapeHtml (drop n u)"
    using escapeHtml_append [of "take n u" "drop n u"] scheme_plain [OF n] by simp
  have len: "length (take n u) = n" using nle by simp
  have tk: "take n (escapeHtml u) = take n u"
    using split len by (metis append_eq_conv_conj)
  have dr: "drop n (escapeHtml u) = escapeHtml (drop n u)"
    using split len by (metis append_eq_conv_conj)
  have sl: "scheme_length (escapeHtml u) = Some n"
    using n78 tk https_not_http [of "escapeHtml u"] by (auto simp: scheme_length_def)
  have ne': "drop n (escapeHtml u) \<noteq> []"
    using ne by (simp add: dr escapeHtml_empty)
  have ns': "\<forall>c \<in> set (drop n (escapeHtml u)). \<not> is_space c"
    using ns escapeHtml_space [of _ "drop n u"] unfolding dr by blast
  show "linkify (escapeHtml u) = anchor (escapeHtml u)"
    using sl ne' ns' by (rule linkify_url)
  have "10 \<notin> set (take n u)"
    using n78 by (auto simp: str_def)
  moreover have "10 \<notin> set (escapeHtml (drop n u))"
    using ns' unfolding dr by (auto simp: is_space_def)
  ultimately show "10 \<notin> set (escapeHtml u)"
    using split by (metis Un_iff set_append)
qed

lemma formatText_url:
  assumes "is_url u"
  shows "formatText u = anchor (escapeHtml u)"
proof -
  have "10 \<notin> set (anchor (escapeHtml u))"
    using escaped_url(2) [OF assms] by (simp add: anchor_def str_def)
  then show ?thesis
    by (simp add: formatText_def escaped_url(1) [OF assms] line_breaks_id)
qed

lemma formatText_between:
  assumes "is_url u" and "pre = [] \<or> is_space (last pre)" and "post = [] \<or> is_space (hd post)"
  shows "formatText (pre @ u @ post) = formatText pre @ anchor (escapeHtml u) @ formatText post"
proof -
  have right: "formatText (u @ post) = anchor (escapeHtml u) @ formatText post"
  proof (cases post)
    case Nil
    then show ?thesis by (simp add: formatText_url [OF assms(1)] formatText_Nil)
  next
    case (Cons w q)
    then have "is_space w" using assms(3) by simp
    then show ?thesis
      using formatText_space [of w u q] formatText_space [of w "[]" q] Cons
      by (simp add: formatText_url [OF assms(1)] formatText_Nil)
  qed
  show ?thesis
  proof (cases pre rule: rev_cases)
    case Nil
    then show ?thesis by (simp add: right formatText_Nil)
  next
    case (snoc p w)
    then have "is_space w" using assms(2) by simp
    then show ?thesis
      using formatText_space [of w p "u @ post"] formatText_space [of w p "[]"] snoc
      by (simp add: right formatText_Nil)
  qed
qed

lemma plain_escapeHtml: "\<forall>c \<in> set s. \<not> html_special c \<Longrightarrow> escapeHtml s = s"
  by (induction s) (auto simp: escapeHtml_Nil escapeHtml_Cons html_special_def)


lemma escapeHtml_Cons_unit: "escapeHtml (c # cs) = escapeHtml [c] @ escapeHtml cs"
  using escapeHtml_append [of "[c]" cs] by simp

lemma escapeHtml_special_hd:
  assumes "html_special c"
  shows "\<exists>t. escapeHtml (c # cs) = 38 # t"
  using assms by (auto simp: escapeHtml_Cons html_special_def str_def)

lemma take_escapeHtml:
  assumes "\<forall>c \<in> set H. \<not> html_special c" and "length H = n"
  shows "take n (escapeHtml s) = H \<longleftrightarrow> take n s = H"
proof -
  define p where "p = takeWhile (\<lambda>c. \<not> html_special c) s"
  define d where "d = dropWhile (\<lambda>c. \<not> html_special c) s"
  have s: "s = p @ d" by (simp add: p_def d_def)
  have "\<forall>c \<in> set p. \<not> html_special c"
    unfolding p_def by (metis set_takeWhileD)
  then have ep: "escapeHtml p = p" by (rule plain_escapeHtml)
  have es: "escapeHtml s = p @ escapeHtml d"
    unfolding s escapeHtml_append ep using s by simp
  show ?thesis
  proof (cases d)
    case Nil
    then show ?thesis using s es by (simp add: escapeHtml_Nil)
  next
    case (Cons c r)
    have sp: "html_special c"
      using Cons hd_dropWhile [of "\<lambda>c. \<not> html_special c" s] unfolding d_def by fastforce
    then obtain t where t: "escapeHtml d = 38 # t"
      using escapeHtml_special_hd Cons by blast
    have "html_special 38" by (simp add: html_special_def)
    then have a: "38 \<notin> set H" using assms(1) by blast
    have b: "c \<notin> set H" using assms(1) sp by blast
    have "take n (escapeHtml s) = H \<longleftrightarrow> take n p = H"
      unfolding es t by (rule take_eq_before_space [OF a assms(2)])
    moreover have "take n s = H \<longleftrightarrow> take n p = H"
      using take_eq_before_space [OF b assms(2), of p r] s Cons by simp
    ultimately show ?thesis by simp
  qed
qed

lemma scheme_length_escapeHtml: "scheme_length (escapeHtml s) = scheme_length s"
proof -
  have "take 7 (escapeHtml s) = str ''http://'' \<longleftrightarrow> take 7 s = str ''http://''"
    by (rule take_escapeHtml) (simp_all add: str_def html_special_def)
  moreover have "take 8 (escapeHtml s) = str ''https://'' \<longleftrightarrow> take 8 s = str ''https://''"
    by (rule take_escapeHtml) (simp_all add: str_def html_special_def)
  ultimately show ?thesis unfolding scheme_length_def by simp
qed

lemma escapeHtml_unit_nonspace:
  assumes "\<not> is_space c"
  shows "\<forall>x \<in> set (escapeHtml [c]). \<not> is_space x" and "escapeHtml [c] \<noteq> []"
  using assms escapeHtml_unit_space [of _ c] by (auto simp: escapeHtml_empty)

lemma takeWhile_escapeHtml:
  "takeWhile (\<lambda>c. \<not> is_space c) (escapeHtml s) = escapeHtml (takeWhile (\<lambda>c. \<not> is_space c) s)"
proof (induction s)
  case Nil
  then show ?case by (simp add: escapeHtml_Nil)
next
  case (Cons c s)
  show ?case
  proof (cases "is_space c")
    case True
    then have "escapeHtml (c # s) = c # escapeHtml s"
      using escapeHtml_Cons_unit [of c s] escapeHtml_plain [OF space_not_special [OF True]]
      by simp
    then show ?thesis using True by (simp add: escapeHtml_Nil)
  next
    case False
    have "takeWhile (\<lambda>c. \<not> is_space c) (escapeHtml [c] @ escapeHtml s) =
        escapeHtml [c] @ takeWhile (\<lambda>c. \<not> is_space c) (escapeHtml s)"
      using escapeHtml_unit_nonspace(1) [OF False] by (simp add: takeWhile_append2)
    then show ?thesis
      using False Cons escapeHtml_Cons_unit [of c s]
        escapeHtml_Cons_unit [of c "takeWhile (\<lambda>c. \<not> is_space c) s"]
      by simp
  qed
qed

lemma dropWhile_escapeHtml:
  "dropWhile (\<lambda>c. \<not> is_space c) (escapeHtml s) = escapeHtml (dropWhile (\<lambda>c. \<not> is_space c) s)"
proof (induction s)
  case Nil
  then show ?case by (simp add: escapeHtml_Nil)
next
  case (Cons c s)
  show ?case
  proof (cases "is_space c")
    case True
    then have "escapeHtml (c # s) = c # escapeHtml s"
      using escapeHtml_Cons_unit [of c s] escapeHtml_plain [OF space_not_special [OF True]]
      by simp
    then show ?thesis using True by simp
  next
    case False
    have "dropWhile (\<lambda>c. \<not> is_space c) (escapeHtml [c] @ escapeHtml s) =
        dropWhile (\<lambda>c. \<not> is_space c) (escapeHtml s)"
      using escapeHtml_unit_nonspace(1) [OF False] by (simp add: dropWhile_append2)
    then show ?thesis
      using False Cons escapeHtml_Cons_unit [of c s] by simp
  qed
qed

lemma url_match_escapeHtml:
  "url_match (escapeHtml s) =
     map_option (\<lambda>(u, r). (escapeHtml u, escapeHtml r)) (url_match s)"
proof (cases "scheme_length s")
  case None
  then show ?thesis by (simp add: url_match_def scheme_length_escapeHtml)
next
  case (Some n)
  have nle: "n \<le> length s" using Some by (rule scheme_length_le)
  have split: "escapeHtml s = take n s @ escapeHtml (drop n s)"
    using escapeHtml_append [of "take n s" "drop n s"] scheme_plain [OF Some] by simp
  have len: "length (take n s) = n" using nle by simp
  have tk: "take n (escapeHtml s) = take n s"
    using split len by (metis append_eq_conv_conj)
  have dr: "drop n (escapeHtml s) = escapeHtml (drop n s)"
    using split len by (metis append_eq_conv_conj)
  show ?thesis
    using Some scheme_plain [OF Some]
    by (simp add: url_match_def scheme_length_escapeHtml Let_def tk dr takeWhile_escapeHtml
        dropWhile_escapeHtml escapeHtml_empty escapeHtml_append)
qed

lemma url_match_hd:
  assumes "x \<noteq> 104"
  shows "url_match (x # xs) = None"
  using assms by (simp add: url_match_def scheme_length_def str_def)

lemma linkify_plain_prefix:
  assumes "104 \<notin> set e"
  shows "linkify (e @ rest) = e @ linkify rest"
  using assms by (induction e) (simp_all add: url_match_hd)

lemma escapeHtml_unit_no_h:
  assumes "html_special c"
  shows "104 \<notin> set (escapeHtml [c])"
  using assms by (auto simp: escapeHtml_Cons escapeHtml_Nil html_special_def str_def)

lemma url_match_Some:
  assumes "url_match s = Some (u, r)"
  shows "s = u @ r" and "is_url u" and "r = [] \<or> is_space (hd r)"
proof -
  let ?P = "\<lambda>c. \<not> is_space c"
  obtain n where n: "scheme_length s = Some n"
    using assms by (auto simp: url_match_def split: option.splits)
  have u: "u = take n s @ takeWhile ?P (drop n s)" and r: "r = dropWhile ?P (drop n s)"
    and ne: "takeWhile ?P (drop n s) \<noteq> []"
    using assms n by (auto simp: url_match_def Let_def split: if_splits)
  show "s = u @ r" unfolding u r by simp
  show "r = [] \<or> is_space (hd r)"
    unfolding r using hd_dropWhile [of ?P "drop n s"] by blast
  have nle: "n \<le> length s" using n by (rule scheme_length_le)
  have len: "length (take n s) = n" using nle by simp
  have tk: "take n u = take n s" unfolding u using len by simp
  have dr: "drop n u = takeWhile ?P (drop n s)" unfolding u using len by simp
  have n78: "(n = 7 \<and> take 7 s = str ''http://'') \<or> (n = 8 \<and> take 8 s = str ''https://'')"
    using n by (auto simp: scheme_length_def split: if_splits)
  have "scheme_length u = Some n"
    using n78 tk https_not_http [of u] by (auto simp: scheme_length_def)
  moreover have "list_all ?P (drop n u)"
    unfolding dr list_all_iff by (metis set_takeWhileD)
  ultimately show "is_url u" using ne dr by (simp add: is_url_def)
qed

lemma url_match_url:
  assumes "is_url u" and "r = [] \<or> is_space (hd r)"
  shows "url_match (u @ r) = Some (u, r)"
proof -
  let ?P = "\<lambda>c. \<not> is_space c"
  obtain n where n: "scheme_length u = Some n"
    and ne: "drop n u \<noteq> []" and ns: "\<forall>c \<in> set (drop n u). ?P c"
    using assms(1) by (auto simp: is_url_def list_all_iff split: option.splits)
  have nle: "n \<le> length u" using n by (rule scheme_length_le)
  have n78: "(n = 7 \<and> take 7 u = str ''http://'') \<or> (n = 8 \<and> take 8 u = str ''https://'')"
    using n by (auto simp: scheme_length_def split: if_splits)
  have tk: "take n (u @ r) = take n u" using nle by simp
  have dr: "drop n (u @ r) = drop n u @ r" using nle by simp
  have sl: "scheme_length (u @ r) = Some n"
    using n78 tk https_not_http [of "u @ r"] by (auto simp: scheme_length_def)
  have tw: "takeWhile ?P (drop n u @ r) = drop n u"
  proof (cases r)
    case Nil
    then show ?thesis using ns by (simp add: takeWhile_eq_all_conv)
  next
    case (Cons w q)
    then have "is_space w" using assms(2) by simp
    then show ?thesis using ns Cons by (simp add: takeWhile_tail takeWhile_eq_all_conv)
  qed
  have dw: "dropWhile ?P (drop n u @ r) = r"
  proof (cases r)
    case Nil
    then show ?thesis using ns by simp
  next
    case (Cons w q)
    then have "is_space w" using assms(2) by simp
    then show ?thesis using ns Cons by (simp add: dropWhile_append3)
  qed
  show ?thesis
    using ne by (simp add: url_match_def sl Let_def dr tw dw tk del: append_take_drop_id)
      (metis append_take_drop_id)
qed

lemma url_match_iff:
  "url_match s = Some (u, r) \<longleftrightarrow> s = u @ r \<and> is_url u \<and> (r = [] \<or> is_space (hd r))"
  using url_match_Some [of s u r] url_match_url [of u r] by blast

lemma formatText_match:
  assumes "url_match s = Some (u, r)"
  shows "formatText s = anchor (escapeHtml u) @ formatText r"
proof -
  have m: "url_match (escapeHtml s) = Some (escapeHtml u, escapeHtml r)"
    using assms by (simp add: url_match_escapeHtml)
  then have "escapeHtml s \<noteq> []"
    by (auto simp: url_match_def scheme_length_def str_def)
  then obtain x xs where x: "escapeHtml s = x # xs" by (cases "escapeHtml s") auto
  have l: "linkify (escapeHtml s) = anchor (escapeHtml u) @ linkify (escapeHtml r)"
    using m unfolding x by simp
  have "is_url u" using assms by (rule url_match_Some)
  then have "10 \<notin> set (anchor (escapeHtml u))"
    using escaped_url(2) [of u] by (simp add: anchor_def str_def)
  then have "line_breaks (anchor (escapeHtml u)) = anchor (escapeHtml u)"
    by (rule line_breaks_id)
  then show ?thesis
    by (simp add: formatText_def l line_breaks_append)
qed

lemma formatText_no_match:
  assumes "url_match (c # cs) = None"
  shows "formatText (c # cs) = (if c = 10 then str ''<br>'' else escapeHtml [c]) @ formatText cs"
proof (cases "html_special c")
  case True
  have e: "escapeHtml (c # cs) = escapeHtml [c] @ escapeHtml cs"
    by (rule escapeHtml_Cons_unit)
  have l: "linkify (escapeHtml (c # cs)) = escapeHtml [c] @ linkify (escapeHtml cs)"
    unfolding e using escapeHtml_unit_no_h [OF True] by (rule linkify_plain_prefix)
  have "10 \<notin> set (escapeHtml [c])"
    using True by (auto simp: escapeHtml_Cons escapeHtml_Nil html_special_def str_def)
  then have "line_breaks (escapeHtml [c]) = escapeHtml [c]" by (rule line_breaks_id)
  moreover have "c \<noteq> 10" using True by (auto simp: html_special_def)
  ultimately show ?thesis
    by (simp add: formatText_def l line_breaks_append)
next
  case False
  have e: "escapeHtml (c # cs) = c # escapeHtml cs"
    using escapeHtml_Cons_unit [of c cs] escapeHtml_plain [OF False] by simp
  have "url_match (c # escapeHtml cs) = None"
    using assms url_match_escapeHtml [of "c # cs"] unfolding e by simp
  then have l: "linkify (escapeHtml (c # cs)) = c # linkify (escapeHtml cs)"
    unfolding e by simp
  show ?thesis
    using escapeHtml_plain [OF False]
    by (simp add: formatText_def l line_breaks_Cons)
qed


section \<open>The paths of a settlement\<close>

lemmas command_defs =
  skip_def throw_def update_def with_prop_def try_catch_finally_def
  removeTypingIndicator_def setLoadingState_def addAIMessage_def addErrorMessage_def
  showToast_def push_history_def addUserMessage_def addTypingIndicator_def
  append_message_def hide_welcome_def clear_input_def

lemma escapeHtml_call_str: "escapeHtml_call (JStr t) = Inr (escapeHtml t)"
  by (simp add: escapeHtml_call_def)

lemma formatText_call_str: "formatText_call (JStr t) = Inr (formatText t)"
  by (simp add: formatText_call_def escapeHtml_call_def formatText_def)

lemma escapeHtml_call_other: "(\<forall>t. v \<noteq> JStr t) \<Longrightarrow> escapeHtml_call v = Inl TypeError"
  by (cases v) (simp_all add: escapeHtml_call_def)

lemma formatText_call_other: "(\<forall>t. v \<noteq> JStr t) \<Longrightarrow> formatText_call v = Inl TypeError"
  by (simp add: formatText_call_def escapeHtml_call_other)

lemma settle_success:
  assumes "get_prop data (str ''answer'') = Inr (JStr a)"
  shows "handleSubmit_settle q now (Response True data) s =
    (s\<lparr>chatMessages := remove_first is_typing (chatMessages s) @ [ai_message (formatText a)],
       conversationHistory :=
         conversationHistory s @ [\<lparr>question = q, answer = JStr a, timestamp = now\<rparr>],
       toastContainer := toastContainer s @
         [toast_element (escapeHtml (str ''Message sent successfully'')) ToastSuccess],
       isLoading := False, submit_disabled := False, spinner_hidden := True,
       icon_hidden := False, btn_text := ''Send''\<rparr>, None)"
  using assms
  by (simp add: handleSubmit_settle_def handleSubmit_try_def command_defs
      escapeHtml_call_str formatText_call_str)

lemma settle_catch:
  "handleSubmit_catch e s =
    (s\<lparr>chatMessages := remove_first is_typing (chatMessages s) @
         [error_message (escapeHtml connect_error_text)],
       toastContainer := toastContainer s @
         [toast_element (escapeHtml (str ''Connection error'')) ToastError]\<rparr>, None)"
  by (simp add: handleSubmit_catch_def command_defs escapeHtml_call_str)

lemma rendered_remove_first: "rendered (remove_first is_typing ms) = rendered ms"
  by (induction ms) (simp_all add: rendered_def)

lemma filter_remove_first:
  "length (filter P (remove_first P ms)) = length (filter P ms) - 1"
  by (induction ms) simp_all

lemma not_typing_message [simp]:
  "\<not> is_typing (user_message t)" "\<not> is_typing (ai_message h)" "\<not> is_typing (error_message h)"
  "is_typing typing_element"
  by (simp_all add: is_typing_def user_message_def ai_message_def error_message_def
      typing_element_def)

lemma settle_rejected:
  assumes "out = FetchRejected \<or> out = JsonRejected"
  shows "handleSubmit_settle q now out s =
    (s\<lparr>chatMessages := remove_first is_typing (chatMessages s) @
         [error_message (escapeHtml connect_error_text)],
       toastContainer := toastContainer s @
         [toast_element (escapeHtml (str ''Connection error'')) ToastError],
       isLoading := False, submit_disabled := False, spinner_hidden := True,
       icon_hidden := False, btn_text := ''Send''\<rparr>, None)"
  using assms
  by (auto simp: handleSubmit_settle_def handleSubmit_try_def settle_catch
      try_catch_finally_def throw_def setLoadingState_def update_def)

lemma settle_bad_answer:
  assumes "\<forall>a. get_prop data (str ''answer'') \<noteq> Inr (JStr a)"
  shows "handleSubmit_settle q now (Response True data) s =
    (s\<lparr>chatMessages := remove_first is_typing (remove_first is_typing (chatMessages s)) @
         [error_message (escapeHtml connect_error_text)],
       toastContainer := toastContainer s @
         [toast_element (escapeHtml (str ''Connection error'')) ToastError],
       isLoading := False, submit_disabled := False, spinner_hidden := True,
       icon_hidden := False, btn_text := ''Send''\<rparr>, None)"
proof (cases "get_prop data (str ''answer'')")
  case (Inl e)
  then show ?thesis
    by (simp add: handleSubmit_settle_def handleSubmit_try_def settle_catch
        try_catch_finally_def with_prop_def removeTypingIndicator_def setLoadingState_def
        update_def)
next
  case (Inr v)
  then have "\<forall>t. v \<noteq> JStr t" using assms by auto
  then have "formatText_call v = Inl TypeError" by (rule formatText_call_other)
  then show ?thesis
    using Inr
    by (simp add: handleSubmit_settle_def handleSubmit_try_def settle_catch
        try_catch_finally_def with_prop_def removeTypingIndicator_def setLoadingState_def
        update_def addAIMessage_def)
qed

lemma settle_error_text:
  assumes "get_prop data (str ''error'') = Inr (JStr e)" and "e \<noteq> []"
  shows "handleSubmit_settle q now (Response False data) s =
    (s\<lparr>chatMessages := remove_first is_typing (chatMessages s) @
         [error_message (escapeHtml e)],
       toastContainer := toastContainer s @ [toast_element (escapeHtml e) ToastError],
       isLoading := False, submit_disabled := False, spinner_hidden := True,
       icon_hidden := False, btn_text := ''Send''\<rparr>, None)"
  using assms
  by (simp add: handleSubmit_settle_def handleSubmit_try_def command_defs
      escapeHtml_call_str or_else_def truthy_def)

lemma settle_error_fallback:
  assumes "get_prop data (str ''error'') = Inr v" and "\<not> truthy v"
  shows "handleSubmit_settle q now (Response False data) s =
    (s\<lparr>chatMessages := remove_first is_typing (chatMessages s) @
         [error_message (escapeHtml fallback_error_text)],
       toastContainer := toastContainer s @
         [toast_element (escapeHtml (str ''Error'')) ToastError],
       isLoading := False, submit_disabled := False, spinner_hidden := True,
       icon_hidden := False, btn_text := ''Send''\<rparr>, None)"
  using assms
  by (simp add: handleSubmit_settle_def handleSubmit_try_def command_defs
      escapeHtml_call_str or_else_def)

lemma settle_error_throws:
  assumes "get_prop data (str ''error'') = Inl x \<or>
           (get_prop data (str ''error'') = Inr v \<and> truthy v \<and> (\<forall>t. v \<noteq> JStr t))"
  shows "handleSubmit_settle q now (Response False data) s =
    (s\<lparr>chatMessages := remove_first is_typing (remove_first is_typing (chatMessages s)) @
         [error_message (escapeHtml connect_error_text)],
       toastContainer := toastContainer s @
         [toast_element (escapeHtml (str ''Connection error'')) ToastError],
       isLoading := False, submit_disabled := False, spinner_hidden := True,
       icon_hidden := False, btn_text := ''Send''\<rparr>, None)"
  using assms
  by (auto simp: handleSubmit_settle_def handleSubmit_try_def settle_catch
      try_catch_finally_def with_prop_def removeTypingIndicator_def setLoadingState_def
      update_def addErrorMessage_def or_else_def escapeHtml_call_other)

lemma begin_rejected:
  assumes "trim (input_value s) = [] \<or> isLoading s"
  shows "handleSubmit_begin s = (s, None)"
  using assms by (auto simp: handleSubmit_begin_def)

lemma begin_accepted:
  assumes "trim (input_value s) \<noteq> []" and "\<not> isLoading s"
  shows "handleSubmit_begin s =
    (s\<lparr>welcomeScreen := map_option (\<lambda>_. ''none'') (welcomeScreen s),
       chatMessages := chatMessages s @ [user_message (trim (input_value s)), typing_element],
       input_value := [], input_height := str ''auto'',
       isLoading := True, submit_disabled := True, spinner_hidden := False,
       icon_hidden := True, btn_text := ''Sending...''\<rparr>,
     Some \<lparr>url = ''/api/ask'', http_method = ''POST'', content_type = ''application/json'',
           body_question = trim (input_value s)\<rparr>)"
  using assms
  by (cases "welcomeScreen s")
    (simp_all add: handleSubmit_begin_def command_defs API_URL_def Let_def)

lemma plain_literals:
  "escapeHtml (str ''Message sent successfully'') = str ''Message sent successfully''"
  "escapeHtml (str ''Connection error'') = str ''Connection error''"
  "escapeHtml (str ''Error'') = str ''Error''"
  "escapeHtml (str ''Chat cleared'') = str ''Chat cleared''"
  "escapeHtml connect_error_text = connect_error_text"
  "escapeHtml fallback_error_text = fallback_error_text"
  by (rule plain_escapeHtml, simp add: str_def html_special_def connect_error_text_def
      fallback_error_text_def)+

lemma typing_count_simps [simp]:
  "typing_count (s\<lparr>toastContainer := t\<rparr>) = typing_count s"
  "typing_count (s\<lparr>conversationHistory := h\<rparr>) = typing_count s"
  "typing_count (s\<lparr>isLoading := b\<rparr>) = typing_count s"
  "typing_count (s\<lparr>submit_disabled := b\<rparr>) = typing_count s"
  "typing_count (s\<lparr>spinner_hidden := b\<rparr>) = typing_count s"
  "typing_count (s\<lparr>icon_hidden := b\<rparr>) = typing_count s"
  "typing_count (s\<lparr>btn_text := x\<rparr>) = typing_count s"
  "typing_count (s\<lparr>input_value := v\<rparr>) = typing_count s"
  "typing_count (s\<lparr>input_height := v\<rparr>) = typing_count s"
  "typing_count (s\<lparr>welcomeScreen := w\<rparr>) = typing_count s"
  "typing_count (s\<lparr>nav_active := n\<rparr>) = typing_count s"
  "typing_count (s\<lparr>chat_container := w\<rparr>) = typing_count s"
  "typing_count (s\<lparr>chatMessages := ms\<rparr>) = length (filter is_typing ms)"
  by (simp_all add: typing_count_def)

lemma remove_first_append:
  "filter P xs = [] \<Longrightarrow> remove_first P (xs @ ys) = xs @ remove_first P ys"
  by (induction xs) (auto split: if_splits)


section \<open>Every settlement, and the page over time\<close>

lemma outcome_cases [case_names rejected success bad_answer error_text error_fallback error_throws]:
  obtains "out = FetchRejected \<or> out = JsonRejected"
  | data a where "out = Response True data" "get_prop data (str ''answer'') = Inr (JStr a)"
  | data where "out = Response True data" "\<forall>a. get_prop data (str ''answer'') \<noteq> Inr (JStr a)"
  | data e where "out = Response False data" "get_prop data (str ''error'') = Inr (JStr e)" "e \<noteq> []"
  | data v where "out = Response False data" "get_prop data (str ''error'') = Inr v" "\<not> truthy v"
  | data x v where "out = Response False data"
      "get_prop data (str ''error'') = Inl x \<or>
       (get_prop data (str ''error'') = Inr v \<and> truthy v \<and> (\<forall>t. v \<noteq> JStr t))"
proof (cases out)
  case FetchRejected
  then show ?thesis using that(1) by blast
next
  case JsonRejected
  then show ?thesis using that(1) by blast
next
  case (Response ok data)
  show ?thesis
  proof (cases ok)
    case True
    then show ?thesis using Response that(2,3) by blast
  next
    case False
    show ?thesis
    proof (cases "get_prop data (str ''error'')")
      case (Inl x)
      then show ?thesis using Response False that(6) by blast
    next
      case (Inr v)
      show ?thesis
      proof (cases "truthy v")
        case nt: False
        then show ?thesis using Response False Inr that(5) by blast
      next
        case tr: True
        show ?thesis
        proof (cases "\<exists>e. v = JStr e")
          case True
          then obtain e where e: "v = JStr e" by blast
          then have "e \<noteq> []" using tr by (simp add: truthy_def)
          then show ?thesis using Response False Inr e that(4) by blast
        next
          case nostr: False
          then show ?thesis using Response False Inr tr that(6) by blast
        qed
      qed
    qed
  qed
qed

lemma settle_idle:
  "snd (handleSubmit_settle q now out s) = None \<and>
   \<not> isLoading (fst (handleSubmit_settle q now out s)) \<and>
   \<not> submit_disabled (fst (handleSubmit_settle q now out s)) \<and>
   spinner_hidden (fst (handleSubmit_settle q now out s)) \<and>
   \<not> icon_hidden (fst (handleSubmit_settle q now out s)) \<and>
   btn_text (fst (handleSubmit_settle q now out s)) = ''Send'' \<and>
   typing_count (fst (handleSubmit_settle q now out s)) \<le> typing_count s - 1"
proof (cases out rule: outcome_cases)
  case rejected
  then show ?thesis by (simp add: settle_rejected filter_remove_first typing_count_def)
next
  case (success data a)
  then show ?thesis by (simp add: settle_success filter_remove_first typing_count_def)
next
  case (bad_answer data)
  then show ?thesis by (simp add: settle_bad_answer filter_remove_first typing_count_def)
next
  case (error_text data e)
  then show ?thesis by (simp add: settle_error_text filter_remove_first typing_count_def)
next
  case (error_fallback data v)
  then show ?thesis
    by (simp add: settle_error_fallback [of data v] filter_remove_first typing_count_def)
next
  case (error_throws data x v)
  then show ?thesis
    by (simp add: settle_error_throws [of data x v] filter_remove_first typing_count_def)
qed

lemma rendered_append: "rendered (a @ b) = rendered a @ rendered b"
  by (simp add: rendered_def)

lemma rendered_error [simp]: "rendered [error_message h] = [error_message h]"
  by (simp add: rendered_def)

lemma settle_failure:
  assumes "out = FetchRejected \<or> out = JsonRejected \<or> out = Response False data"
  shows "\<exists>html. rendered (chatMessages (fst (handleSubmit_settle q now out s))) =
            rendered (chatMessages s) @ [error_message html]"
    and "\<exists>html. toastContainer (fst (handleSubmit_settle q now out s)) =
            toastContainer s @ [toast_element html ToastError]"
    and "conversationHistory (fst (handleSubmit_settle q now out s)) = conversationHistory s"
proof -
  have "(\<exists>html. rendered (chatMessages (fst (handleSubmit_settle q now out s))) =
            rendered (chatMessages s) @ [error_message html]) \<and>
        (\<exists>html. toastContainer (fst (handleSubmit_settle q now out s)) =
            toastContainer s @ [toast_element html ToastError]) \<and>
        conversationHistory (fst (handleSubmit_settle q now out s)) = conversationHistory s"
  proof (cases out rule: outcome_cases)
    case rejected
    then show ?thesis
      by (auto simp: settle_rejected rendered_append rendered_remove_first)
  next
    case (success d a)
    then show ?thesis using assms by simp
  next
    case (bad_answer d)
    then show ?thesis using assms by simp
  next
    case (error_text d e)
    then show ?thesis
      by (auto simp: settle_error_text rendered_append rendered_remove_first)
  next
    case (error_fallback d v)
    then show ?thesis
      by (auto simp: settle_error_fallback [of d v] rendered_append rendered_remove_first)
  next
    case (error_throws d x v)
    then show ?thesis
      by (auto simp: settle_error_throws [of d x v] rendered_append rendered_remove_first)
  qed
  then show "\<exists>html. rendered (chatMessages (fst (handleSubmit_settle q now out s))) =
            rendered (chatMessages s) @ [error_message html]"
    and "\<exists>html. toastContainer (fst (handleSubmit_settle q now out s)) =
            toastContainer s @ [toast_element html ToastError]"
    and "conversationHistory (fst (handleSubmit_settle q now out s)) = conversationHistory s"
    by blast+
qed

lemma clearChat_declined: "clearChat False s = (s, None)"
  by (simp add: clearChat_def skip_def)

lemma clearChat_confirmed:
  assumes "welcomeScreen s = Some d"
  shows "clearChat True s =
    (s\<lparr>chatMessages := [], welcomeScreen := Some ''flex'', conversationHistory := [],
       toastContainer := toastContainer s @ [toast_element (str ''Chat cleared'') ToastInfo]\<rparr>,
     None)"
  using assms
  by (simp add: clearChat_def show_welcome_def update_def showToast_def escapeHtml_call_str
      plain_literals)

lemma clearChat_no_welcome:
  assumes "welcomeScreen s = None"
  shows "clearChat True s = (s\<lparr>chatMessages := []\<rparr>, Some TypeError)"
  using assms by (simp add: clearChat_def show_welcome_def update_def)

lemma clearChat_frame:
  "isLoading (fst (clearChat c s)) = isLoading s"
  "typing_count (fst (clearChat c s)) \<le> typing_count s"
proof -
  show "isLoading (fst (clearChat c s)) = isLoading s"
    by (cases c; cases "welcomeScreen s")
      (simp_all add: clearChat_declined clearChat_confirmed clearChat_no_welcome)
  show "typing_count (fst (clearChat c s)) \<le> typing_count s"
    by (cases c; cases "welcomeScreen s")
      (simp_all add: clearChat_declined clearChat_confirmed clearChat_no_welcome)
qed

lemma showToast_str:
  "showToast (JStr t) ty s =
     (s\<lparr>toastContainer := toastContainer s @ [toast_element (escapeHtml t) ty]\<rparr>, None)"
  by (simp add: showToast_def escapeHtml_call_str)

lemma handleNavigation_frame:
  "isLoading (fst (handleNavigation i v s)) = isLoading s \<and>
   chatMessages (fst (handleNavigation i v s)) = chatMessages s \<and>
   conversationHistory (fst (handleNavigation i v s)) = conversationHistory s"
  by (cases "chat_container s")
    (simp_all add: handleNavigation_def showChat_def showHistory_def showSettings_def
      showToast_str update_def skip_def)

lemma step_consistent:
  assumes "consistent y"
  shows "consistent (step e y)"
proof (cases e)
  case (Input val h)
  then show ?thesis
    using assms by (simp add: consistent_def autoResizeTextarea_def update_def)
next
  case Submit
  show ?thesis
  proof (cases "trim (input_value (ui y)) = [] \<or> isLoading (ui y)")
    case True
    then show ?thesis using assms Submit by (simp add: begin_rejected)
  next
    case False
    then have "inflight y = []" and "typing_count (ui y) = 0"
      using assms by (auto simp: consistent_def)
    then show ?thesis
      using False Submit by (simp add: begin_accepted consistent_def typing_count_def)
  qed
next
  case (Settle now out)
  show ?thesis
  proof (cases "inflight y")
    case Nil
    then show ?thesis using assms Settle by simp
  next
    case (Cons q qs)
    then have "qs = []" using assms by (simp add: consistent_def)
    moreover have "typing_count (ui y) \<le> 1" using assms Cons by (auto simp: consistent_def)
    ultimately show ?thesis
      using Settle Cons settle_idle [of q now out "ui y"] by (simp add: consistent_def)
  qed
next
  case (ClearChat c)
  then show ?thesis
    using assms clearChat_frame [of c "ui y"] by (simp add: consistent_def)
next
  case (Navigate i v)
  then show ?thesis
    using assms handleNavigation_frame [of i v "ui y"] by (simp add: consistent_def typing_count_def)
qed

lemma run_consistent: "consistent y \<Longrightarrow> consistent (run evs y)"
  by (induction evs arbitrary: y) (simp_all add: step_consistent)

lemma run_append: "run (xs @ ys) y = run ys (run xs y)"
  by (induction xs arbitrary: y) simp_all

lemma start_consistent: "loaded s \<Longrightarrow> consistent (start s)"
  by (simp add: loaded_def consistent_def start_def typing_count_def)

lemma reachable_consistent: "loaded s \<Longrightarrow> consistent (run evs (start s))"
  by (simp add: run_consistent start_consistent)

lemma settled_idle:
  assumes "consistent y"
  shows "inflight (step (Settle now out) y) = []"
    and "\<not> isLoading (ui (step (Settle now out) y))"
    and "typing_count (ui (step (Settle now out) y)) = 0"
proof -
  have c: "consistent (step (Settle now out) y)" using assms by (rule step_consistent)
  show i: "inflight (step (Settle now out) y) = []"
    using assms by (cases "inflight y") (simp_all add: consistent_def)
  show "\<not> isLoading (ui (step (Settle now out) y))"
    using c i by (simp add: consistent_def)
  show "typing_count (ui (step (Settle now out) y)) = 0"
    using c i by (simp add: consistent_def)
qed

lemma try_bad_answer:
  assumes "\<forall>a. get_prop data (str ''answer'') \<noteq> Inr (JStr a)"
  shows "handleSubmit_try q now (Response True data) s =
    (s\<lparr>chatMessages := remove_first is_typing (chatMessages s)\<rparr>, Some TypeError)"
proof (cases "get_prop data (str ''answer'')")
  case (Inl e)
  then have "e = TypeError" by (cases e) (auto simp: get_prop_def split: jsvalue.splits option.splits)
  then show ?thesis
    using Inl by (simp add: handleSubmit_try_def with_prop_def removeTypingIndicator_def update_def)
next
  case (Inr v)
  then have "\<forall>t. v \<noteq> JStr t" using assms by auto
  then have "formatText_call v = Inl TypeError" by (rule formatText_call_other)
  then show ?thesis
    using Inr
    by (simp add: handleSubmit_try_def with_prop_def removeTypingIndicator_def update_def
        addAIMessage_def)
qed

lemma trim_empty_iff: "trim s = [] \<longleftrightarrow> list_all is_space s"
proof
  assume "trim s = []"
  then have "dropWhile is_space (rev (dropWhile is_space s)) = []"
    by (simp add: trim_def)
  then have a: "\<forall>x \<in> set (dropWhile is_space s). is_space x"
    by (simp add: dropWhile_eq_Nil_conv)
  have "dropWhile is_space s = []"
  proof (rule ccontr)
    assume n: "dropWhile is_space s \<noteq> []"
    then have "\<not> is_space (hd (dropWhile is_space s))" by (rule hd_dropWhile)
    moreover have "hd (dropWhile is_space s) \<in> set (dropWhile is_space s)"
      using n by simp
    ultimately show False using a by blast
  qed
  then show "list_all is_space s"
    by (simp add: dropWhile_eq_Nil_conv list_all_iff)
next
  assume "list_all is_space s"
  then have d: "dropWhile is_space s = []"
    by (simp add: dropWhile_eq_Nil_conv list_all_iff)
  show "trim s = []" unfolding trim_def d by simp
qed

lemma step_submit_pending:
  assumes "isLoading (ui y)"
  shows "step Submit y = y"
  using assms by (simp add: begin_rejected)

lemma innerHTML_user_message:
  "innerHTML (user_message t) = message_html ''You'' (escapeHtml t)"
  by (simp add: user_message_def)


lemma run_example:
  "inflight (run [Input (str ''hi'') 20, Submit] (start fresh_page)) = [str ''hi'']"
proof -
  have t: "trim (str ''hi'') = str ''hi''"
    by (simp add: trim_def str_def is_space_def)
  have n: "str ''hi'' \<noteq> []" by (simp add: str_def)
  show ?thesis
    by (simp add: start_def fresh_page_def autoResizeTextarea_def update_def
        handleSubmit_begin_def t n Let_def)
qed


section \<open>The elements written out\<close>

lemma user_message_literal:
  \<open>user_message t =
     \<lparr>className = ''message message-user'', elem_id = [],
      innerHTML =
        str ''\<newline>    <div>\<newline>      <div class="message-label">You</div>\<newline>      <div class="message-content">'' @
        escapeHtml t @
        str ''</div>\<newline>    </div>\<newline>  ''\<rparr>\<close>
  by (simp add: user_message_def message_html_def str_def)

lemma ai_message_literal:
  \<open>ai_message h =
     \<lparr>className = ''message message-ai'', elem_id = [],
      innerHTML =
        str ''\<newline>    <div>\<newline>      <div class="message-label">AI Assistant</div>\<newline>      <div class="message-content">'' @
        h @
        str ''</div>\<newline>    </div>\<newline>  ''\<rparr>\<close>
  by (simp add: ai_message_def message_html_def str_def)

lemma error_message_literal:
  \<open>error_message h =
     \<lparr>className = ''message message-error'', elem_id = [],
      innerHTML =
        str ''\<newline>    <div>\<newline>      <div class="message-label">Error</div>\<newline>      <div class="message-content">'' @
        h @
        str ''</div>\<newline>    </div>\<newline>  ''\<rparr>\<close>
  by (simp add: error_message_def message_html_def str_def)

lemma typing_element_literal:
  \<open>typing_element =
     \<lparr>className = ''message message-ai'', elem_id = ''typingIndicator'',
      innerHTML =
        str ''\<newline>    <div>\<newline>      <div class="message-label">AI Assistant</div>\<newline>'' @
        str ''      <div class="message-content">\<newline>        <div class="typing-indicator">\<newline>'' @
        str ''          <div class="typing-dot"></div>\<newline>          <div class="typing-dot"></div>\<newline>'' @
        str ''          <div class="typing-dot"></div>\<newline>        </div>\<newline>      </div>\<newline>'' @
        str ''    </div>\<newline>  ''\<rparr>\<close>
  by (simp add: typing_element_def typing_html_def)

lemma toast_success_literal:
  \<open>toast_element h ToastSuccess =
     \<lparr>className = ''toast success'', elem_id = [],
      innerHTML =
        str ''\<newline>    <span style="font-weight: bold; font-size: 1.2em;">'' @ [10003] @
        str ''</span>\<newline>    <span>'' @ h @
        str ''</span>\<newline>  ''\<rparr>\<close>
  by (simp add: toast_element_def toast_html_def toast_icon_def)

lemma toast_error_literal:
  \<open>toast_element h ToastError =
     \<lparr>className = ''toast error'', elem_id = [],
      innerHTML =
        str ''\<newline>    <span style="font-weight: bold; font-size: 1.2em;">'' @ [10005] @
        str ''</span>\<newline>    <span>'' @ h @
        str ''</span>\<newline>  ''\<rparr>\<close>
  by (simp add: toast_element_def toast_html_def toast_icon_def)

lemma toast_info_literal:
  \<open>toast_element h ToastInfo =
     \<lparr>className = ''toast info'', elem_id = [],
      innerHTML =
        str ''\<newline>    <span style="font-weight: bold; font-size: 1.2em;">'' @ [8505] @
        str ''</span>\<newline>    <span>'' @ h @
        str ''</span>\<newline>  ''\<rparr>\<close>
  by (simp add: toast_element_def toast_html_def toast_icon_def)

lemma toast_element_literal:
  \<open>toast_element h ty =
     \<lparr>className = ''toast '' @ type_name ty, elem_id = [],
      innerHTML =
        str ''\<newline>    <span style="font-weight: bold; font-size: 1.2em;">'' @ toast_icon ty @
        str ''</span>\<newline>    <span>'' @ h @
        str ''</span>\<newline>  ''\<rparr>\<close>
  by (simp add: toast_element_def toast_html_def)

lemma toast_icon_cases:
  "toast_icon ToastSuccess = [10003]" "toast_icon ToastError = [10005]"
  "toast_icon ToastInfo = [8505]"
  by (simp_all add: toast_icon_def)


section \<open>The claims\<close>

lemma escapeHtml_properties:
  "escapeHtml (a @ b) = escapeHtml a @ escapeHtml b \<and>
   escapeHtml [38] = str ''&amp;'' \<and> escapeHtml [60] = str ''&lt;'' \<and>
   escapeHtml [62] = str ''&gt;'' \<and> escapeHtml [34] = str ''&quot;'' \<and>
   escapeHtml [39] = str ''&#039;'' \<and>
   (c \<notin> {38, 60, 62, 34, 39} \<longrightarrow> escapeHtml [c] = [c]) \<and>
   (\<forall>x \<in> set (escapeHtml s). x \<notin> {60, 62, 34, 39}) \<and>
   escapeHtml (str ''<script>'') = str ''&lt;script&gt;'' \<and>
   addUserMessage t p = (append_message (user_message t) p, None) \<and>
   innerHTML (user_message t) = message_html ''You'' (escapeHtml t) \<and>
   addErrorMessage (JStr t) p = (append_message (error_message (escapeHtml t)) p, None) \<and>
   showToast (JStr t) ty p =
     (p\<lparr>toastContainer := toastContainer p @ [toast_element (escapeHtml t) ty]\<rparr>, None) \<and>
   addAIMessage (JStr t) p =
     (append_message (ai_message (line_breaks (linkify (escapeHtml t)))) p, None)"
proof -
  have units: "escapeHtml [38] = str ''&amp;''" "escapeHtml [60] = str ''&lt;''"
    "escapeHtml [62] = str ''&gt;''" "escapeHtml [34] = str ''&quot;''"
    "escapeHtml [39] = str ''&#039;''"
    by (simp_all add: escapeHtml_Cons escapeHtml_Nil)
  have plain: "c \<notin> {38, 60, 62, 34, 39} \<longrightarrow> escapeHtml [c] = [c]"
    by (simp add: escapeHtml_Cons escapeHtml_Nil)
  have markup: "\<forall>x \<in> set (escapeHtml s). x \<notin> {60, 62, 34, 39}"
    using escapeHtml_no_markup [of _ s] by auto
  have script: "escapeHtml (str ''<script>'') = str ''&lt;script&gt;''"
    by (simp add: escapeHtml_def replace_class_def html_special_def str_def entity_map_def)
  have sites: "addUserMessage t p = (append_message (user_message t) p, None)"
    "innerHTML (user_message t) = message_html ''You'' (escapeHtml t)"
    "addErrorMessage (JStr t) p = (append_message (error_message (escapeHtml t)) p, None)"
    "showToast (JStr t) ty p =
       (p\<lparr>toastContainer := toastContainer p @ [toast_element (escapeHtml t) ty]\<rparr>, None)"
    "addAIMessage (JStr t) p =
       (append_message (ai_message (line_breaks (linkify (escapeHtml t)))) p, None)"
    by (simp_all add: addUserMessage_def update_def user_message_def addErrorMessage_def
        showToast_def addAIMessage_def escapeHtml_call_str formatText_call_str formatText_def)
  show ?thesis
    using escapeHtml_append [of a b] units plain markup script sites by blast
qed

text \<open>
  Claim C6. For every string, \<open>escapeHtml\<close> replaces each occurrence of the ampersand,
  the two angle brackets, the double quote and the single quote by its entity and keeps
  every other code unit: it distributes over concatenation, maps each of the five to its
  entity and any other code unit to itself, so that its result holds no angle bracket
  and no quote. The text \<^verbatim>\<open><script>\<close> becomes \<^verbatim>\<open>&lt;script&gt;\<close>. The question,
  an error text and a toast text are inserted through \<open>escapeHtml\<close>, and an answer is
  escaped before links and line breaks are written into it.
  The second part of the statement writes the four kinds of element out, with the escaped
  text between the fixed parts of their templates.
\<close>

theorem escapeHtml_escapes:
  \<open>(escapeHtml (a @ b) = escapeHtml a @ escapeHtml b \<and>
   escapeHtml [38] = str ''&amp;'' \<and> escapeHtml [60] = str ''&lt;'' \<and>
   escapeHtml [62] = str ''&gt;'' \<and> escapeHtml [34] = str ''&quot;'' \<and>
   escapeHtml [39] = str ''&#039;'' \<and>
   (c \<notin> {38, 60, 62, 34, 39} \<longrightarrow> escapeHtml [c] = [c]) \<and>
   (\<forall>x \<in> set (escapeHtml s). x \<notin> {60, 62, 34, 39}) \<and>
   escapeHtml (str ''<script>'') = str ''&lt;script&gt;'' \<and>
   addUserMessage t p = (append_message (user_message t) p, None) \<and>
   innerHTML (user_message t) = message_html ''You'' (escapeHtml t) \<and>
   addErrorMessage (JStr t) p = (append_message (error_message (escapeHtml t)) p, None) \<and>
   showToast (JStr t) ty p =
     (p\<lparr>toastContainer := toastContainer p @ [toast_element (escapeHtml t) ty]\<rparr>, None) \<and>
   addAIMessage (JStr t) p =
     (append_message (ai_message (line_breaks (linkify (escapeHtml t)))) p, None)) \<and>
   addUserMessage t p =
     (p\<lparr>chatMessages := chatMessages p @
        [\<lparr>className = ''message message-user'', elem_id = [],
          innerHTML =
            str ''\<newline>    <div>\<newline>      <div class="message-label">You</div>\<newline>      <div class="message-content">'' @
            escapeHtml t @
            str ''</div>\<newline>    </div>\<newline>  ''\<rparr>]\<rparr>, None) \<and>
   addErrorMessage (JStr t) p =
     (p\<lparr>chatMessages := chatMessages p @
        [\<lparr>className = ''message message-error'', elem_id = [],
          innerHTML =
            str ''\<newline>    <div>\<newline>      <div class="message-label">Error</div>\<newline>      <div class="message-content">'' @
            escapeHtml t @
            str ''</div>\<newline>    </div>\<newline>  ''\<rparr>]\<rparr>, None) \<and>
   addAIMessage (JStr t) p =
     (p\<lparr>chatMessages := chatMessages p @
        [\<lparr>className = ''message message-ai'', elem_id = [],
          innerHTML =
            str ''\<newline>    <div>\<newline>      <div class="message-label">AI Assistant</div>\<newline>      <div class="message-content">'' @
            line_breaks (linkify (escapeHtml t)) @
            str ''</div>\<newline>    </div>\<newline>  ''\<rparr>]\<rparr>, None) \<and>
   showToast (JStr t) ty p =
     (p\<lparr>toastContainer := toastContainer p @
        [\<lparr>className = ''toast '' @ type_name ty, elem_id = [],
          innerHTML =
            str ''\<newline>    <span style="font-weight: bold; font-size: 1.2em;">'' @ toast_icon ty @
            str ''</span>\<newline>    <span>'' @ escapeHtml t @
            str ''</span>\<newline>  ''\<rparr>]\<rparr>, None) \<and>
   toast_icon ToastSuccess = [10003] \<and> toast_icon ToastError = [10005] \<and>
   toast_icon ToastInfo = [8505]\<close>
proof -
  have new: \<open>addUserMessage t p =
     (p\<lparr>chatMessages := chatMessages p @
        [\<lparr>className = ''message message-user'', elem_id = [],
          innerHTML =
            str ''\<newline>    <div>\<newline>      <div class="message-label">You</div>\<newline>      <div class="message-content">'' @
            escapeHtml t @
            str ''</div>\<newline>    </div>\<newline>  ''\<rparr>]\<rparr>, None) \<and>
   addErrorMessage (JStr t) p =
     (p\<lparr>chatMessages := chatMessages p @
        [\<lparr>className = ''message message-error'', elem_id = [],
          innerHTML =
            str ''\<newline>    <div>\<newline>      <div class="message-label">Error</div>\<newline>      <div class="message-content">'' @
            escapeHtml t @
            str ''</div>\<newline>    </div>\<newline>  ''\<rparr>]\<rparr>, None) \<and>
   addAIMessage (JStr t) p =
     (p\<lparr>chatMessages := chatMessages p @
        [\<lparr>className = ''message message-ai'', elem_id = [],
          innerHTML =
            str ''\<newline>    <div>\<newline>      <div class="message-label">AI Assistant</div>\<newline>      <div class="message-content">'' @
            line_breaks (linkify (escapeHtml t)) @
            str ''</div>\<newline>    </div>\<newline>  ''\<rparr>]\<rparr>, None) \<and>
   showToast (JStr t) ty p =
     (p\<lparr>toastContainer := toastContainer p @
        [\<lparr>className = ''toast '' @ type_name ty, elem_id = [],
          innerHTML =
            str ''\<newline>    <span style="font-weight: bold; font-size: 1.2em;">'' @ toast_icon ty @
            str ''</span>\<newline>    <span>'' @ escapeHtml t @
            str ''</span>\<newline>  ''\<rparr>]\<rparr>, None) \<and>
   toast_icon ToastSuccess = [10003] \<and> toast_icon ToastError = [10005] \<and>
   toast_icon ToastInfo = [8505]\<close>
  proof -
    have "addUserMessage t p = (p\<lparr>chatMessages := chatMessages p @ [user_message t]\<rparr>, None)"
      and "addErrorMessage (JStr t) p =
        (p\<lparr>chatMessages := chatMessages p @ [error_message (escapeHtml t)]\<rparr>, None)"
      and "addAIMessage (JStr t) p =
        (p\<lparr>chatMessages := chatMessages p @
           [ai_message (line_breaks (linkify (escapeHtml t)))]\<rparr>, None)"
      and "showToast (JStr t) ty p =
        (p\<lparr>toastContainer := toastContainer p @ [toast_element (escapeHtml t) ty]\<rparr>, None)"
      and "toast_icon ToastSuccess = [10003]" and "toast_icon ToastError = [10005]"
      and "toast_icon ToastInfo = [8505]"
      by (simp_all add: addUserMessage_def update_def append_message_def addErrorMessage_def
          showToast_def addAIMessage_def escapeHtml_call_str formatText_call_str formatText_def
          toast_icon_cases)
    then show ?thesis
      unfolding user_message_literal error_message_literal ai_message_literal
        toast_element_literal
      by (intro conjI)
  qed
  show ?thesis by (rule conjI [OF escapeHtml_properties new])
qed

theorem escapeHtml_escapes_witness:
  \<open>(97::nat) \<notin> {38, 60, 62, 34, 39} \<and> escapeHtml [97] = [97] \<and>
   set (escapeHtml (str ''a<b>&"c"'')) \<inter> {60, 62, 34, 39} = {} \<and>
   escapeHtml (str ''<script>'') = str ''&lt;script&gt;''\<close>
proof -
  have h: "(97::nat) \<notin> {38, 60, 62, 34, 39}" by simp
  note t = escapeHtml_escapes [where c = 97 and s = \<open>str ''a<b>&"c"''\<close>, THEN conjunct1]
  have "escapeHtml [97] = [97]" using t h by blast
  moreover have \<open>\<forall>x \<in> set (escapeHtml (str ''a<b>&"c"'')). x \<notin> {60, 62, 34, 39}\<close>
    using t by blast
  then have \<open>set (escapeHtml (str ''a<b>&"c"'')) \<inter> {60, 62, 34, 39} = {}\<close>
    by blast
  moreover have "escapeHtml (str ''<script>'') = str ''&lt;script&gt;''"
    using t by blast
  ultimately show ?thesis using h by blast
qed

text \<open>
  Claim C7. \<open>formatText\<close> turns each bare URL into exactly one anchor and each newline
  into \<^verbatim>\<open><br>\<close>. Read from the left of the raw text: the URL expression matches
  exactly where the text starts with a URL \<open>u\<close> (a scheme and the longest run of code
  units that are not white space, which is not empty) followed by the end of the text or by
  white space; there the result is one anchor whose href and text are both \<open>u\<close>, written
  escaped as every inserted text is, with \<^verbatim>\<open>target="_blank"\<close> and \<^verbatim>\<open>rel="noopener"\<close>,
  and formatting goes on after the URL; elsewhere a newline gives \<^verbatim>\<open><br>\<close> and any
  other code unit is escaped. So a URL between white space or the ends of the text is
  replaced by its anchor and the text on both sides is formatted on its own; a URL
  without any of the five escaped characters is written as it is. For
  \<^verbatim>\<open>see http://example.com now\<close> the result is the text with one anchor around
  \<^verbatim>\<open>http://example.com\<close>.
\<close>

theorem formatText_autolink:
  \<open>(url_match s = Some (u, r) \<longleftrightarrow> s = u @ r \<and> is_url u \<and> (r = [] \<or> is_space (hd r))) \<and>
   (url_match s = Some (u, r) \<longrightarrow> formatText s = anchor (escapeHtml u) @ formatText r) \<and>
   (url_match (c # cs) = None \<longrightarrow>
      formatText (c # cs) = (if c = 10 then str ''<br>'' else escapeHtml [c]) @ formatText cs) \<and>
   formatText [] = [] \<and>
   (is_url v \<and> (pre = [] \<or> is_space (last pre)) \<and> (post = [] \<or> is_space (hd post)) \<longrightarrow>
      formatText (pre @ v @ post) = formatText pre @ anchor (escapeHtml v) @ formatText post) \<and>
   (list_all (\<lambda>c. \<not> html_special c) v \<longrightarrow> escapeHtml v = v) \<and>
   anchor v = str ''<a href="'' @ v @ str ''" target="_blank" rel="noopener">'' @ v @ str ''</a>'' \<and>
   formatText (a @ 10 # b) = formatText a @ str ''<br>'' @ formatText b \<and>
   formatText (str ''see http://example.com now'') =
     str ''see <a href="http://example.com" target="_blank" rel="noopener">http://example.com</a> now''\<close>
proof -
  have m: "url_match s = Some (u, r) \<longleftrightarrow> s = u @ r \<and> is_url u \<and> (r = [] \<or> is_space (hd r))"
    by (rule url_match_iff)
  have f: "url_match s = Some (u, r) \<longrightarrow> formatText s = anchor (escapeHtml u) @ formatText r"
    using formatText_match [of s u r] by blast
  have g: "url_match (c # cs) = None \<longrightarrow>
      formatText (c # cs) = (if c = 10 then str ''<br>'' else escapeHtml [c]) @ formatText cs"
    using formatText_no_match [of c cs] by blast
  have url: "is_url v \<and> (pre = [] \<or> is_space (last pre)) \<and> (post = [] \<or> is_space (hd post)) \<longrightarrow>
      formatText (pre @ v @ post) = formatText pre @ anchor (escapeHtml v) @ formatText post"
    using formatText_between [of v pre post] by blast
  have plain: "list_all (\<lambda>c. \<not> html_special c) v \<longrightarrow> escapeHtml v = v"
    using plain_escapeHtml [of v] by (simp add: list_all_iff)
  have "is_space 10" by (simp add: is_space_def)
  then have br: "formatText (a @ 10 # b) = formatText a @ str ''<br>'' @ formatText b"
    using formatText_space [of 10 a b] by (simp add: line_breaks_unit)
  have ex: \<open>formatText (str ''see http://example.com now'') =
     str ''see <a href="http://example.com" target="_blank" rel="noopener">http://example.com</a> now''\<close>
    by (simp add: formatText_def line_breaks_def escapeHtml_def replace_class_def
        html_special_def str_def url_match_def scheme_length_def is_space_def anchor_def)
  have an: \<open>anchor v =
      str ''<a href="'' @ v @ str ''" target="_blank" rel="noopener">'' @ v @ str ''</a>''\<close>
    by (simp add: anchor_def)
  show ?thesis
    using m f g formatText_Nil url plain an br ex by blast
qed

theorem formatText_autolink_witness:
  \<open>is_url (str ''https://a.b/?x=1&y=2'') \<and> is_space (last (str ''go '')) \<and>
   is_space (hd (str '' ok'')) \<and>
   formatText (str ''go '' @ str ''https://a.b/?x=1&y=2'' @ str '' ok'') =
     str ''go <a href="https://a.b/?x=1&amp;y=2" target="_blank" rel="noopener">'' @
     str ''https://a.b/?x=1&amp;y=2</a> ok'' \<and>
   list_all (\<lambda>c. \<not> html_special c) (str ''http://example.com'') \<and>
   escapeHtml (str ''http://example.com'') = str ''http://example.com'' \<and>
   url_match (str ''http://e.c x'') = Some (str ''http://e.c'', str '' x'') \<and>
   formatText (str ''http://e.c x'') =
     anchor (escapeHtml (str ''http://e.c'')) @ formatText (str '' x'') \<and>
   url_match (60 # str ''b'') = None \<and>
   formatText (60 # str ''b'') = str ''&lt;'' @ formatText (str ''b'')\<close>
proof -
  have u: "is_url (str ''https://a.b/?x=1&y=2'')"
    by (simp add: is_url_def scheme_length_def str_def is_space_def)
  have p: "is_space (last (str ''go ''))" and q: "is_space (hd (str '' ok''))"
    by (simp_all add: str_def is_space_def)
  have f: "formatText (str ''go '') = str ''go ''" "formatText (str '' ok'') = str '' ok''"
    by (simp_all add: formatText_def line_breaks_def escapeHtml_def replace_class_def
        html_special_def str_def url_match_def scheme_length_def)
  have e: "escapeHtml (str ''https://a.b/?x=1&y=2'') = str ''https://a.b/?x=1&amp;y=2''"
    by (simp add: escapeHtml_def replace_class_def html_special_def str_def entity_map_def)
  have l: "list_all (\<lambda>c. \<not> html_special c) (str ''http://example.com'')"
    by (simp add: html_special_def str_def)
  have m1: "url_match (str ''http://e.c x'') = Some (str ''http://e.c'', str '' x'')"
    by (simp add: url_match_def scheme_length_def str_def is_space_def)
  have m2: "url_match (60 # str ''b'') = None"
    by (simp add: url_match_def scheme_length_def str_def)
  have lt: "escapeHtml [60] = str ''&lt;''"
    by (simp add: escapeHtml_def replace_class_def html_special_def entity_map_def)
  note t1 = formatText_autolink [where v = "str ''https://a.b/?x=1&y=2''" and pre = "str ''go ''"
      and post = "str '' ok''"]
  note t2 = formatText_autolink [where v = "str ''http://example.com''"]
  note t3 = formatText_autolink [where s = "str ''http://e.c x''" and u = "str ''http://e.c''"
      and r = "str '' x''" and c = 60 and cs = "str ''b''"]
  have "formatText (str ''go '' @ str ''https://a.b/?x=1&y=2'' @ str '' ok'') =
      formatText (str ''go '') @ anchor (escapeHtml (str ''https://a.b/?x=1&y=2'')) @
      formatText (str '' ok'')"
    using t1 u p q by blast
  then have \<open>formatText (str ''go '' @ str ''https://a.b/?x=1&y=2'' @ str '' ok'') =
     str ''go <a href="https://a.b/?x=1&amp;y=2" target="_blank" rel="noopener">'' @
     str ''https://a.b/?x=1&amp;y=2</a> ok''\<close>
    unfolding f e by (simp add: anchor_def str_def)
  moreover have "escapeHtml (str ''http://example.com'') = str ''http://example.com''"
    using t2 l by blast
  moreover have "formatText (str ''http://e.c x'') =
     anchor (escapeHtml (str ''http://e.c'')) @ formatText (str '' x'')"
    using t3 m1 by blast
  moreover have "formatText (60 # str ''b'') =
      (if (60::nat) = 10 then str ''<br>'' else escapeHtml [60]) @ formatText (str ''b'')"
    using t3 m2 by blast
  then have "formatText (60 # str ''b'') = str ''&lt;'' @ formatText (str ''b'')"
    by (simp add: lt)
  ultimately show ?thesis using u p q l m1 m2 by blast
qed

lemma settle_success_effects:
  "get_prop data (str ''answer'') = Inr (JStr a) \<longrightarrow>
     snd (handleSubmit_settle q now (Response True data) s) = None \<and>
     chatMessages (fst (handleSubmit_settle q now (Response True data) s)) =
       remove_first is_typing (chatMessages s) @ [ai_message (formatText a)] \<and>
     rendered (chatMessages (fst (handleSubmit_settle q now (Response True data) s))) =
       rendered (chatMessages s) @ [ai_message (formatText a)] \<and>
     innerHTML (ai_message (formatText a)) = message_html ''AI Assistant'' (formatText a) \<and>
     conversationHistory (fst (handleSubmit_settle q now (Response True data) s)) =
       conversationHistory s @ [\<lparr>question = q, answer = JStr a, timestamp = now\<rparr>] \<and>
     toastContainer (fst (handleSubmit_settle q now (Response True data) s)) =
       toastContainer s @ [toast_element (str ''Message sent successfully'') ToastSuccess] \<and>
     (typing_count s \<le> 1 \<longrightarrow>
        typing_count (fst (handleSubmit_settle q now (Response True data) s)) = 0) \<and>
     (trim (input_value s) \<noteq> [] \<and> \<not> isLoading s \<and> typing_count s = 0 \<longrightarrow>
        chatMessages (fst (handleSubmit_settle (trim (input_value s)) now (Response True data)
                        (fst (handleSubmit_begin s)))) =
          chatMessages s @ [user_message (trim (input_value s)), ai_message (formatText a)])"
proof
  assume a: "get_prop data (str ''answer'') = Inr (JStr a)"
  note eq = settle_success [OF a]
  have tc: "typing_count s \<le> 1 \<longrightarrow>
        typing_count (fst (handleSubmit_settle q now (Response True data) s)) = 0"
    by (simp add: eq filter_remove_first typing_count_def)
  have e2e: "trim (input_value s) \<noteq> [] \<and> \<not> isLoading s \<and> typing_count s = 0 \<longrightarrow>
        chatMessages (fst (handleSubmit_settle (trim (input_value s)) now (Response True data)
                        (fst (handleSubmit_begin s)))) =
          chatMessages s @ [user_message (trim (input_value s)), ai_message (formatText a)]"
  proof
    assume h: "trim (input_value s) \<noteq> [] \<and> \<not> isLoading s \<and> typing_count s = 0"
    then have "filter is_typing (chatMessages s) = []" by (simp add: typing_count_def)
    then have "remove_first is_typing (chatMessages s @ [user_message (trim (input_value s)), typing_element]) =
        chatMessages s @ [user_message (trim (input_value s))]"
      by (simp add: remove_first_append)
    then show "chatMessages (fst (handleSubmit_settle (trim (input_value s)) now (Response True data)
                        (fst (handleSubmit_begin s)))) =
          chatMessages s @ [user_message (trim (input_value s)), ai_message (formatText a)]"
      using h by (simp add: begin_accepted settle_success [OF a])
  qed
  have c1: "snd (handleSubmit_settle q now (Response True data) s) = None"
    and c2: "chatMessages (fst (handleSubmit_settle q now (Response True data) s)) =
       remove_first is_typing (chatMessages s) @ [ai_message (formatText a)]"
    and c5: "conversationHistory (fst (handleSubmit_settle q now (Response True data) s)) =
       conversationHistory s @ [\<lparr>question = q, answer = JStr a, timestamp = now\<rparr>]"
    and c6: "toastContainer (fst (handleSubmit_settle q now (Response True data) s)) =
       toastContainer s @ [toast_element (str ''Message sent successfully'') ToastSuccess]"
    by (simp_all add: eq plain_literals)
  have c3: "rendered (chatMessages (fst (handleSubmit_settle q now (Response True data) s))) =
       rendered (chatMessages s) @ [ai_message (formatText a)]"
    unfolding c2 using rendered_remove_first [of "chatMessages s"] by (simp add: rendered_def)
  have c4: "innerHTML (ai_message (formatText a)) = message_html ''AI Assistant'' (formatText a)"
    by (simp add: ai_message_def)
  show "snd (handleSubmit_settle q now (Response True data) s) = None \<and>
     chatMessages (fst (handleSubmit_settle q now (Response True data) s)) =
       remove_first is_typing (chatMessages s) @ [ai_message (formatText a)] \<and>
     rendered (chatMessages (fst (handleSubmit_settle q now (Response True data) s))) =
       rendered (chatMessages s) @ [ai_message (formatText a)] \<and>
     innerHTML (ai_message (formatText a)) = message_html ''AI Assistant'' (formatText a) \<and>
     conversationHistory (fst (handleSubmit_settle q now (Response True data) s)) =
       conversationHistory s @ [\<lparr>question = q, answer = JStr a, timestamp = now\<rparr>] \<and>
     toastContainer (fst (handleSubmit_settle q now (Response True data) s)) =
       toastContainer s @ [toast_element (str ''Message sent successfully'') ToastSuccess] \<and>
     (typing_count s \<le> 1 \<longrightarrow>
        typing_count (fst (handleSubmit_settle q now (Response True data) s)) = 0) \<and>
     (trim (input_value s) \<noteq> [] \<and> \<not> isLoading s \<and> typing_count s = 0 \<longrightarrow>
        chatMessages (fst (handleSubmit_settle (trim (input_value s)) now (Response True data)
                        (fst (handleSubmit_begin s)))) =
          chatMessages s @ [user_message (trim (input_value s)), ai_message (formatText a)])"
    using c1 c2 c3 c4 c5 c6 tc e2e by blast
qed

text \<open>
  Claim C1. When the response has a 2xx status and its body has a string \<open>answer\<close>, the
  settlement throws nothing, removes the typing indicator and appends exactly one
  AI message, whose content is the formatted answer; it appends exactly one turn, made
  of the question, the answer and the time, to \<open>conversationHistory\<close>, and shows the
  success toast. With at most one typing indicator in the list before, none is left
  after. From a page without a typing indicator, a submission followed by its successful
  settlement adds to the message list the user message and the AI message, and nothing
  else.
  The second part of the statement writes the appended message and the toast out: class,
  id and inner HTML, with the formatted answer between the fixed parts of the template.
\<close>

theorem handleSubmit_success:
  \<open>(get_prop data (str ''answer'') = Inr (JStr a) \<longrightarrow>
     snd (handleSubmit_settle q now (Response True data) s) = None \<and>
     chatMessages (fst (handleSubmit_settle q now (Response True data) s)) =
       remove_first is_typing (chatMessages s) @ [ai_message (formatText a)] \<and>
     rendered (chatMessages (fst (handleSubmit_settle q now (Response True data) s))) =
       rendered (chatMessages s) @ [ai_message (formatText a)] \<and>
     innerHTML (ai_message (formatText a)) = message_html ''AI Assistant'' (formatText a) \<and>
     conversationHistory (fst (handleSubmit_settle q now (Response True data) s)) =
       conversationHistory s @ [\<lparr>question = q, answer = JStr a, timestamp = now\<rparr>] \<and>
     toastContainer (fst (handleSubmit_settle q now (Response True data) s)) =
       toastContainer s @ [toast_element (str ''Message sent successfully'') ToastSuccess] \<and>
     (typing_count s \<le> 1 \<longrightarrow>
        typing_count (fst (handleSubmit_settle q now (Response True data) s)) = 0) \<and>
     (trim (input_value s) \<noteq> [] \<and> \<not> isLoading s \<and> typing_count s = 0 \<longrightarrow>
        chatMessages (fst (handleSubmit_settle (trim (input_value s)) now (Response True data)
                        (fst (handleSubmit_begin s)))) =
          chatMessages s @ [user_message (trim (input_value s)), ai_message (formatText a)])) \<and>
   (get_prop data (str ''answer'') = Inr (JStr a) \<longrightarrow>
      chatMessages (fst (handleSubmit_settle q now (Response True data) s)) =
        remove_first is_typing (chatMessages s) @
        [\<lparr>className = ''message message-ai'', elem_id = [],
          innerHTML =
            str ''\<newline>    <div>\<newline>      <div class="message-label">AI Assistant</div>\<newline>      <div class="message-content">'' @
            formatText a @
            str ''</div>\<newline>    </div>\<newline>  ''\<rparr>] \<and>
      toastContainer (fst (handleSubmit_settle q now (Response True data) s)) =
        toastContainer s @
        [\<lparr>className = ''toast success'', elem_id = [],
          innerHTML =
            str ''\<newline>    <span style="font-weight: bold; font-size: 1.2em;">'' @ [10003] @
            str ''</span>\<newline>    <span>'' @ str ''Message sent successfully'' @
            str ''</span>\<newline>  ''\<rparr>])\<close>
proof -
  have new: \<open>(get_prop data (str ''answer'') = Inr (JStr a) \<longrightarrow>
      chatMessages (fst (handleSubmit_settle q now (Response True data) s)) =
        remove_first is_typing (chatMessages s) @
        [\<lparr>className = ''message message-ai'', elem_id = [],
          innerHTML =
            str ''\<newline>    <div>\<newline>      <div class="message-label">AI Assistant</div>\<newline>      <div class="message-content">'' @
            formatText a @
            str ''</div>\<newline>    </div>\<newline>  ''\<rparr>] \<and>
      toastContainer (fst (handleSubmit_settle q now (Response True data) s)) =
        toastContainer s @
        [\<lparr>className = ''toast success'', elem_id = [],
          innerHTML =
            str ''\<newline>    <span style="font-weight: bold; font-size: 1.2em;">'' @ [10003] @
            str ''</span>\<newline>    <span>'' @ str ''Message sent successfully'' @
            str ''</span>\<newline>  ''\<rparr>])\<close>
  proof
    assume a: "get_prop data (str ''answer'') = Inr (JStr a)"
    have "chatMessages (fst (handleSubmit_settle q now (Response True data) s)) =
        remove_first is_typing (chatMessages s) @ [ai_message (formatText a)]"
      and "toastContainer (fst (handleSubmit_settle q now (Response True data) s)) =
        toastContainer s @ [toast_element (str ''Message sent successfully'') ToastSuccess]"
      by (simp_all add: settle_success [OF a] plain_literals)
    then show \<open>chatMessages (fst (handleSubmit_settle q now (Response True data) s)) =
        remove_first is_typing (chatMessages s) @
        [\<lparr>className = ''message message-ai'', elem_id = [],
          innerHTML =
            str ''\<newline>    <div>\<newline>      <div class="message-label">AI Assistant</div>\<newline>      <div class="message-content">'' @
            formatText a @
            str ''</div>\<newline>    </div>\<newline>  ''\<rparr>] \<and>
      toastContainer (fst (handleSubmit_settle q now (Response True data) s)) =
        toastContainer s @
        [\<lparr>className = ''toast success'', elem_id = [],
          innerHTML =
            str ''\<newline>    <span style="font-weight: bold; font-size: 1.2em;">'' @ [10003] @
            str ''</span>\<newline>    <span>'' @ str ''Message sent successfully'' @
            str ''</span>\<newline>  ''\<rparr>]\<close>
      unfolding ai_message_literal toast_success_literal by (intro conjI)
  qed
  show ?thesis by (rule conjI [OF settle_success_effects new])
qed

theorem handleSubmit_success_witness:
  \<open>get_prop (JObj [(str ''answer'', JStr (str ''hi''))]) (str ''answer'') = Inr (JStr (str ''hi'')) \<and>
   trim (input_value (fresh_page\<lparr>input_value := str '' hello ''\<rparr>)) = str ''hello'' \<and>
   \<not> isLoading (fresh_page\<lparr>input_value := str '' hello ''\<rparr>) \<and>
   typing_count (fresh_page\<lparr>input_value := str '' hello ''\<rparr>) = 0 \<and>
   chatMessages (fst (handleSubmit_settle (str ''hello'') 0
       (Response True (JObj [(str ''answer'', JStr (str ''hi''))]))
       (fst (handleSubmit_begin (fresh_page\<lparr>input_value := str '' hello ''\<rparr>))))) =
     [user_message (str ''hello''), ai_message (str ''hi'')] \<and>
   conversationHistory (fst (handleSubmit_settle (str ''hello'') 0
       (Response True (JObj [(str ''answer'', JStr (str ''hi''))]))
       (fst (handleSubmit_begin (fresh_page\<lparr>input_value := str '' hello ''\<rparr>))))) =
     [\<lparr>question = str ''hello'', answer = JStr (str ''hi''), timestamp = 0\<rparr>] \<and>
   typing_count (fst (handleSubmit_begin (fresh_page\<lparr>input_value := str '' hello ''\<rparr>))) = 1 \<and>
   typing_count (fst (handleSubmit_settle (str ''hello'') 0
       (Response True (JObj [(str ''answer'', JStr (str ''hi''))]))
       (fst (handleSubmit_begin (fresh_page\<lparr>input_value := str '' hello ''\<rparr>))))) = 0 \<and>
   last (chatMessages (fst (handleSubmit_settle (str ''hello'') 0
       (Response True (JObj [(str ''answer'', JStr (str ''hi''))]))
       (fst (handleSubmit_begin (fresh_page\<lparr>input_value := str '' hello ''\<rparr>)))))) =
     \<lparr>className = ''message message-ai'', elem_id = [],
      innerHTML =
        str ''\<newline>    <div>\<newline>      <div class="message-label">AI Assistant</div>\<newline>      <div class="message-content">'' @
        str ''hi'' @
        str ''</div>\<newline>    </div>\<newline>  ''\<rparr> \<and>
   last (toastContainer (fst (handleSubmit_settle (str ''hello'') 0
       (Response True (JObj [(str ''answer'', JStr (str ''hi''))]))
       (fst (handleSubmit_begin (fresh_page\<lparr>input_value := str '' hello ''\<rparr>)))))) =
     \<lparr>className = ''toast success'', elem_id = [],
      innerHTML =
        str ''\<newline>    <span style="font-weight: bold; font-size: 1.2em;">'' @ [10003] @
        str ''</span>\<newline>    <span>'' @ str ''Message sent successfully'' @
        str ''</span>\<newline>  ''\<rparr>\<close>
proof -
  let ?s = "fresh_page\<lparr>input_value := str '' hello ''\<rparr>"
  let ?d = "JObj [(str ''answer'', JStr (str ''hi''))]"
  have g: "get_prop ?d (str ''answer'') = Inr (JStr (str ''hi''))"
    by (simp add: get_prop_def str_def)
  have t: "trim (input_value ?s) = str ''hello''"
    by (simp add: trim_def str_def is_space_def)
  have l: "\<not> isLoading ?s" and n: "typing_count ?s = 0" and c: "chatMessages ?s = []"
    and h: "conversationHistory ?s = []"
    by (simp_all add: fresh_page_def typing_count_def)
  have f: "formatText (str ''hi'') = str ''hi''"
    by (simp add: formatText_def line_breaks_def escapeHtml_def replace_class_def
        html_special_def str_def url_match_def scheme_length_def)
  have ne: "trim (input_value ?s) \<noteq> []"
    unfolding t by (simp add: str_def)
  note beg = begin_accepted [OF ne l]
  have b: "typing_count (fst (handleSubmit_begin ?s)) = 1"
    and bh: "conversationHistory (fst (handleSubmit_begin ?s)) = []"
    unfolding beg by (simp_all add: fresh_page_def typing_count_def)
  note w1 = handleSubmit_success [where data = ?d and a = "str ''hi''" and s = ?s and now = 0, THEN conjunct1]
  note w2 = handleSubmit_success [where data = ?d and a = "str ''hi''" and q = "str ''hello''"
      and s = "fst (handleSubmit_begin ?s)" and now = 0, THEN conjunct1]
  have "chatMessages (fst (handleSubmit_settle (trim (input_value ?s)) 0 (Response True ?d)
          (fst (handleSubmit_begin ?s)))) =
        chatMessages ?s @ [user_message (trim (input_value ?s)), ai_message (formatText (str ''hi''))]"
    using w1 g ne l n by blast
  then have m: "chatMessages (fst (handleSubmit_settle (str ''hello'') 0 (Response True ?d)
          (fst (handleSubmit_begin ?s)))) = [user_message (str ''hello''), ai_message (str ''hi'')]"
    unfolding t f c by simp
  have "conversationHistory (fst (handleSubmit_settle (str ''hello'') 0 (Response True ?d)
          (fst (handleSubmit_begin ?s)))) =
        conversationHistory (fst (handleSubmit_begin ?s)) @
        [\<lparr>question = str ''hello'', answer = JStr (str ''hi''), timestamp = 0\<rparr>]"
    using w2 g by blast
  then have k: "conversationHistory (fst (handleSubmit_settle (str ''hello'') 0 (Response True ?d)
          (fst (handleSubmit_begin ?s)))) =
        [\<lparr>question = str ''hello'', answer = JStr (str ''hi''), timestamp = 0\<rparr>]"
    unfolding bh by simp
  have z: "typing_count (fst (handleSubmit_settle (str ''hello'') 0 (Response True ?d)
          (fst (handleSubmit_begin ?s)))) = 0"
    using w2 g b by auto
  note w3 = handleSubmit_success [where data = ?d and a = "str ''hi''" and q = "str ''hello''"
      and s = "fst (handleSubmit_begin ?s)" and now = 0, THEN conjunct2]
  have \<open>last (chatMessages (fst (handleSubmit_settle (str ''hello'') 0 (Response True ?d)
          (fst (handleSubmit_begin ?s))))) =
       \<lparr>className = ''message message-ai'', elem_id = [],
        innerHTML =
          str ''\<newline>    <div>\<newline>      <div class="message-label">AI Assistant</div>\<newline>      <div class="message-content">'' @
          formatText (str ''hi'') @
          str ''</div>\<newline>    </div>\<newline>  ''\<rparr>\<close>
    and y: \<open>last (toastContainer (fst (handleSubmit_settle (str ''hello'') 0 (Response True ?d)
          (fst (handleSubmit_begin ?s))))) =
       \<lparr>className = ''toast success'', elem_id = [],
        innerHTML =
          str ''\<newline>    <span style="font-weight: bold; font-size: 1.2em;">'' @ [10003] @
          str ''</span>\<newline>    <span>'' @ str ''Message sent successfully'' @
          str ''</span>\<newline>  ''\<rparr>\<close>
    using w3 g by simp_all
  then have x: \<open>last (chatMessages (fst (handleSubmit_settle (str ''hello'') 0 (Response True ?d)
          (fst (handleSubmit_begin ?s))))) =
     \<lparr>className = ''message message-ai'', elem_id = [],
      innerHTML =
        str ''\<newline>    <div>\<newline>      <div class="message-label">AI Assistant</div>\<newline>      <div class="message-content">'' @
        str ''hi'' @
        str ''</div>\<newline>    </div>\<newline>  ''\<rparr>\<close>
    unfolding f by simp
  show ?thesis using g t l n m k b z x y by (intro conjI)
qed

lemma settle_failure_effects:
  "(out = FetchRejected \<or> out = JsonRejected \<or> out = Response False data \<longrightarrow>
      snd (handleSubmit_settle q now out s) = None \<and>
      (\<exists>html. rendered (chatMessages (fst (handleSubmit_settle q now out s))) =
         rendered (chatMessages s) @ [error_message html]) \<and>
      (\<exists>html. toastContainer (fst (handleSubmit_settle q now out s)) =
         toastContainer s @ [toast_element html ToastError]) \<and>
      conversationHistory (fst (handleSubmit_settle q now out s)) = conversationHistory s) \<and>
   (get_prop data (str ''error'') = Inr (JStr e) \<and> e \<noteq> [] \<longrightarrow>
      chatMessages (fst (handleSubmit_settle q now (Response False data) s)) =
        remove_first is_typing (chatMessages s) @ [error_message (escapeHtml e)] \<and>
      toastContainer (fst (handleSubmit_settle q now (Response False data) s)) =
        toastContainer s @ [toast_element (escapeHtml e) ToastError]) \<and>
   (out = FetchRejected \<or> out = JsonRejected \<longrightarrow>
      chatMessages (fst (handleSubmit_settle q now out s)) =
        remove_first is_typing (chatMessages s) @ [error_message connect_error_text] \<and>
      toastContainer (fst (handleSubmit_settle q now out s)) =
        toastContainer s @ [toast_element (str ''Connection error'') ToastError]) \<and>
   innerHTML (error_message h) = message_html ''Error'' h \<and>
   connect_error_text =
     str ''Failed to connect to the server. Please make sure the backend is running.''"
proof -
  have a: "out = FetchRejected \<or> out = JsonRejected \<or> out = Response False data \<longrightarrow>
      snd (handleSubmit_settle q now out s) = None \<and>
      (\<exists>html. rendered (chatMessages (fst (handleSubmit_settle q now out s))) =
         rendered (chatMessages s) @ [error_message html]) \<and>
      (\<exists>html. toastContainer (fst (handleSubmit_settle q now out s)) =
         toastContainer s @ [toast_element html ToastError]) \<and>
      conversationHistory (fst (handleSubmit_settle q now out s)) = conversationHistory s"
  proof
    assume h: "out = FetchRejected \<or> out = JsonRejected \<or> out = Response False data"
    have "snd (handleSubmit_settle q now out s) = None"
      using settle_idle [of q now out s] by simp
    then show "snd (handleSubmit_settle q now out s) = None \<and>
      (\<exists>html. rendered (chatMessages (fst (handleSubmit_settle q now out s))) =
         rendered (chatMessages s) @ [error_message html]) \<and>
      (\<exists>html. toastContainer (fst (handleSubmit_settle q now out s)) =
         toastContainer s @ [toast_element html ToastError]) \<and>
      conversationHistory (fst (handleSubmit_settle q now out s)) = conversationHistory s"
      using settle_failure [OF h, of q now s] by (intro conjI)
  qed
  have b: "get_prop data (str ''error'') = Inr (JStr e) \<and> e \<noteq> [] \<longrightarrow>
      chatMessages (fst (handleSubmit_settle q now (Response False data) s)) =
        remove_first is_typing (chatMessages s) @ [error_message (escapeHtml e)] \<and>
      toastContainer (fst (handleSubmit_settle q now (Response False data) s)) =
        toastContainer s @ [toast_element (escapeHtml e) ToastError]"
    by (simp add: settle_error_text)
  have c: "out = FetchRejected \<or> out = JsonRejected \<longrightarrow>
      chatMessages (fst (handleSubmit_settle q now out s)) =
        remove_first is_typing (chatMessages s) @ [error_message connect_error_text] \<and>
      toastContainer (fst (handleSubmit_settle q now out s)) =
        toastContainer s @ [toast_element (str ''Connection error'') ToastError]"
    by (auto simp: settle_rejected plain_literals)
  have d: "innerHTML (error_message h) = message_html ''Error'' h"
    by (simp add: error_message_def)
  show ?thesis
    using a b c d connect_error_text_def by blast
qed

text \<open>
  Claim C2. A submission that fails, be it by a response whose status is not 2xx or by
  an exception of \<^verbatim>\<open>fetch\<close> or of \<^verbatim>\<open>response.json()\<close>, throws nothing out of the
  handler, adds exactly one error message to the messages, shows one error toast and
  leaves \<open>conversationHistory\<close> as it was. When the body of the failed response has a
  non-empty string \<open>error\<close>, the message and the toast hold that text, escaped; when the
  exchange threw, they hold the connectivity text and \<^verbatim>\<open>Connection error\<close>.
  The second part of the statement writes the error message and the toast out: class, id
  and inner HTML, with the text between the fixed parts of the template.
\<close>

theorem handleSubmit_failure:
  \<open>((out = FetchRejected \<or> out = JsonRejected \<or> out = Response False data \<longrightarrow>
      snd (handleSubmit_settle q now out s) = None \<and>
      (\<exists>html. rendered (chatMessages (fst (handleSubmit_settle q now out s))) =
         rendered (chatMessages s) @ [error_message html]) \<and>
      (\<exists>html. toastContainer (fst (handleSubmit_settle q now out s)) =
         toastContainer s @ [toast_element html ToastError]) \<and>
      conversationHistory (fst (handleSubmit_settle q now out s)) = conversationHistory s) \<and>
   (get_prop data (str ''error'') = Inr (JStr e) \<and> e \<noteq> [] \<longrightarrow>
      chatMessages (fst (handleSubmit_settle q now (Response False data) s)) =
        remove_first is_typing (chatMessages s) @ [error_message (escapeHtml e)] \<and>
      toastContainer (fst (handleSubmit_settle q now (Response False data) s)) =
        toastContainer s @ [toast_element (escapeHtml e) ToastError]) \<and>
   (out = FetchRejected \<or> out = JsonRejected \<longrightarrow>
      chatMessages (fst (handleSubmit_settle q now out s)) =
        remove_first is_typing (chatMessages s) @ [error_message connect_error_text] \<and>
      toastContainer (fst (handleSubmit_settle q now out s)) =
        toastContainer s @ [toast_element (str ''Connection error'') ToastError]) \<and>
   innerHTML (error_message h) = message_html ''Error'' h \<and>
   connect_error_text =
     str ''Failed to connect to the server. Please make sure the backend is running.'') \<and>
   (get_prop data (str ''error'') = Inr (JStr e) \<and> e \<noteq> [] \<longrightarrow>
      chatMessages (fst (handleSubmit_settle q now (Response False data) s)) =
        remove_first is_typing (chatMessages s) @
        [\<lparr>className = ''message message-error'', elem_id = [],
          innerHTML =
            str ''\<newline>    <div>\<newline>      <div class="message-label">Error</div>\<newline>      <div class="message-content">'' @
            escapeHtml e @
            str ''</div>\<newline>    </div>\<newline>  ''\<rparr>] \<and>
      toastContainer (fst (handleSubmit_settle q now (Response False data) s)) =
        toastContainer s @
        [\<lparr>className = ''toast error'', elem_id = [],
          innerHTML =
            str ''\<newline>    <span style="font-weight: bold; font-size: 1.2em;">'' @ [10005] @
            str ''</span>\<newline>    <span>'' @ escapeHtml e @
            str ''</span>\<newline>  ''\<rparr>]) \<and>
   (out = FetchRejected \<or> out = JsonRejected \<longrightarrow>
      chatMessages (fst (handleSubmit_settle q now out s)) =
        remove_first is_typing (chatMessages s) @
        [\<lparr>className = ''message message-error'', elem_id = [],
          innerHTML =
            str ''\<newline>    <div>\<newline>      <div class="message-label">Error</div>\<newline>      <div class="message-content">'' @
            str ''Failed to connect to the server. Please make sure the backend is running.'' @
            str ''</div>\<newline>    </div>\<newline>  ''\<rparr>] \<and>
      toastContainer (fst (handleSubmit_settle q now out s)) =
        toastContainer s @
        [\<lparr>className = ''toast error'', elem_id = [],
          innerHTML =
            str ''\<newline>    <span style="font-weight: bold; font-size: 1.2em;">'' @ [10005] @
            str ''</span>\<newline>    <span>'' @ str ''Connection error'' @
            str ''</span>\<newline>  ''\<rparr>]) \<and>
   (out = FetchRejected \<or> out = JsonRejected \<or> out = Response False data \<longrightarrow>
      (\<exists>html. rendered (chatMessages (fst (handleSubmit_settle q now out s))) =
        rendered (chatMessages s) @
        [\<lparr>className = ''message message-error'', elem_id = [],
          innerHTML =
            str ''\<newline>    <div>\<newline>      <div class="message-label">Error</div>\<newline>      <div class="message-content">'' @
            html @
            str ''</div>\<newline>    </div>\<newline>  ''\<rparr>]) \<and>
      (\<exists>html. toastContainer (fst (handleSubmit_settle q now out s)) =
        toastContainer s @
        [\<lparr>className = ''toast error'', elem_id = [],
          innerHTML =
            str ''\<newline>    <span style="font-weight: bold; font-size: 1.2em;">'' @ [10005] @
            str ''</span>\<newline>    <span>'' @ html @
            str ''</span>\<newline>  ''\<rparr>]))\<close>
proof -
  have new: \<open>(get_prop data (str ''error'') = Inr (JStr e) \<and> e \<noteq> [] \<longrightarrow>
      chatMessages (fst (handleSubmit_settle q now (Response False data) s)) =
        remove_first is_typing (chatMessages s) @
        [\<lparr>className = ''message message-error'', elem_id = [],
          innerHTML =
            str ''\<newline>    <div>\<newline>      <div class="message-label">Error</div>\<newline>      <div class="message-content">'' @
            escapeHtml e @
            str ''</div>\<newline>    </div>\<newline>  ''\<rparr>] \<and>
      toastContainer (fst (handleSubmit_settle q now (Response False data) s)) =
        toastContainer s @
        [\<lparr>className = ''toast error'', elem_id = [],
          innerHTML =
            str ''\<newline>    <span style="font-weight: bold; font-size: 1.2em;">'' @ [10005] @
            str ''</span>\<newline>    <span>'' @ escapeHtml e @
            str ''</span>\<newline>  ''\<rparr>]) \<and>
   (out = FetchRejected \<or> out = JsonRejected \<longrightarrow>
      chatMessages (fst (handleSubmit_settle q now out s)) =
        remove_first is_typing (chatMessages s) @
        [\<lparr>className = ''message message-error'', elem_id = [],
          innerHTML =
            str ''\<newline>    <div>\<newline>      <div class="message-label">Error</div>\<newline>      <div class="message-content">'' @
            str ''Failed to connect to the server. Please make sure the backend is running.'' @
            str ''</div>\<newline>    </div>\<newline>  ''\<rparr>] \<and>
      toastContainer (fst (handleSubmit_settle q now out s)) =
        toastContainer s @
        [\<lparr>className = ''toast error'', elem_id = [],
          innerHTML =
            str ''\<newline>    <span style="font-weight: bold; font-size: 1.2em;">'' @ [10005] @
            str ''</span>\<newline>    <span>'' @ str ''Connection error'' @
            str ''</span>\<newline>  ''\<rparr>]) \<and>
   (out = FetchRejected \<or> out = JsonRejected \<or> out = Response False data \<longrightarrow>
      (\<exists>html. rendered (chatMessages (fst (handleSubmit_settle q now out s))) =
        rendered (chatMessages s) @
        [\<lparr>className = ''message message-error'', elem_id = [],
          innerHTML =
            str ''\<newline>    <div>\<newline>      <div class="message-label">Error</div>\<newline>      <div class="message-content">'' @
            html @
            str ''</div>\<newline>    </div>\<newline>  ''\<rparr>]) \<and>
      (\<exists>html. toastContainer (fst (handleSubmit_settle q now out s)) =
        toastContainer s @
        [\<lparr>className = ''toast error'', elem_id = [],
          innerHTML =
            str ''\<newline>    <span style="font-weight: bold; font-size: 1.2em;">'' @ [10005] @
            str ''</span>\<newline>    <span>'' @ html @
            str ''</span>\<newline>  ''\<rparr>]))\<close>
  proof -
    have a: \<open>get_prop data (str ''error'') = Inr (JStr e) \<and> e \<noteq> [] \<longrightarrow>
      chatMessages (fst (handleSubmit_settle q now (Response False data) s)) =
        remove_first is_typing (chatMessages s) @
        [\<lparr>className = ''message message-error'', elem_id = [],
          innerHTML =
            str ''\<newline>    <div>\<newline>      <div class="message-label">Error</div>\<newline>      <div class="message-content">'' @
            escapeHtml e @
            str ''</div>\<newline>    </div>\<newline>  ''\<rparr>] \<and>
      toastContainer (fst (handleSubmit_settle q now (Response False data) s)) =
        toastContainer s @
        [\<lparr>className = ''toast error'', elem_id = [],
          innerHTML =
            str ''\<newline>    <span style="font-weight: bold; font-size: 1.2em;">'' @ [10005] @
            str ''</span>\<newline>    <span>'' @ escapeHtml e @
            str ''</span>\<newline>  ''\<rparr>]\<close>
    proof
      assume h: "get_prop data (str ''error'') = Inr (JStr e) \<and> e \<noteq> []"
      have "chatMessages (fst (handleSubmit_settle q now (Response False data) s)) =
          remove_first is_typing (chatMessages s) @ [error_message (escapeHtml e)]"
        and "toastContainer (fst (handleSubmit_settle q now (Response False data) s)) =
          toastContainer s @ [toast_element (escapeHtml e) ToastError]"
        using h by (simp_all add: settle_error_text)
      then show \<open>chatMessages (fst (handleSubmit_settle q now (Response False data) s)) =
        remove_first is_typing (chatMessages s) @
        [\<lparr>className = ''message message-error'', elem_id = [],
          innerHTML =
            str ''\<newline>    <div>\<newline>      <div class="message-label">Error</div>\<newline>      <div class="message-content">'' @
            escapeHtml e @
            str ''</div>\<newline>    </div>\<newline>  ''\<rparr>] \<and>
      toastContainer (fst (handleSubmit_settle q now (Response False data) s)) =
        toastContainer s @
        [\<lparr>className = ''toast error'', elem_id = [],
          innerHTML =
            str ''\<newline>    <span style="font-weight: bold; font-size: 1.2em;">'' @ [10005] @
            str ''</span>\<newline>    <span>'' @ escapeHtml e @
            str ''</span>\<newline>  ''\<rparr>]\<close>
        unfolding error_message_literal toast_error_literal by (intro conjI)
    qed
    have b: \<open>out = FetchRejected \<or> out = JsonRejected \<longrightarrow>
      chatMessages (fst (handleSubmit_settle q now out s)) =
        remove_first is_typing (chatMessages s) @
        [\<lparr>className = ''message message-error'', elem_id = [],
          innerHTML =
            str ''\<newline>    <div>\<newline>      <div class="message-label">Error</div>\<newline>      <div class="message-content">'' @
            str ''Failed to connect to the server. Please make sure the backend is running.'' @
            str ''</div>\<newline>    </div>\<newline>  ''\<rparr>] \<and>
      toastContainer (fst (handleSubmit_settle q now out s)) =
        toastContainer s @
        [\<lparr>className = ''toast error'', elem_id = [],
          innerHTML =
            str ''\<newline>    <span style="font-weight: bold; font-size: 1.2em;">'' @ [10005] @
            str ''</span>\<newline>    <span>'' @ str ''Connection error'' @
            str ''</span>\<newline>  ''\<rparr>]\<close>
    proof
      assume h: "out = FetchRejected \<or> out = JsonRejected"
      have "chatMessages (fst (handleSubmit_settle q now out s)) =
          remove_first is_typing (chatMessages s) @ [error_message connect_error_text]"
        and "toastContainer (fst (handleSubmit_settle q now out s)) =
          toastContainer s @ [toast_element (str ''Connection error'') ToastError]"
        by (simp_all add: settle_rejected [OF h] plain_literals)
      then show \<open>chatMessages (fst (handleSubmit_settle q now out s)) =
        remove_first is_typing (chatMessages s) @
        [\<lparr>className = ''message message-error'', elem_id = [],
          innerHTML =
            str ''\<newline>    <div>\<newline>      <div class="message-label">Error</div>\<newline>      <div class="message-content">'' @
            str ''Failed to connect to the server. Please make sure the backend is running.'' @
            str ''</div>\<newline>    </div>\<newline>  ''\<rparr>] \<and>
      toastContainer (fst (handleSubmit_settle q now out s)) =
        toastContainer s @
        [\<lparr>className = ''toast error'', elem_id = [],
          innerHTML =
            str ''\<newline>    <span style="font-weight: bold; font-size: 1.2em;">'' @ [10005] @
            str ''</span>\<newline>    <span>'' @ str ''Connection error'' @
            str ''</span>\<newline>  ''\<rparr>]\<close>
        unfolding error_message_literal toast_error_literal connect_error_text_def
        by (intro conjI)
    qed
    have c: \<open>out = FetchRejected \<or> out = JsonRejected \<or> out = Response False data \<longrightarrow>
      (\<exists>html. rendered (chatMessages (fst (handleSubmit_settle q now out s))) =
        rendered (chatMessages s) @
        [\<lparr>className = ''message message-error'', elem_id = [],
          innerHTML =
            str ''\<newline>    <div>\<newline>      <div class="message-label">Error</div>\<newline>      <div class="message-content">'' @
            html @
            str ''</div>\<newline>    </div>\<newline>  ''\<rparr>]) \<and>
      (\<exists>html. toastContainer (fst (handleSubmit_settle q now out s)) =
        toastContainer s @
        [\<lparr>className = ''toast error'', elem_id = [],
          innerHTML =
            str ''\<newline>    <span style="font-weight: bold; font-size: 1.2em;">'' @ [10005] @
            str ''</span>\<newline>    <span>'' @ html @
            str ''</span>\<newline>  ''\<rparr>])\<close>
    proof
      assume h: "out = FetchRejected \<or> out = JsonRejected \<or> out = Response False data"
      show \<open>(\<exists>html. rendered (chatMessages (fst (handleSubmit_settle q now out s))) =
        rendered (chatMessages s) @
        [\<lparr>className = ''message message-error'', elem_id = [],
          innerHTML =
            str ''\<newline>    <div>\<newline>      <div class="message-label">Error</div>\<newline>      <div class="message-content">'' @
            html @
            str ''</div>\<newline>    </div>\<newline>  ''\<rparr>]) \<and>
      (\<exists>html. toastContainer (fst (handleSubmit_settle q now out s)) =
        toastContainer s @
        [\<lparr>className = ''toast error'', elem_id = [],
          innerHTML =
            str ''\<newline>    <span style="font-weight: bold; font-size: 1.2em;">'' @ [10005] @
            str ''</span>\<newline>    <span>'' @ html @
            str ''</span>\<newline>  ''\<rparr>])\<close>
        using settle_failure(1,2) [OF h, of q now s]
        unfolding error_message_literal toast_error_literal by (intro conjI)
    qed
    show ?thesis using a b c by (intro conjI)
  qed
  show ?thesis by (rule conjI [OF settle_failure_effects new])
qed

theorem handleSubmit_failure_witness:
  \<open>get_prop (JObj [(str ''error'', JStr (str ''bad question''))]) (str ''error'') =
     Inr (JStr (str ''bad question'')) \<and> str ''bad question'' \<noteq> [] \<and>
   chatMessages (fst (handleSubmit_settle (str ''q'') 0
       (Response False (JObj [(str ''error'', JStr (str ''bad question''))])) fresh_page)) =
     [error_message (str ''bad question'')] \<and>
   conversationHistory (fst (handleSubmit_settle (str ''q'') 0
       (Response False (JObj [(str ''error'', JStr (str ''bad question''))])) fresh_page)) = [] \<and>
   chatMessages (fst (handleSubmit_settle (str ''q'') 0 FetchRejected fresh_page)) =
     [error_message connect_error_text] \<and>
   conversationHistory (fst (handleSubmit_settle (str ''q'') 0 FetchRejected fresh_page)) = [] \<and>
   toastContainer (fst (handleSubmit_settle (str ''q'') 0 FetchRejected fresh_page)) =
     [toast_element (str ''Connection error'') ToastError] \<and>
   last (chatMessages (fst (handleSubmit_settle (str ''q'') 0
       (Response False (JObj [(str ''error'', JStr (str ''bad question''))])) fresh_page))) =
     \<lparr>className = ''message message-error'', elem_id = [],
      innerHTML =
        str ''\<newline>    <div>\<newline>      <div class="message-label">Error</div>\<newline>      <div class="message-content">'' @
        str ''bad question'' @
        str ''</div>\<newline>    </div>\<newline>  ''\<rparr> \<and>
   last (toastContainer (fst (handleSubmit_settle (str ''q'') 0
       (Response False (JObj [(str ''error'', JStr (str ''bad question''))])) fresh_page))) =
     \<lparr>className = ''toast error'', elem_id = [],
      innerHTML =
        str ''\<newline>    <span style="font-weight: bold; font-size: 1.2em;">'' @ [10005] @
        str ''</span>\<newline>    <span>'' @ str ''bad question'' @
        str ''</span>\<newline>  ''\<rparr> \<and>
   last (chatMessages (fst (handleSubmit_settle (str ''q'') 0 FetchRejected fresh_page))) =
     \<lparr>className = ''message message-error'', elem_id = [],
      innerHTML =
        str ''\<newline>    <div>\<newline>      <div class="message-label">Error</div>\<newline>      <div class="message-content">'' @
        str ''Failed to connect to the server. Please make sure the backend is running.'' @
        str ''</div>\<newline>    </div>\<newline>  ''\<rparr>\<close>
proof -
  let ?d = "JObj [(str ''error'', JStr (str ''bad question''))]"
  have g: "get_prop ?d (str ''error'') = Inr (JStr (str ''bad question''))"
    by (simp add: get_prop_def str_def)
  have n: "str ''bad question'' \<noteq> []" by (simp add: str_def)
  have e: "escapeHtml (str ''bad question'') = str ''bad question''"
    by (rule plain_escapeHtml) (simp add: str_def html_special_def)
  have f: "chatMessages fresh_page = []" "conversationHistory fresh_page = []"
    "toastContainer fresh_page = []"
    by (simp_all add: fresh_page_def)
  note t1 = handleSubmit_failure [where out = "Response False ?d" and data = ?d
      and e = "str ''bad question''" and q = "str ''q''" and now = 0 and s = fresh_page, THEN conjunct1]
  note t2 = handleSubmit_failure [where out = FetchRejected and q = "str ''q''" and now = 0
      and s = fresh_page, THEN conjunct1]
  have "chatMessages (fst (handleSubmit_settle (str ''q'') 0 (Response False ?d) fresh_page)) =
      remove_first is_typing (chatMessages fresh_page) @
      [error_message (escapeHtml (str ''bad question''))]"
    using t1 g n by blast
  then have m1: "chatMessages (fst (handleSubmit_settle (str ''q'') 0 (Response False ?d)
      fresh_page)) = [error_message (str ''bad question'')]"
    unfolding e f by simp
  have "conversationHistory (fst (handleSubmit_settle (str ''q'') 0 (Response False ?d)
      fresh_page)) = conversationHistory fresh_page"
    using t1 by blast
  then have h1: "conversationHistory (fst (handleSubmit_settle (str ''q'') 0 (Response False ?d)
      fresh_page)) = []"
    unfolding f .
  have "chatMessages (fst (handleSubmit_settle (str ''q'') 0 FetchRejected fresh_page)) =
      remove_first is_typing (chatMessages fresh_page) @ [error_message connect_error_text]"
    and "conversationHistory (fst (handleSubmit_settle (str ''q'') 0 FetchRejected fresh_page)) =
      conversationHistory fresh_page"
    and "toastContainer (fst (handleSubmit_settle (str ''q'') 0 FetchRejected fresh_page)) =
      toastContainer fresh_page @ [toast_element (str ''Connection error'') ToastError]"
    using t2 by blast+
  then have m2: "chatMessages (fst (handleSubmit_settle (str ''q'') 0 FetchRejected fresh_page)) =
      [error_message connect_error_text]"
    and h2: "conversationHistory (fst (handleSubmit_settle (str ''q'') 0 FetchRejected
      fresh_page)) = []"
    and t: "toastContainer (fst (handleSubmit_settle (str ''q'') 0 FetchRejected fresh_page)) =
      [toast_element (str ''Connection error'') ToastError]"
    unfolding f by simp_all
  note t3 = handleSubmit_failure [where out = "Response False ?d" and data = ?d
      and e = "str ''bad question''" and q = "str ''q''" and now = 0 and s = fresh_page,
      THEN conjunct2]
  note t4 = handleSubmit_failure [where out = FetchRejected and q = "str ''q''" and now = 0
      and s = fresh_page, THEN conjunct2]
  have \<open>last (chatMessages (fst (handleSubmit_settle (str ''q'') 0 (Response False ?d) fresh_page))) =
       \<lparr>className = ''message message-error'', elem_id = [],
        innerHTML =
          str ''\<newline>    <div>\<newline>      <div class="message-label">Error</div>\<newline>      <div class="message-content">'' @
          escapeHtml (str ''bad question'') @
          str ''</div>\<newline>    </div>\<newline>  ''\<rparr>\<close>
    and \<open>last (toastContainer (fst (handleSubmit_settle (str ''q'') 0 (Response False ?d) fresh_page))) =
       \<lparr>className = ''toast error'', elem_id = [],
        innerHTML =
          str ''\<newline>    <span style="font-weight: bold; font-size: 1.2em;">'' @ [10005] @
          str ''</span>\<newline>    <span>'' @ escapeHtml (str ''bad question'') @
          str ''</span>\<newline>  ''\<rparr>\<close>
    using t3 g n by simp_all
  then have x1: \<open>last (chatMessages (fst (handleSubmit_settle (str ''q'') 0 (Response False ?d) fresh_page))) =
     \<lparr>className = ''message message-error'', elem_id = [],
      innerHTML =
        str ''\<newline>    <div>\<newline>      <div class="message-label">Error</div>\<newline>      <div class="message-content">'' @
        str ''bad question'' @
        str ''</div>\<newline>    </div>\<newline>  ''\<rparr>\<close>
    and x2: \<open>last (toastContainer (fst (handleSubmit_settle (str ''q'') 0 (Response False ?d) fresh_page))) =
     \<lparr>className = ''toast error'', elem_id = [],
      innerHTML =
        str ''\<newline>    <span style="font-weight: bold; font-size: 1.2em;">'' @ [10005] @
        str ''</span>\<newline>    <span>'' @ str ''bad question'' @
        str ''</span>\<newline>  ''\<rparr>\<close>
    unfolding e by simp_all
  have x3: \<open>last (chatMessages (fst (handleSubmit_settle (str ''q'') 0 FetchRejected fresh_page))) =
     \<lparr>className = ''message message-error'', elem_id = [],
      innerHTML =
        str ''\<newline>    <div>\<newline>      <div class="message-label">Error</div>\<newline>      <div class="message-content">'' @
        str ''Failed to connect to the server. Please make sure the backend is running.'' @
        str ''</div>\<newline>    </div>\<newline>  ''\<rparr>\<close>
    using t4 by simp
  show ?thesis using g n m1 h1 m2 h2 t x1 x2 x3 by (intro conjI)
qed

lemma settle_bad_answer_effects:
  "(\<forall>a. get_prop data (str ''answer'') \<noteq> Inr (JStr a)) \<longrightarrow>
     snd (handleSubmit_try q now (Response True data) s) = Some TypeError \<and>
     snd (handleSubmit_settle q now (Response True data) s) = None \<and>
     rendered (chatMessages (fst (handleSubmit_settle q now (Response True data) s))) =
       rendered (chatMessages s) @ [error_message connect_error_text] \<and>
     toastContainer (fst (handleSubmit_settle q now (Response True data) s)) =
       toastContainer s @ [toast_element (str ''Connection error'') ToastError] \<and>
     conversationHistory (fst (handleSubmit_settle q now (Response True data) s)) =
       conversationHistory s \<and>
     \<not> isLoading (fst (handleSubmit_settle q now (Response True data) s)) \<and>
     \<not> submit_disabled (fst (handleSubmit_settle q now (Response True data) s)) \<and>
     (typing_count s \<le> 1 \<longrightarrow>
        typing_count (fst (handleSubmit_settle q now (Response True data) s)) = 0)"
proof
  assume h: "\<forall>a. get_prop data (str ''answer'') \<noteq> Inr (JStr a)"
  note eq = settle_bad_answer [OF h, of q now s]
  have c1: "snd (handleSubmit_try q now (Response True data) s) = Some TypeError"
    by (simp add: try_bad_answer [OF h])
  have c2: "snd (handleSubmit_settle q now (Response True data) s) = None"
    and c4: "toastContainer (fst (handleSubmit_settle q now (Response True data) s)) =
       toastContainer s @ [toast_element (str ''Connection error'') ToastError]"
    and c5: "conversationHistory (fst (handleSubmit_settle q now (Response True data) s)) =
       conversationHistory s"
    and c6: "\<not> isLoading (fst (handleSubmit_settle q now (Response True data) s))"
    and c7: "\<not> submit_disabled (fst (handleSubmit_settle q now (Response True data) s))"
    by (simp_all add: eq plain_literals)
  have c3: "rendered (chatMessages (fst (handleSubmit_settle q now (Response True data) s))) =
       rendered (chatMessages s) @ [error_message connect_error_text]"
    by (simp add: eq plain_literals rendered_append rendered_remove_first)
  have c8: "typing_count s \<le> 1 \<longrightarrow>
        typing_count (fst (handleSubmit_settle q now (Response True data) s)) = 0"
    using settle_idle [of q now "Response True data" s] by auto
  show "snd (handleSubmit_try q now (Response True data) s) = Some TypeError \<and>
     snd (handleSubmit_settle q now (Response True data) s) = None \<and>
     rendered (chatMessages (fst (handleSubmit_settle q now (Response True data) s))) =
       rendered (chatMessages s) @ [error_message connect_error_text] \<and>
     toastContainer (fst (handleSubmit_settle q now (Response True data) s)) =
       toastContainer s @ [toast_element (str ''Connection error'') ToastError] \<and>
     conversationHistory (fst (handleSubmit_settle q now (Response True data) s)) =
       conversationHistory s \<and>
     \<not> isLoading (fst (handleSubmit_settle q now (Response True data) s)) \<and>
     \<not> submit_disabled (fst (handleSubmit_settle q now (Response True data) s)) \<and>
     (typing_count s \<le> 1 \<longrightarrow>
        typing_count (fst (handleSubmit_settle q now (Response True data) s)) = 0)"
    using c1 c2 c3 c4 c5 c6 c7 c8 by (intro conjI)
qed

text \<open>
  Claim C9. When the response has a 2xx status and its body has no string \<open>answer\<close>
  (the body is \<^verbatim>\<open>null\<close>, or the property is missing, \<^verbatim>\<open>null\<close> or of another type), the
  try block throws a TypeError before any AI message is appended; the handler catches it:
  the connectivity error message and the toast \<^verbatim>\<open>Connection error\<close> are shown, no turn
  is appended, and the loading state is cleared.
  The second part of the statement writes the error message and the toast out.
\<close>

theorem handleSubmit_bad_answer:
  \<open>((\<forall>a. get_prop data (str ''answer'') \<noteq> Inr (JStr a)) \<longrightarrow>
     snd (handleSubmit_try q now (Response True data) s) = Some TypeError \<and>
     snd (handleSubmit_settle q now (Response True data) s) = None \<and>
     rendered (chatMessages (fst (handleSubmit_settle q now (Response True data) s))) =
       rendered (chatMessages s) @ [error_message connect_error_text] \<and>
     toastContainer (fst (handleSubmit_settle q now (Response True data) s)) =
       toastContainer s @ [toast_element (str ''Connection error'') ToastError] \<and>
     conversationHistory (fst (handleSubmit_settle q now (Response True data) s)) =
       conversationHistory s \<and>
     \<not> isLoading (fst (handleSubmit_settle q now (Response True data) s)) \<and>
     \<not> submit_disabled (fst (handleSubmit_settle q now (Response True data) s)) \<and>
     (typing_count s \<le> 1 \<longrightarrow>
        typing_count (fst (handleSubmit_settle q now (Response True data) s)) = 0)) \<and>
   ((\<forall>a. get_prop data (str ''answer'') \<noteq> Inr (JStr a)) \<longrightarrow>
      rendered (chatMessages (fst (handleSubmit_settle q now (Response True data) s))) =
        rendered (chatMessages s) @
        [\<lparr>className = ''message message-error'', elem_id = [],
          innerHTML =
            str ''\<newline>    <div>\<newline>      <div class="message-label">Error</div>\<newline>      <div class="message-content">'' @
            str ''Failed to connect to the server. Please make sure the backend is running.'' @
            str ''</div>\<newline>    </div>\<newline>  ''\<rparr>] \<and>
      toastContainer (fst (handleSubmit_settle q now (Response True data) s)) =
        toastContainer s @
        [\<lparr>className = ''toast error'', elem_id = [],
          innerHTML =
            str ''\<newline>    <span style="font-weight: bold; font-size: 1.2em;">'' @ [10005] @
            str ''</span>\<newline>    <span>'' @ str ''Connection error'' @
            str ''</span>\<newline>  ''\<rparr>])\<close>
proof -
  have new: \<open>((\<forall>a. get_prop data (str ''answer'') \<noteq> Inr (JStr a)) \<longrightarrow>
      rendered (chatMessages (fst (handleSubmit_settle q now (Response True data) s))) =
        rendered (chatMessages s) @
        [\<lparr>className = ''message message-error'', elem_id = [],
          innerHTML =
            str ''\<newline>    <div>\<newline>      <div class="message-label">Error</div>\<newline>      <div class="message-content">'' @
            str ''Failed to connect to the server. Please make sure the backend is running.'' @
            str ''</div>\<newline>    </div>\<newline>  ''\<rparr>] \<and>
      toastContainer (fst (handleSubmit_settle q now (Response True data) s)) =
        toastContainer s @
        [\<lparr>className = ''toast error'', elem_id = [],
          innerHTML =
            str ''\<newline>    <span style="font-weight: bold; font-size: 1.2em;">'' @ [10005] @
            str ''</span>\<newline>    <span>'' @ str ''Connection error'' @
            str ''</span>\<newline>  ''\<rparr>])\<close>
  proof
    assume h: "\<forall>a. get_prop data (str ''answer'') \<noteq> Inr (JStr a)"
    have "rendered (chatMessages (fst (handleSubmit_settle q now (Response True data) s))) =
        rendered (chatMessages s) @ [error_message connect_error_text]"
      and "toastContainer (fst (handleSubmit_settle q now (Response True data) s)) =
        toastContainer s @ [toast_element (str ''Connection error'') ToastError]"
      by (simp_all add: settle_bad_answer [OF h] plain_literals rendered_append
          rendered_remove_first)
    then show \<open>rendered (chatMessages (fst (handleSubmit_settle q now (Response True data) s))) =
        rendered (chatMessages s) @
        [\<lparr>className = ''message message-error'', elem_id = [],
          innerHTML =
            str ''\<newline>    <div>\<newline>      <div class="message-label">Error</div>\<newline>      <div class="message-content">'' @
            str ''Failed to connect to the server. Please make sure the backend is running.'' @
            str ''</div>\<newline>    </div>\<newline>  ''\<rparr>] \<and>
      toastContainer (fst (handleSubmit_settle q now (Response True data) s)) =
        toastContainer s @
        [\<lparr>className = ''toast error'', elem_id = [],
          innerHTML =
            str ''\<newline>    <span style="font-weight: bold; font-size: 1.2em;">'' @ [10005] @
            str ''</span>\<newline>    <span>'' @ str ''Connection error'' @
            str ''</span>\<newline>  ''\<rparr>]\<close>
      unfolding error_message_literal toast_error_literal connect_error_text_def
      by (intro conjI)
  qed
  show ?thesis by (rule conjI [OF settle_bad_answer_effects new])
qed

theorem handleSubmit_bad_answer_witness:
  "(\<forall>a. get_prop (JObj []) (str ''answer'') \<noteq> Inr (JStr a)) \<and>
   (\<forall>a. get_prop (JObj [(str ''answer'', JNull)]) (str ''answer'') \<noteq> Inr (JStr a)) \<and>
   (\<forall>a. get_prop (JObj [(str ''answer'', JNum 42)]) (str ''answer'') \<noteq> Inr (JStr a)) \<and>
   (\<forall>a. get_prop JNull (str ''answer'') \<noteq> Inr (JStr a)) \<and>
   typing_count (append_message typing_element fresh_page) \<le> 1 \<and>
   rendered (chatMessages (fst (handleSubmit_settle (str ''q'') 0
       (Response True (JObj [(str ''answer'', JNum 42)]))
       (append_message typing_element fresh_page)))) = [error_message connect_error_text] \<and>
   conversationHistory (fst (handleSubmit_settle (str ''q'') 0
       (Response True (JObj [(str ''answer'', JNum 42)]))
       (append_message typing_element fresh_page))) = [] \<and>
   typing_count (fst (handleSubmit_settle (str ''q'') 0
       (Response True (JObj [(str ''answer'', JNum 42)]))
       (append_message typing_element fresh_page))) = 0 \<and>
   rendered (chatMessages (fst (handleSubmit_settle (str ''q'') 0 (Response True (JObj []))
       fresh_page))) = [error_message connect_error_text] \<and>
   rendered (chatMessages (fst (handleSubmit_settle (str ''q'') 0 (Response True JNull)
       fresh_page))) = [error_message connect_error_text]"
proof -
  let ?p = "append_message typing_element fresh_page"
  have g1: "\<forall>a. get_prop (JObj []) (str ''answer'') \<noteq> Inr (JStr a)"
    and g2: "\<forall>a. get_prop (JObj [(str ''answer'', JNull)]) (str ''answer'') \<noteq> Inr (JStr a)"
    and g3: "\<forall>a. get_prop (JObj [(str ''answer'', JNum 42)]) (str ''answer'') \<noteq> Inr (JStr a)"
    and g4: "\<forall>a. get_prop JNull (str ''answer'') \<noteq> Inr (JStr a)"
    by (simp_all add: get_prop_def)
  have p: "typing_count ?p \<le> 1" "rendered (chatMessages ?p) = []"
    "conversationHistory ?p = []"
    by (simp_all add: append_message_def fresh_page_def typing_count_def rendered_def)
  have f: "rendered (chatMessages fresh_page) = []"
    by (simp add: fresh_page_def rendered_def)
  note t3 = handleSubmit_bad_answer [where data = "JObj [(str ''answer'', JNum 42)]"
      and q = "str ''q''" and now = 0 and s = ?p, THEN conjunct1]
  note t1 = handleSubmit_bad_answer [where data = "JObj []" and q = "str ''q''" and now = 0
      and s = fresh_page, THEN conjunct1]
  note t4 = handleSubmit_bad_answer [where data = JNull and q = "str ''q''" and now = 0
      and s = fresh_page, THEN conjunct1]
  have a: "rendered (chatMessages (fst (handleSubmit_settle (str ''q'') 0
       (Response True (JObj [(str ''answer'', JNum 42)])) ?p))) = [error_message connect_error_text]"
    and b: "conversationHistory (fst (handleSubmit_settle (str ''q'') 0
       (Response True (JObj [(str ''answer'', JNum 42)])) ?p)) = []"
    and c: "typing_count (fst (handleSubmit_settle (str ''q'') 0
       (Response True (JObj [(str ''answer'', JNum 42)])) ?p)) = 0"
    using t3 g3 p by simp_all
  have d: "rendered (chatMessages (fst (handleSubmit_settle (str ''q'') 0 (Response True (JObj []))
       fresh_page))) = [error_message connect_error_text]"
    using t1 g1 f by simp
  have e: "rendered (chatMessages (fst (handleSubmit_settle (str ''q'') 0 (Response True JNull)
       fresh_page))) = [error_message connect_error_text]"
    using t4 g4 f by simp
  show ?thesis using g1 g2 g3 g4 p(1) a b c d e by (intro conjI)
qed

lemma settle_error_fallback_effects:
  "(get_prop data (str ''error'') = Inr v \<and> \<not> truthy v \<longrightarrow>
      chatMessages (fst (handleSubmit_settle q now (Response False data) s)) =
        remove_first is_typing (chatMessages s) @ [error_message fallback_error_text] \<and>
      toastContainer (fst (handleSubmit_settle q now (Response False data) s)) =
        toastContainer s @ [toast_element (str ''Error'') ToastError]) \<and>
   (get_prop data (str ''error'') = Inr (JStr e) \<and> e \<noteq> [] \<longrightarrow>
      chatMessages (fst (handleSubmit_settle q now (Response False data) s)) =
        remove_first is_typing (chatMessages s) @ [error_message (escapeHtml e)] \<and>
      toastContainer (fst (handleSubmit_settle q now (Response False data) s)) =
        toastContainer s @ [toast_element (escapeHtml e) ToastError]) \<and>
   (\<not> (\<exists>t. t \<noteq> [] \<and> get_prop data (str ''error'') = Inr (JStr t)) \<longrightarrow>
      rendered (chatMessages (fst (handleSubmit_settle q now (Response False data) s))) =
        rendered (chatMessages s) @ [error_message fallback_error_text] \<or>
      rendered (chatMessages (fst (handleSubmit_settle q now (Response False data) s))) =
        rendered (chatMessages s) @ [error_message connect_error_text]) \<and>
   (get_prop da (str ''error'') = Inr (JStr []) \<and> get_prop db (str ''error'') = Inr JUndefined \<longrightarrow>
      handleSubmit_settle q now (Response False da) s =
      handleSubmit_settle q now (Response False db) s) \<and>
   \<not> truthy (JStr []) \<and> \<not> truthy JUndefined \<and>
   get_prop (JObj []) (str ''error'') = Inr JUndefined \<and>
   fallback_error_text = str ''An error occurred while getting the answer.''"
proof -
  let ?s' = "fst (handleSubmit_settle q now (Response False data) s)"
  have a: "get_prop data (str ''error'') = Inr v \<and> \<not> truthy v \<longrightarrow>
      chatMessages ?s' =
        remove_first is_typing (chatMessages s) @ [error_message fallback_error_text] \<and>
      toastContainer ?s' = toastContainer s @ [toast_element (str ''Error'') ToastError]"
    by (auto simp: settle_error_fallback [of data v] plain_literals)
  have b: "get_prop data (str ''error'') = Inr (JStr e) \<and> e \<noteq> [] \<longrightarrow>
      chatMessages ?s' =
        remove_first is_typing (chatMessages s) @ [error_message (escapeHtml e)] \<and>
      toastContainer ?s' = toastContainer s @ [toast_element (escapeHtml e) ToastError]"
    by (simp add: settle_error_text)
  have c: "\<not> (\<exists>t. t \<noteq> [] \<and> get_prop data (str ''error'') = Inr (JStr t)) \<longrightarrow>
      rendered (chatMessages ?s') =
        rendered (chatMessages s) @ [error_message fallback_error_text] \<or>
      rendered (chatMessages ?s') =
        rendered (chatMessages s) @ [error_message connect_error_text]"
  proof
    assume h: "\<not> (\<exists>t. t \<noteq> [] \<and> get_prop data (str ''error'') = Inr (JStr t))"
    show "rendered (chatMessages ?s') =
        rendered (chatMessages s) @ [error_message fallback_error_text] \<or>
      rendered (chatMessages ?s') =
        rendered (chatMessages s) @ [error_message connect_error_text]"
    proof (cases "Response False data" rule: outcome_cases)
      case rejected
      then show ?thesis by simp
    next
      case (success d a)
      then show ?thesis by simp
    next
      case (bad_answer d)
      then show ?thesis by simp
    next
      case (error_text d t)
      then show ?thesis using h by auto
    next
      case (error_fallback d w)
      then show ?thesis
        by (simp add: settle_error_fallback [of d w] plain_literals rendered_append
            rendered_remove_first)
    next
      case (error_throws d x w)
      then show ?thesis
        by (simp add: settle_error_throws [of d x w] plain_literals rendered_append
            rendered_remove_first)
    qed
  qed
  have f: "\<not> truthy (JStr [])" "\<not> truthy JUndefined"
    by (simp_all add: truthy_def)
  have d: "get_prop da (str ''error'') = Inr (JStr []) \<and>
      get_prop db (str ''error'') = Inr JUndefined \<longrightarrow>
      handleSubmit_settle q now (Response False da) s =
      handleSubmit_settle q now (Response False db) s"
    using f by (simp add: settle_error_fallback [of da "JStr []"]
        settle_error_fallback [of db JUndefined])
  have g: "get_prop (JObj []) (str ''error'') = Inr JUndefined"
    by (simp add: get_prop_def)
  show ?thesis
    using a b c d f g fallback_error_text_def by (intro conjI)
qed

text \<open>
  Claim C10. For a response whose status is not 2xx, a falsy \<open>error\<close> (absent, empty,
  \<^verbatim>\<open>null\<close>, zero, \<^verbatim>\<open>false\<close>) gives the fallback message and the toast \<^verbatim>\<open>Error\<close>; a
  non-empty string gives that text; and when \<open>error\<close> is anything but a non-empty
  string, the message shown is the fallback or the connectivity text, never a text of the
  server. An empty string and an absent property give the very same page.
  The second part of the statement writes the error message and the toast out.
\<close>

theorem handleSubmit_error_fallback:
  \<open>((get_prop data (str ''error'') = Inr v \<and> \<not> truthy v \<longrightarrow>
      chatMessages (fst (handleSubmit_settle q now (Response False data) s)) =
        remove_first is_typing (chatMessages s) @ [error_message fallback_error_text] \<and>
      toastContainer (fst (handleSubmit_settle q now (Response False data) s)) =
        toastContainer s @ [toast_element (str ''Error'') ToastError]) \<and>
   (get_prop data (str ''error'') = Inr (JStr e) \<and> e \<noteq> [] \<longrightarrow>
      chatMessages (fst (handleSubmit_settle q now (Response False data) s)) =
        remove_first is_typing (chatMessages s) @ [error_message (escapeHtml e)] \<and>
      toastContainer (fst (handleSubmit_settle q now (Response False data) s)) =
        toastContainer s @ [toast_element (escapeHtml e) ToastError]) \<and>
   (\<not> (\<exists>t. t \<noteq> [] \<and> get_prop data (str ''error'') = Inr (JStr t)) \<longrightarrow>
      rendered (chatMessages (fst (handleSubmit_settle q now (Response False data) s))) =
        rendered (chatMessages s) @ [error_message fallback_error_text] \<or>
      rendered (chatMessages (fst (handleSubmit_settle q now (Response False data) s))) =
        rendered (chatMessages s) @ [error_message connect_error_text]) \<and>
   (get_prop da (str ''error'') = Inr (JStr []) \<and> get_prop db (str ''error'') = Inr JUndefined \<longrightarrow>
      handleSubmit_settle q now (Response False da) s =
      handleSubmit_settle q now (Response False db) s) \<and>
   \<not> truthy (JStr []) \<and> \<not> truthy JUndefined \<and>
   get_prop (JObj []) (str ''error'') = Inr JUndefined \<and>
   fallback_error_text = str ''An error occurred while getting the answer.'') \<and>
   (get_prop data (str ''error'') = Inr v \<and> \<not> truthy v \<longrightarrow>
      chatMessages (fst (handleSubmit_settle q now (Response False data) s)) =
        remove_first is_typing (chatMessages s) @
        [\<lparr>className = ''message message-error'', elem_id = [],
          innerHTML =
            str ''\<newline>    <div>\<newline>      <div class="message-label">Error</div>\<newline>      <div class="message-content">'' @
            str ''An error occurred while getting the answer.'' @
            str ''</div>\<newline>    </div>\<newline>  ''\<rparr>] \<and>
      toastContainer (fst (handleSubmit_settle q now (Response False data) s)) =
        toastContainer s @
        [\<lparr>className = ''toast error'', elem_id = [],
          innerHTML =
            str ''\<newline>    <span style="font-weight: bold; font-size: 1.2em;">'' @ [10005] @
            str ''</span>\<newline>    <span>'' @ str ''Error'' @
            str ''</span>\<newline>  ''\<rparr>]) \<and>
   (get_prop data (str ''error'') = Inr (JStr e) \<and> e \<noteq> [] \<longrightarrow>
      chatMessages (fst (handleSubmit_settle q now (Response False data) s)) =
        remove_first is_typing (chatMessages s) @
        [\<lparr>className = ''message message-error'', elem_id = [],
          innerHTML =
            str ''\<newline>    <div>\<newline>      <div class="message-label">Error</div>\<newline>      <div class="message-content">'' @
            escapeHtml e @
            str ''</div>\<newline>    </div>\<newline>  ''\<rparr>] \<and>
      toastContainer (fst (handleSubmit_settle q now (Response False data) s)) =
        toastContainer s @
        [\<lparr>className = ''toast error'', elem_id = [],
          innerHTML =
            str ''\<newline>    <span style="font-weight: bold; font-size: 1.2em;">'' @ [10005] @
            str ''</span>\<newline>    <span>'' @ escapeHtml e @
            str ''</span>\<newline>  ''\<rparr>])\<close>
proof -
  have new: \<open>(get_prop data (str ''error'') = Inr v \<and> \<not> truthy v \<longrightarrow>
      chatMessages (fst (handleSubmit_settle q now (Response False data) s)) =
        remove_first is_typing (chatMessages s) @
        [\<lparr>className = ''message message-error'', elem_id = [],
          innerHTML =
            str ''\<newline>    <div>\<newline>      <div class="message-label">Error</div>\<newline>      <div class="message-content">'' @
            str ''An error occurred while getting the answer.'' @
            str ''</div>\<newline>    </div>\<newline>  ''\<rparr>] \<and>
      toastContainer (fst (handleSubmit_settle q now (Response False data) s)) =
        toastContainer s @
        [\<lparr>className = ''toast error'', elem_id = [],
          innerHTML =
            str ''\<newline>    <span style="font-weight: bold; font-size: 1.2em;">'' @ [10005] @
            str ''</span>\<newline>    <span>'' @ str ''Error'' @
            str ''</span>\<newline>  ''\<rparr>]) \<and>
   (get_prop data (str ''error'') = Inr (JStr e) \<and> e \<noteq> [] \<longrightarrow>
      chatMessages (fst (handleSubmit_settle q now (Response False data) s)) =
        remove_first is_typing (chatMessages s) @
        [\<lparr>className = ''message message-error'', elem_id = [],
          innerHTML =
            str ''\<newline>    <div>\<newline>      <div class="message-label">Error</div>\<newline>      <div class="message-content">'' @
            escapeHtml e @
            str ''</div>\<newline>    </div>\<newline>  ''\<rparr>] \<and>
      toastContainer (fst (handleSubmit_settle q now (Response False data) s)) =
        toastContainer s @
        [\<lparr>className = ''toast error'', elem_id = [],
          innerHTML =
            str ''\<newline>    <span style="font-weight: bold; font-size: 1.2em;">'' @ [10005] @
            str ''</span>\<newline>    <span>'' @ escapeHtml e @
            str ''</span>\<newline>  ''\<rparr>])\<close>
  proof -
    have a: \<open>get_prop data (str ''error'') = Inr v \<and> \<not> truthy v \<longrightarrow>
      chatMessages (fst (handleSubmit_settle q now (Response False data) s)) =
        remove_first is_typing (chatMessages s) @
        [\<lparr>className = ''message message-error'', elem_id = [],
          innerHTML =
            str ''\<newline>    <div>\<newline>      <div class="message-label">Error</div>\<newline>      <div class="message-content">'' @
            str ''An error occurred while getting the answer.'' @
            str ''</div>\<newline>    </div>\<newline>  ''\<rparr>] \<and>
      toastContainer (fst (handleSubmit_settle q now (Response False data) s)) =
        toastContainer s @
        [\<lparr>className = ''toast error'', elem_id = [],
          innerHTML =
            str ''\<newline>    <span style="font-weight: bold; font-size: 1.2em;">'' @ [10005] @
            str ''</span>\<newline>    <span>'' @ str ''Error'' @
            str ''</span>\<newline>  ''\<rparr>]\<close>
    proof
      assume h: "get_prop data (str ''error'') = Inr v \<and> \<not> truthy v"
      have "chatMessages (fst (handleSubmit_settle q now (Response False data) s)) =
          remove_first is_typing (chatMessages s) @ [error_message fallback_error_text]"
        and "toastContainer (fst (handleSubmit_settle q now (Response False data) s)) =
          toastContainer s @ [toast_element (str ''Error'') ToastError]"
        using h by (simp_all add: settle_error_fallback [of data v] plain_literals)
      then show \<open>chatMessages (fst (handleSubmit_settle q now (Response False data) s)) =
        remove_first is_typing (chatMessages s) @
        [\<lparr>className = ''message message-error'', elem_id = [],
          innerHTML =
            str ''\<newline>    <div>\<newline>      <div class="message-label">Error</div>\<newline>      <div class="message-content">'' @
            str ''An error occurred while getting the answer.'' @
            str ''</div>\<newline>    </div>\<newline>  ''\<rparr>] \<and>
      toastContainer (fst (handleSubmit_settle q now (Response False data) s)) =
        toastContainer s @
        [\<lparr>className = ''toast error'', elem_id = [],
          innerHTML =
            str ''\<newline>    <span style="font-weight: bold; font-size: 1.2em;">'' @ [10005] @
            str ''</span>\<newline>    <span>'' @ str ''Error'' @
            str ''</span>\<newline>  ''\<rparr>]\<close>
        unfolding error_message_literal toast_error_literal fallback_error_text_def
        by (intro conjI)
    qed
    have b: \<open>get_prop data (str ''error'') = Inr (JStr e) \<and> e \<noteq> [] \<longrightarrow>
      chatMessages (fst (handleSubmit_settle q now (Response False data) s)) =
        remove_first is_typing (chatMessages s) @
        [\<lparr>className = ''message message-error'', elem_id = [],
          innerHTML =
            str ''\<newline>    <div>\<newline>      <div class="message-label">Error</div>\<newline>      <div class="message-content">'' @
            escapeHtml e @
            str ''</div>\<newline>    </div>\<newline>  ''\<rparr>] \<and>
      toastContainer (fst (handleSubmit_settle q now (Response False data) s)) =
        toastContainer s @
        [\<lparr>className = ''toast error'', elem_id = [],
          innerHTML =
            str ''\<newline>    <span style="font-weight: bold; font-size: 1.2em;">'' @ [10005] @
            str ''</span>\<newline>    <span>'' @ escapeHtml e @
            str ''</span>\<newline>  ''\<rparr>]\<close>
    proof
      assume h: "get_prop data (str ''error'') = Inr (JStr e) \<and> e \<noteq> []"
      have "chatMessages (fst (handleSubmit_settle q now (Response False data) s)) =
          remove_first is_typing (chatMessages s) @ [error_message (escapeHtml e)]"
        and "toastContainer (fst (handleSubmit_settle q now (Response False data) s)) =
          toastContainer s @ [toast_element (escapeHtml e) ToastError]"
        using h by (simp_all add: settle_error_text)
      then show \<open>chatMessages (fst (handleSubmit_settle q now (Response False data) s)) =
        remove_first is_typing (chatMessages s) @
        [\<lparr>className = ''message message-error'', elem_id = [],
          innerHTML =
            str ''\<newline>    <div>\<newline>      <div class="message-label">Error</div>\<newline>      <div class="message-content">'' @
            escapeHtml e @
            str ''</div>\<newline>    </div>\<newline>  ''\<rparr>] \<and>
      toastContainer (fst (handleSubmit_settle q now (Response False data) s)) =
        toastContainer s @
        [\<lparr>className = ''toast error'', elem_id = [],
          innerHTML =
            str ''\<newline>    <span style="font-weight: bold; font-size: 1.2em;">'' @ [10005] @
            str ''</span>\<newline>    <span>'' @ escapeHtml e @
            str ''</span>\<newline>  ''\<rparr>]\<close>
        unfolding error_message_literal toast_error_literal by (intro conjI)
    qed
    show ?thesis using a b by (intro conjI)
  qed
  show ?thesis by (rule conjI [OF settle_error_fallback_effects new])
qed

theorem handleSubmit_error_fallback_witness:
  "get_prop (JObj [(str ''error'', JStr [])]) (str ''error'') = Inr (JStr []) \<and>
   get_prop (JObj []) (str ''error'') = Inr JUndefined \<and>
   \<not> truthy (JStr []) \<and>
   handleSubmit_settle (str ''q'') 0 (Response False (JObj [(str ''error'', JStr [])])) fresh_page =
   handleSubmit_settle (str ''q'') 0 (Response False (JObj [])) fresh_page \<and>
   chatMessages (fst (handleSubmit_settle (str ''q'') 0
       (Response False (JObj [(str ''error'', JStr [])])) fresh_page)) =
     [error_message (str ''An error occurred while getting the answer.'')] \<and>
   toastContainer (fst (handleSubmit_settle (str ''q'') 0
       (Response False (JObj [(str ''error'', JStr [])])) fresh_page)) =
     [toast_element (str ''Error'') ToastError] \<and>
   get_prop (JObj [(str ''error'', JStr (str ''no''))]) (str ''error'') = Inr (JStr (str ''no'')) \<and>
   str ''no'' \<noteq> [] \<and>
   chatMessages (fst (handleSubmit_settle (str ''q'') 0
       (Response False (JObj [(str ''error'', JStr (str ''no''))])) fresh_page)) =
     [error_message (str ''no'')] \<and>
   \<not> (\<exists>t. t \<noteq> [] \<and> get_prop (JObj [(str ''error'', JNum 7)]) (str ''error'') = Inr (JStr t)) \<and>
   (rendered (chatMessages (fst (handleSubmit_settle (str ''q'') 0
       (Response False (JObj [(str ''error'', JNum 7)])) fresh_page))) =
      [error_message fallback_error_text] \<or>
    rendered (chatMessages (fst (handleSubmit_settle (str ''q'') 0
       (Response False (JObj [(str ''error'', JNum 7)])) fresh_page))) =
      [error_message connect_error_text])"
proof -
  let ?e = "JObj [(str ''error'', JStr [])]"
  let ?n = "JObj [(str ''error'', JStr (str ''no''))]"
  let ?k = "JObj [(str ''error'', JNum 7)]"
  have g1: "get_prop ?e (str ''error'') = Inr (JStr [])"
    and g2: "get_prop (JObj []) (str ''error'') = Inr JUndefined"
    and g3: "get_prop ?n (str ''error'') = Inr (JStr (str ''no''))"
    and g4: "get_prop ?k (str ''error'') = Inr (JNum 7)"
    by (simp_all add: get_prop_def)
  have g5: "\<not> (\<exists>t. t \<noteq> [] \<and> get_prop ?k (str ''error'') = Inr (JStr t))"
    by (simp add: g4)
  have f: "\<not> truthy (JStr [])" by (simp add: truthy_def)
  have n: "str ''no'' \<noteq> []" by (simp add: str_def)
  have e: "escapeHtml (str ''no'') = str ''no''"
    by (rule plain_escapeHtml) (simp add: str_def html_special_def)
  have p: "chatMessages fresh_page = []" "toastContainer fresh_page = []"
    "rendered (chatMessages fresh_page) = []"
    by (simp_all add: fresh_page_def rendered_def)
  note t1 = handleSubmit_error_fallback [where data = ?e and v = "JStr []" and da = ?e
      and db = "JObj []" and q = "str ''q''" and now = 0 and s = fresh_page, THEN conjunct1]
  note t2 = handleSubmit_error_fallback [where data = ?n and e = "str ''no''"
      and q = "str ''q''" and now = 0 and s = fresh_page, THEN conjunct1]
  note t3 = handleSubmit_error_fallback [where data = ?k and q = "str ''q''" and now = 0
      and s = fresh_page, THEN conjunct1]
  have a: "handleSubmit_settle (str ''q'') 0 (Response False ?e) fresh_page =
      handleSubmit_settle (str ''q'') 0 (Response False (JObj [])) fresh_page"
    using t1 g1 g2 by blast
  have "chatMessages (fst (handleSubmit_settle (str ''q'') 0 (Response False ?e) fresh_page)) =
      remove_first is_typing (chatMessages fresh_page) @ [error_message fallback_error_text]"
    and "toastContainer (fst (handleSubmit_settle (str ''q'') 0 (Response False ?e)
      fresh_page)) = toastContainer fresh_page @ [toast_element (str ''Error'') ToastError]"
    using t1 g1 f by blast+
  then have b: "chatMessages (fst (handleSubmit_settle (str ''q'') 0 (Response False ?e)
      fresh_page)) = [error_message (str ''An error occurred while getting the answer.'')]"
    and c: "toastContainer (fst (handleSubmit_settle (str ''q'') 0 (Response False ?e)
      fresh_page)) = [toast_element (str ''Error'') ToastError]"
    unfolding p fallback_error_text_def by simp_all
  have "chatMessages (fst (handleSubmit_settle (str ''q'') 0 (Response False ?n) fresh_page)) =
      remove_first is_typing (chatMessages fresh_page) @ [error_message (escapeHtml (str ''no''))]"
    using t2 g3 n by blast
  then have d: "chatMessages (fst (handleSubmit_settle (str ''q'') 0 (Response False ?n)
      fresh_page)) = [error_message (str ''no'')]"
    unfolding p e by simp
  have "rendered (chatMessages (fst (handleSubmit_settle (str ''q'') 0 (Response False ?k)
        fresh_page))) = rendered (chatMessages fresh_page) @ [error_message fallback_error_text] \<or>
      rendered (chatMessages (fst (handleSubmit_settle (str ''q'') 0 (Response False ?k)
        fresh_page))) = rendered (chatMessages fresh_page) @ [error_message connect_error_text]"
    using t3 g5 by blast
  then have h: "rendered (chatMessages (fst (handleSubmit_settle (str ''q'') 0
        (Response False ?k) fresh_page))) = [error_message fallback_error_text] \<or>
      rendered (chatMessages (fst (handleSubmit_settle (str ''q'') 0
        (Response False ?k) fresh_page))) = [error_message connect_error_text]"
    unfolding p by (simp add: rendered_def)
  show ?thesis using g1 g2 f a b c g3 n d g5 h by (intro conjI)
qed

lemma begin_accepted_effects:
  "trim (input_value s) \<noteq> [] \<and> \<not> isLoading s \<longrightarrow>
     chatMessages (fst (handleSubmit_begin s)) =
       chatMessages s @ [user_message (trim (input_value s)), typing_element] \<and>
     rendered (chatMessages (fst (handleSubmit_begin s))) =
       rendered (chatMessages s) @ [user_message (trim (input_value s))] \<and>
     innerHTML (user_message (trim (input_value s))) =
       message_html ''You'' (escapeHtml (trim (input_value s))) \<and>
     welcomeScreen (fst (handleSubmit_begin s)) = map_option (\<lambda>_. ''none'') (welcomeScreen s) \<and>
     input_value (fst (handleSubmit_begin s)) = [] \<and>
     input_height (fst (handleSubmit_begin s)) = str ''auto'' \<and>
     isLoading (fst (handleSubmit_begin s)) \<and>
     submit_disabled (fst (handleSubmit_begin s)) \<and>
     \<not> spinner_hidden (fst (handleSubmit_begin s)) \<and>
     icon_hidden (fst (handleSubmit_begin s)) \<and>
     btn_text (fst (handleSubmit_begin s)) = ''Sending...'' \<and>
     conversationHistory (fst (handleSubmit_begin s)) = conversationHistory s \<and>
     toastContainer (fst (handleSubmit_begin s)) = toastContainer s \<and>
     snd (handleSubmit_begin s) =
       Some \<lparr>url = ''/api/ask'', http_method = ''POST'', content_type = ''application/json'',
             body_question = trim (input_value s)\<rparr>"
proof
  assume h: "trim (input_value s) \<noteq> [] \<and> \<not> isLoading s"
  then have eq: "handleSubmit_begin s =
    (s\<lparr>welcomeScreen := map_option (\<lambda>_. ''none'') (welcomeScreen s),
       chatMessages := chatMessages s @ [user_message (trim (input_value s)), typing_element],
       input_value := [], input_height := str ''auto'',
       isLoading := True, submit_disabled := True, spinner_hidden := False,
       icon_hidden := True, btn_text := ''Sending...''\<rparr>,
     Some \<lparr>url = ''/api/ask'', http_method = ''POST'', content_type = ''application/json'',
           body_question = trim (input_value s)\<rparr>)"
    by (simp add: begin_accepted)
  show "chatMessages (fst (handleSubmit_begin s)) =
       chatMessages s @ [user_message (trim (input_value s)), typing_element] \<and>
     rendered (chatMessages (fst (handleSubmit_begin s))) =
       rendered (chatMessages s) @ [user_message (trim (input_value s))] \<and>
     innerHTML (user_message (trim (input_value s))) =
       message_html ''You'' (escapeHtml (trim (input_value s))) \<and>
     welcomeScreen (fst (handleSubmit_begin s)) = map_option (\<lambda>_. ''none'') (welcomeScreen s) \<and>
     input_value (fst (handleSubmit_begin s)) = [] \<and>
     input_height (fst (handleSubmit_begin s)) = str ''auto'' \<and>
     isLoading (fst (handleSubmit_begin s)) \<and>
     submit_disabled (fst (handleSubmit_begin s)) \<and>
     \<not> spinner_hidden (fst (handleSubmit_begin s)) \<and>
     icon_hidden (fst (handleSubmit_begin s)) \<and>
     btn_text (fst (handleSubmit_begin s)) = ''Sending...'' \<and>
     conversationHistory (fst (handleSubmit_begin s)) = conversationHistory s \<and>
     toastContainer (fst (handleSubmit_begin s)) = toastContainer s \<and>
     snd (handleSubmit_begin s) =
       Some \<lparr>url = ''/api/ask'', http_method = ''POST'', content_type = ''application/json'',
             body_question = trim (input_value s)\<rparr>"
    unfolding eq by (simp add: rendered_def innerHTML_user_message)
qed

text \<open>
  Claim C4. When the input is not empty after trimming and no submission is pending,
  the first part of \<open>handleSubmit\<close>, the one that runs before the response is awaited,
  appends exactly one user message (holding the escaped, trimmed input) and then the
  typing indicator, hides the welcome screen if there is one, empties the input field and
  sets the loading state: the flag, the disabled button, the spinner, the hidden icon and
  the label. It issues one POST request to \<^verbatim>\<open>/api/ask\<close> whose body carries the trimmed
  input.
  The second part of the statement writes the two appended elements out.
\<close>

theorem handleSubmit_accepts:
  \<open>(trim (input_value s) \<noteq> [] \<and> \<not> isLoading s \<longrightarrow>
     chatMessages (fst (handleSubmit_begin s)) =
       chatMessages s @ [user_message (trim (input_value s)), typing_element] \<and>
     rendered (chatMessages (fst (handleSubmit_begin s))) =
       rendered (chatMessages s) @ [user_message (trim (input_value s))] \<and>
     innerHTML (user_message (trim (input_value s))) =
       message_html ''You'' (escapeHtml (trim (input_value s))) \<and>
     welcomeScreen (fst (handleSubmit_begin s)) = map_option (\<lambda>_. ''none'') (welcomeScreen s) \<and>
     input_value (fst (handleSubmit_begin s)) = [] \<and>
     input_height (fst (handleSubmit_begin s)) = str ''auto'' \<and>
     isLoading (fst (handleSubmit_begin s)) \<and>
     submit_disabled (fst (handleSubmit_begin s)) \<and>
     \<not> spinner_hidden (fst (handleSubmit_begin s)) \<and>
     icon_hidden (fst (handleSubmit_begin s)) \<and>
     btn_text (fst (handleSubmit_begin s)) = ''Sending...'' \<and>
     conversationHistory (fst (handleSubmit_begin s)) = conversationHistory s \<and>
     toastContainer (fst (handleSubmit_begin s)) = toastContainer s \<and>
     snd (handleSubmit_begin s) =
       Some \<lparr>url = ''/api/ask'', http_method = ''POST'', content_type = ''application/json'',
             body_question = trim (input_value s)\<rparr>) \<and>
   (trim (input_value s) \<noteq> [] \<and> \<not> isLoading s \<longrightarrow>
      chatMessages (fst (handleSubmit_begin s)) =
        chatMessages s @
        [\<lparr>className = ''message message-user'', elem_id = [],
          innerHTML =
            str ''\<newline>    <div>\<newline>      <div class="message-label">You</div>\<newline>      <div class="message-content">'' @
            escapeHtml (trim (input_value s)) @
            str ''</div>\<newline>    </div>\<newline>  ''\<rparr>,
         \<lparr>className = ''message message-ai'', elem_id = ''typingIndicator'',
         innerHTML =
           str ''\<newline>    <div>\<newline>      <div class="message-label">AI Assistant</div>\<newline>'' @
           str ''      <div class="message-content">\<newline>        <div class="typing-indicator">\<newline>'' @
           str ''          <div class="typing-dot"></div>\<newline>          <div class="typing-dot"></div>\<newline>'' @
           str ''          <div class="typing-dot"></div>\<newline>        </div>\<newline>      </div>\<newline>'' @
           str ''    </div>\<newline>  ''\<rparr>])\<close>
proof -
  have new: \<open>(trim (input_value s) \<noteq> [] \<and> \<not> isLoading s \<longrightarrow>
      chatMessages (fst (handleSubmit_begin s)) =
        chatMessages s @
        [\<lparr>className = ''message message-user'', elem_id = [],
          innerHTML =
            str ''\<newline>    <div>\<newline>      <div class="message-label">You</div>\<newline>      <div class="message-content">'' @
            escapeHtml (trim (input_value s)) @
            str ''</div>\<newline>    </div>\<newline>  ''\<rparr>,
         \<lparr>className = ''message message-ai'', elem_id = ''typingIndicator'',
         innerHTML =
           str ''\<newline>    <div>\<newline>      <div class="message-label">AI Assistant</div>\<newline>'' @
           str ''      <div class="message-content">\<newline>        <div class="typing-indicator">\<newline>'' @
           str ''          <div class="typing-dot"></div>\<newline>          <div class="typing-dot"></div>\<newline>'' @
           str ''          <div class="typing-dot"></div>\<newline>        </div>\<newline>      </div>\<newline>'' @
           str ''    </div>\<newline>  ''\<rparr>])\<close>
  proof
    assume h: "trim (input_value s) \<noteq> [] \<and> \<not> isLoading s"
    have "chatMessages (fst (handleSubmit_begin s)) =
        chatMessages s @ [user_message (trim (input_value s)), typing_element]"
      using h by (simp add: begin_accepted)
    then show \<open>chatMessages (fst (handleSubmit_begin s)) =
        chatMessages s @
        [\<lparr>className = ''message message-user'', elem_id = [],
          innerHTML =
            str ''\<newline>    <div>\<newline>      <div class="message-label">You</div>\<newline>      <div class="message-content">'' @
            escapeHtml (trim (input_value s)) @
            str ''</div>\<newline>    </div>\<newline>  ''\<rparr>,
         \<lparr>className = ''message message-ai'', elem_id = ''typingIndicator'',
         innerHTML =
           str ''\<newline>    <div>\<newline>      <div class="message-label">AI Assistant</div>\<newline>'' @
           str ''      <div class="message-content">\<newline>        <div class="typing-indicator">\<newline>'' @
           str ''          <div class="typing-dot"></div>\<newline>          <div class="typing-dot"></div>\<newline>'' @
           str ''          <div class="typing-dot"></div>\<newline>        </div>\<newline>      </div>\<newline>'' @
           str ''    </div>\<newline>  ''\<rparr>]\<close>
      unfolding user_message_literal typing_element_literal .
  qed
  show ?thesis by (rule conjI [OF begin_accepted_effects new])
qed

theorem handleSubmit_accepts_witness:
  "trim (input_value (fresh_page\<lparr>input_value := str '' <b> ''\<rparr>)) = str ''<b>'' \<and>
   str ''<b>'' \<noteq> [] \<and> \<not> isLoading (fresh_page\<lparr>input_value := str '' <b> ''\<rparr>) \<and>
   chatMessages (fst (handleSubmit_begin (fresh_page\<lparr>input_value := str '' <b> ''\<rparr>))) =
     [user_message (str ''<b>''), typing_element] \<and>
   innerHTML (user_message (str ''<b>'')) = message_html ''You'' (str ''&lt;b&gt;'') \<and>
   welcomeScreen (fst (handleSubmit_begin (fresh_page\<lparr>input_value := str '' <b> ''\<rparr>))) =
     Some ''none'' \<and>
   input_value (fst (handleSubmit_begin (fresh_page\<lparr>input_value := str '' <b> ''\<rparr>))) = [] \<and>
   isLoading (fst (handleSubmit_begin (fresh_page\<lparr>input_value := str '' <b> ''\<rparr>))) \<and>
   snd (handleSubmit_begin (fresh_page\<lparr>input_value := str '' <b> ''\<rparr>)) =
     Some \<lparr>url = ''/api/ask'', http_method = ''POST'', content_type = ''application/json'',
           body_question = str ''<b>''\<rparr>"
proof -
  let ?s = "fresh_page\<lparr>input_value := str '' <b> ''\<rparr>"
  have t: "trim (input_value ?s) = str ''<b>''"
    by (simp add: trim_def str_def is_space_def)
  have n: "str ''<b>'' \<noteq> []" by (simp add: str_def)
  have ne: "trim (input_value ?s) \<noteq> []" unfolding t by (rule n)
  have l: "\<not> isLoading ?s" and c: "chatMessages ?s = []"
    and w: "welcomeScreen ?s = Some []"
    by (simp_all add: fresh_page_def)
  have e: "escapeHtml (str ''<b>'') = str ''&lt;b&gt;''"
    by (simp add: escapeHtml_def replace_class_def html_special_def str_def entity_map_def)
  note th = handleSubmit_accepts [where s = ?s, THEN conjunct1]
  have a: "chatMessages (fst (handleSubmit_begin ?s)) =
      chatMessages ?s @ [user_message (trim (input_value ?s)), typing_element]"
    and b: "innerHTML (user_message (trim (input_value ?s))) =
      message_html ''You'' (escapeHtml (trim (input_value ?s)))"
    and d: "welcomeScreen (fst (handleSubmit_begin ?s)) =
      map_option (\<lambda>_. ''none'') (welcomeScreen ?s)"
    and f: "input_value (fst (handleSubmit_begin ?s)) = []"
    and g: "isLoading (fst (handleSubmit_begin ?s))"
    and r: "snd (handleSubmit_begin ?s) =
       Some \<lparr>url = ''/api/ask'', http_method = ''POST'', content_type = ''application/json'',
             body_question = trim (input_value ?s)\<rparr>"
    using th ne l by blast+
  have a': "chatMessages (fst (handleSubmit_begin ?s)) =
      [user_message (str ''<b>''), typing_element]"
    using a unfolding t c by simp
  have b': "innerHTML (user_message (str ''<b>'')) = message_html ''You'' (str ''&lt;b&gt;'')"
    using b unfolding t e .
  have d': "welcomeScreen (fst (handleSubmit_begin ?s)) = Some ''none''"
    using d unfolding w by simp
  have r': "snd (handleSubmit_begin ?s) =
       Some \<lparr>url = ''/api/ask'', http_method = ''POST'', content_type = ''application/json'',
             body_question = str ''<b>''\<rparr>"
    using r unfolding t .
  show ?thesis using t n l a' b' d' f g r' by (intro conjI)
qed

text \<open>
  Claim C3. \<open>handleSubmit\<close> does nothing when the input is empty after trimming (which
  is the case exactly when it consists of white space) or when \<open>isLoading\<close> is set,
  whatever the input is then: the page is unchanged and no request is issued. (The call
  \<^verbatim>\<open>e.preventDefault()\<close> acts on the event, not on the page.) Hence, on every run of
  the page from its loaded state, at most one request is in flight, and while one is, the
  flag is set and a further submission changes nothing.
\<close>

theorem handleSubmit_rejects:
  "(trim (input_value s) = [] \<or> isLoading s \<longrightarrow> handleSubmit_begin s = (s, None)) \<and>
   (trim (input_value s) = [] \<longleftrightarrow> list_all is_space (input_value s)) \<and>
   (loaded p \<longrightarrow>
      length (inflight (run evs (start p))) \<le> 1 \<and>
      (inflight (run evs (start p)) \<noteq> [] \<longrightarrow>
         isLoading (ui (run evs (start p))) \<and>
         handleSubmit_begin (ui (run evs (start p))) = (ui (run evs (start p)), None) \<and>
         step Submit (run evs (start p)) = run evs (start p)))"
proof -
  have a: "trim (input_value s) = [] \<or> isLoading s \<longrightarrow> handleSubmit_begin s = (s, None)"
    using begin_rejected [of s] by blast
  have b: "trim (input_value s) = [] \<longleftrightarrow> list_all is_space (input_value s)"
    by (rule trim_empty_iff)
  have c: "loaded p \<longrightarrow>
      length (inflight (run evs (start p))) \<le> 1 \<and>
      (inflight (run evs (start p)) \<noteq> [] \<longrightarrow>
         isLoading (ui (run evs (start p))) \<and>
         handleSubmit_begin (ui (run evs (start p))) = (ui (run evs (start p)), None) \<and>
         step Submit (run evs (start p)) = run evs (start p))"
  proof
    assume "loaded p"
    then have k: "consistent (run evs (start p))" by (rule reachable_consistent)
    then have l: "length (inflight (run evs (start p))) \<le> 1"
      by (simp add: consistent_def)
    have m: "inflight (run evs (start p)) \<noteq> [] \<longrightarrow>
         isLoading (ui (run evs (start p))) \<and>
         handleSubmit_begin (ui (run evs (start p))) = (ui (run evs (start p)), None) \<and>
         step Submit (run evs (start p)) = run evs (start p)"
    proof
      assume "inflight (run evs (start p)) \<noteq> []"
      then have i: "isLoading (ui (run evs (start p)))"
        using k by (simp add: consistent_def)
      then show "isLoading (ui (run evs (start p))) \<and>
         handleSubmit_begin (ui (run evs (start p))) = (ui (run evs (start p)), None) \<and>
         step Submit (run evs (start p)) = run evs (start p)"
        using begin_rejected [of "ui (run evs (start p))"] step_submit_pending [OF i]
        by blast
    qed
    show "length (inflight (run evs (start p))) \<le> 1 \<and>
      (inflight (run evs (start p)) \<noteq> [] \<longrightarrow>
         isLoading (ui (run evs (start p))) \<and>
         handleSubmit_begin (ui (run evs (start p))) = (ui (run evs (start p)), None) \<and>
         step Submit (run evs (start p)) = run evs (start p))"
      using l m by (intro conjI)
  qed
  show ?thesis using a b c by (intro conjI)
qed


theorem handleSubmit_rejects_witness:
  "trim (input_value (fresh_page\<lparr>input_value := str ''  ''\<rparr>)) = [] \<and>
   handleSubmit_begin (fresh_page\<lparr>input_value := str ''  ''\<rparr>) =
     (fresh_page\<lparr>input_value := str ''  ''\<rparr>, None) \<and>
   isLoading (fresh_page\<lparr>input_value := str ''again'', isLoading := True\<rparr>) \<and>
   handleSubmit_begin (fresh_page\<lparr>input_value := str ''again'', isLoading := True\<rparr>) =
     (fresh_page\<lparr>input_value := str ''again'', isLoading := True\<rparr>, None) \<and>
   loaded fresh_page \<and>
   inflight (run [Input (str ''hi'') 20, Submit] (start fresh_page)) = [str ''hi''] \<and>
   isLoading (ui (run [Input (str ''hi'') 20, Submit] (start fresh_page))) \<and>
   step Submit (run [Input (str ''hi'') 20, Submit] (start fresh_page)) =
     run [Input (str ''hi'') 20, Submit] (start fresh_page)"
proof -
  let ?w = "fresh_page\<lparr>input_value := str ''  ''\<rparr>"
  let ?l = "fresh_page\<lparr>input_value := str ''again'', isLoading := True\<rparr>"
  let ?y = "run [Input (str ''hi'') 20, Submit] (start fresh_page)"
  have w: "trim (input_value ?w) = []"
    by (simp add: trim_def str_def is_space_def)
  have l: "isLoading ?l" by simp
  have p: "loaded fresh_page"
    by (simp add: loaded_def fresh_page_def)
  have i: "inflight ?y = [str ''hi'']" by (rule run_example)
  then have ne: "inflight ?y \<noteq> []" by simp
  have a: "handleSubmit_begin ?w = (?w, None)"
    using handleSubmit_rejects [where s = ?w] w by blast
  have b: "handleSubmit_begin ?l = (?l, None)"
    using handleSubmit_rejects [where s = ?l] l by blast
  have c: "isLoading (ui ?y)" and d: "step Submit ?y = ?y"
    using handleSubmit_rejects [where p = fresh_page and evs = "[Input (str ''hi'') 20, Submit]"]
      p ne by blast+
  show ?thesis using w a l b p i c d by (intro conjI)
qed

text \<open>
  Claim C5. Whatever the outcome of the exchange (a response of either status with any
  body, or an exception), the settlement throws nothing, clears the loading state (the
  flag, the button, the spinner, the icon and the label) and removes a typing
  indicator, so that none is left when there was at most one; the page then accepts a new
  submission. On every run of the page from its loaded state, after a settlement no
  request is in flight, the flag is clear and the list holds no typing indicator.
\<close>

theorem handleSubmit_returns_to_idle:
  "snd (handleSubmit_settle q now out s) = None \<and>
   \<not> isLoading (fst (handleSubmit_settle q now out s)) \<and>
   \<not> submit_disabled (fst (handleSubmit_settle q now out s)) \<and>
   spinner_hidden (fst (handleSubmit_settle q now out s)) \<and>
   \<not> icon_hidden (fst (handleSubmit_settle q now out s)) \<and>
   btn_text (fst (handleSubmit_settle q now out s)) = ''Send'' \<and>
   typing_count (fst (handleSubmit_settle q now out s)) \<le> typing_count s - 1 \<and>
   (typing_count s \<le> 1 \<longrightarrow> typing_count (fst (handleSubmit_settle q now out s)) = 0) \<and>
   (trim (input_value (fst (handleSubmit_settle q now out s))) \<noteq> [] \<longrightarrow>
      snd (handleSubmit_begin (fst (handleSubmit_settle q now out s))) \<noteq> None) \<and>
   (loaded p \<longrightarrow>
      inflight (run (evs @ [Settle now out]) (start p)) = [] \<and>
      \<not> isLoading (ui (run (evs @ [Settle now out]) (start p))) \<and>
      typing_count (ui (run (evs @ [Settle now out]) (start p))) = 0)"
proof -
  let ?s' = "fst (handleSubmit_settle q now out s)"
  note i = settle_idle [of q now out s]
  have a: "typing_count s \<le> 1 \<longrightarrow> typing_count ?s' = 0"
    using i by auto
  have b: "trim (input_value ?s') \<noteq> [] \<longrightarrow> snd (handleSubmit_begin ?s') \<noteq> None"
  proof
    assume "trim (input_value ?s') \<noteq> []"
    moreover have "\<not> isLoading ?s'" using i by blast
    ultimately show "snd (handleSubmit_begin ?s') \<noteq> None"
      by (simp add: begin_accepted)
  qed
  have c: "loaded p \<longrightarrow>
      inflight (run (evs @ [Settle now out]) (start p)) = [] \<and>
      \<not> isLoading (ui (run (evs @ [Settle now out]) (start p))) \<and>
      typing_count (ui (run (evs @ [Settle now out]) (start p))) = 0"
  proof
    assume "loaded p"
    then have k: "consistent (run evs (start p))" by (rule reachable_consistent)
    have r: "run (evs @ [Settle now out]) (start p) = step (Settle now out) (run evs (start p))"
      by (simp add: run_append)
    show "inflight (run (evs @ [Settle now out]) (start p)) = [] \<and>
      \<not> isLoading (ui (run (evs @ [Settle now out]) (start p))) \<and>
      typing_count (ui (run (evs @ [Settle now out]) (start p))) = 0"
      unfolding r using settled_idle [OF k, of now out] by (intro conjI)
  qed
  show ?thesis using i a b c by (intro conjI) blast+
qed

theorem handleSubmit_returns_to_idle_witness:
  "typing_count (append_message typing_element fresh_page) \<le> 1 \<and>
   typing_count (fst (handleSubmit_settle (str ''q'') 0 JsonRejected
     (append_message typing_element fresh_page))) = 0 \<and>
   \<not> isLoading (fst (handleSubmit_settle (str ''q'') 0 JsonRejected
     (append_message typing_element fresh_page))) \<and>
   loaded fresh_page \<and>
   inflight (run ([Input (str ''hi'') 20, Submit] @ [Settle 0 (Response False JNull)])
     (start fresh_page)) = [] \<and>
   \<not> isLoading (ui (run ([Input (str ''hi'') 20, Submit] @ [Settle 0 (Response False JNull)])
     (start fresh_page))) \<and>
   typing_count (ui (run ([Input (str ''hi'') 20, Submit] @ [Settle 0 (Response False JNull)])
     (start fresh_page))) = 0"
proof -
  let ?p = "append_message typing_element fresh_page"
  have t: "typing_count ?p \<le> 1"
    by (simp add: append_message_def fresh_page_def typing_count_def)
  have l: "loaded fresh_page"
    by (simp add: loaded_def fresh_page_def)
  note t1 = handleSubmit_returns_to_idle [where q = "str ''q''" and now = 0 and out = JsonRejected
      and s = ?p]
  note t2 = handleSubmit_returns_to_idle [where p = fresh_page
      and evs = "[Input (str ''hi'') 20, Submit]" and now = 0 and out = "Response False JNull"]
  have a: "typing_count (fst (handleSubmit_settle (str ''q'') 0 JsonRejected ?p)) = 0"
    using t1 t by blast
  have b: "\<not> isLoading (fst (handleSubmit_settle (str ''q'') 0 JsonRejected ?p))"
    using t1 by blast
  have c: "inflight (run ([Input (str ''hi'') 20, Submit] @ [Settle 0 (Response False JNull)])
     (start fresh_page)) = []"
    and d: "\<not> isLoading (ui (run ([Input (str ''hi'') 20, Submit] @
     [Settle 0 (Response False JNull)]) (start fresh_page)))"
    and e: "typing_count (ui (run ([Input (str ''hi'') 20, Submit] @
     [Settle 0 (Response False JNull)]) (start fresh_page))) = 0"
    using t2 l by blast+
  show ?thesis using t a b l c d e by (intro conjI)
qed


text \<open>
  Claim C8. When the user confirms, \<open>clearChat\<close> empties the message list, shows the
  welcome screen again, resets \<open>conversationHistory\<close> to the empty list and shows the
  toast \<^verbatim>\<open>Chat cleared\<close> of type info; when the user declines, the page is unchanged.
  The code does so on a document that has the welcome screen. On a document that has
  none, which \<open>handleSubmit\<close> allows for by testing \<^verbatim>\<open>welcomeScreen\<close> before it writes
  to it, \<open>clearChat\<close> writes to it untested: the message list is emptied, the assignment
  throws a TypeError, and the history is not reset and no toast is shown.
\<close>

theorem clearChat_cases:
  \<open>(welcomeScreen s = Some d \<longrightarrow>
      clearChat True s =
        (s\<lparr>chatMessages := [], welcomeScreen := Some ''flex'', conversationHistory := [],
           toastContainer := toastContainer s @
             [\<lparr>className = ''toast info'', elem_id = [],
            innerHTML =
              str ''\<newline>    <span style="font-weight: bold; font-size: 1.2em;">'' @ [8505] @
              str ''</span>\<newline>    <span>'' @ str ''Chat cleared'' @
              str ''</span>\<newline>  ''\<rparr>]\<rparr>,
         None)) \<and>
   (welcomeScreen s = None \<longrightarrow>
      hide_welcome s = (s, None) \<and>
      clearChat True s = (s\<lparr>chatMessages := []\<rparr>, Some TypeError) \<and>
      conversationHistory (fst (clearChat True s)) = conversationHistory s \<and>
      toastContainer (fst (clearChat True s)) = toastContainer s) \<and>
   clearChat False s = (s, None)\<close>
proof -
  have a: \<open>welcomeScreen s = Some d \<longrightarrow>
      clearChat True s =
        (s\<lparr>chatMessages := [], welcomeScreen := Some ''flex'', conversationHistory := [],
           toastContainer := toastContainer s @
             [\<lparr>className = ''toast info'', elem_id = [],
            innerHTML =
              str ''\<newline>    <span style="font-weight: bold; font-size: 1.2em;">'' @ [8505] @
              str ''</span>\<newline>    <span>'' @ str ''Chat cleared'' @
              str ''</span>\<newline>  ''\<rparr>]\<rparr>,
         None)\<close>
    using clearChat_confirmed [of s d] unfolding toast_info_literal by blast
  have b: "welcomeScreen s = None \<longrightarrow>
      hide_welcome s = (s, None) \<and>
      clearChat True s = (s\<lparr>chatMessages := []\<rparr>, Some TypeError) \<and>
      conversationHistory (fst (clearChat True s)) = conversationHistory s \<and>
      toastContainer (fst (clearChat True s)) = toastContainer s"
    by (simp add: clearChat_no_welcome hide_welcome_def)
  show ?thesis using a b clearChat_declined [of s] by (intro conjI)
qed

theorem clearChat_cases_witness:
  \<open>welcomeScreen (ui (run [Input (str ''hi'') 20, Submit,
        Settle 0 (Response True (JObj [(str ''answer'', JStr (str ''yo''))]))]
      (start (fresh_page\<lparr>welcomeScreen := None\<rparr>)))) = None \<and>
   conversationHistory (ui (run [Input (str ''hi'') 20, Submit,
        Settle 0 (Response True (JObj [(str ''answer'', JStr (str ''yo''))]))]
      (start (fresh_page\<lparr>welcomeScreen := None\<rparr>)))) =
     [\<lparr>question = str ''hi'', answer = JStr (str ''yo''), timestamp = 0\<rparr>] \<and>
   snd (clearChat True (ui (run [Input (str ''hi'') 20, Submit,
        Settle 0 (Response True (JObj [(str ''answer'', JStr (str ''yo''))]))]
      (start (fresh_page\<lparr>welcomeScreen := None\<rparr>))))) = Some TypeError \<and>
   chatMessages (fst (clearChat True (ui (run [Input (str ''hi'') 20, Submit,
        Settle 0 (Response True (JObj [(str ''answer'', JStr (str ''yo''))]))]
      (start (fresh_page\<lparr>welcomeScreen := None\<rparr>)))))) = [] \<and>
   conversationHistory (fst (clearChat True (ui (run [Input (str ''hi'') 20, Submit,
        Settle 0 (Response True (JObj [(str ''answer'', JStr (str ''yo''))]))]
      (start (fresh_page\<lparr>welcomeScreen := None\<rparr>)))))) =
     [\<lparr>question = str ''hi'', answer = JStr (str ''yo''), timestamp = 0\<rparr>] \<and>
   toastContainer (fst (clearChat True (ui (run [Input (str ''hi'') 20, Submit,
        Settle 0 (Response True (JObj [(str ''answer'', JStr (str ''yo''))]))]
      (start (fresh_page\<lparr>welcomeScreen := None\<rparr>)))))) =
     toastContainer (ui (run [Input (str ''hi'') 20, Submit,
        Settle 0 (Response True (JObj [(str ''answer'', JStr (str ''yo''))]))]
      (start (fresh_page\<lparr>welcomeScreen := None\<rparr>)))) \<and>
   welcomeScreen fresh_page = Some [] \<and>
   conversationHistory (fst (clearChat True fresh_page)) = [] \<and>
   welcomeScreen (fst (clearChat True fresh_page)) = Some ''flex'' \<and>
   snd (clearChat True fresh_page) = None \<and>
   clearChat False fresh_page = (fresh_page, None)\<close>
proof -
  let ?d = "JObj [(str ''answer'', JStr (str ''yo''))]"
  let ?y = "run [Input (str ''hi'') 20, Submit, Settle 0 (Response True ?d)]
      (start (fresh_page\<lparr>welcomeScreen := None\<rparr>))"
  have g: "get_prop ?d (str ''answer'') = Inr (JStr (str ''yo''))"
    by (simp add: get_prop_def str_def)
  have t: "trim (str ''hi'') = str ''hi''"
    by (simp add: trim_def str_def is_space_def)
  have n: "str ''hi'' \<noteq> []" by (simp add: str_def)
  have w: "welcomeScreen (ui ?y) = None"
    and h: "conversationHistory (ui ?y) =
      [\<lparr>question = str ''hi'', answer = JStr (str ''yo''), timestamp = 0\<rparr>]"
    by (simp_all add: start_def fresh_page_def autoResizeTextarea_def update_def
        handleSubmit_begin_def command_defs t n Let_def settle_success [OF g])
  note th = clearChat_cases [where s = "ui ?y"]
  have c: "clearChat True (ui ?y) = ((ui ?y)\<lparr>chatMessages := []\<rparr>, Some TypeError)"
    and k: "conversationHistory (fst (clearChat True (ui ?y))) = conversationHistory (ui ?y)"
    and o: "toastContainer (fst (clearChat True (ui ?y))) = toastContainer (ui ?y)"
    using th w by blast+
  have c1: "snd (clearChat True (ui ?y)) = Some TypeError"
    and c2: "chatMessages (fst (clearChat True (ui ?y))) = []"
    unfolding c by simp_all
  have k': "conversationHistory (fst (clearChat True (ui ?y))) =
      [\<lparr>question = str ''hi'', answer = JStr (str ''yo''), timestamp = 0\<rparr>]"
    using k unfolding h .
  have f: "welcomeScreen fresh_page = Some []" by (simp add: fresh_page_def)
  note tf = clearChat_cases [where s = fresh_page and d = "[]"]
  have \<open>clearChat True fresh_page =
        (fresh_page\<lparr>chatMessages := [], welcomeScreen := Some ''flex'', conversationHistory := [],
           toastContainer := toastContainer fresh_page @
             [\<lparr>className = ''toast info'', elem_id = [],
            innerHTML =
              str ''\<newline>    <span style="font-weight: bold; font-size: 1.2em;">'' @ [8505] @
              str ''</span>\<newline>    <span>'' @ str ''Chat cleared'' @
              str ''</span>\<newline>  ''\<rparr>]\<rparr>,
         None)\<close>
    using tf f by blast
  then have p1: "conversationHistory (fst (clearChat True fresh_page)) = []"
    and p2: "welcomeScreen (fst (clearChat True fresh_page)) = Some ''flex''"
    and p3: "snd (clearChat True fresh_page) = None"
    by simp_all
  have p4: "clearChat False fresh_page = (fresh_page, None)" using tf by blast
  show ?thesis using w h c1 c2 k' o f p1 p2 p3 p4 by (intro conjI)
qed

end
